theory Spec2Isabelle
  imports Complex_Main "HOL-Library.AList" "HOL-Library.Sublist" "HOL-Library.Multiset"
begin

section \<open>Python values and their string renderings\<close>

text \<open>
  Both pipelines hand every cell of a column to a Python function (\<open>Series.apply\<close> in
  \<^verbatim>\<open>src/parse.py\<close>, \<open>map_elements\<close> in \<^verbatim>\<open>src/2019/parse.py\<close>). A cell is \<open>None\<close>, an
  integer, a float or a string. A float is carried by its \<open>repr\<close> (\<open>''1.0''\<close>, \<open>''1.5e+16''\<close>,
  \<open>''nan''\<close>, \<open>''inf''\<close>): the mapping code reads a cell only through \<open>str\<close>, f-string
  formatting and the null tests, and \<open>repr\<close> names a float uniquely. Strings are lists of
  code points below 256.
\<close>

datatype pyval = PNone | PInt int | PFloat string | PStr string

definition digit_char :: "nat \<Rightarrow> char" where
  "digit_char d = char_of (48 + d)"

fun str_nat :: "nat \<Rightarrow> string" where
  "str_nat n = (if n < 10 then [digit_char n] else str_nat (n div 10) @ [digit_char (n mod 10)])"

declare str_nat.simps [simp del]

definition str_int :: "int \<Rightarrow> string" where
  "str_int i = (if i < 0 then CHR ''-'' # str_nat (nat (- i)) else str_nat (nat i))"

text \<open>\<open>str(val)\<close>, which is also what \<open>f"{val}"\<close> inserts.\<close>

fun py_str :: "pyval \<Rightarrow> string" where
  "py_str PNone = ''None''"
| "py_str (PInt i) = str_int i"
| "py_str (PFloat r) = r"
| "py_str (PStr s) = s"

text \<open>\<open>pd.isna(val)\<close> on a scalar: \<open>None\<close> and the float NaN.\<close>

definition isna :: "pyval \<Rightarrow> bool" where
  "isna v = (v = PNone \<or> v = PFloat ''nan'')"

section \<open>Python's \<open>float(str)\<close>\<close>

text \<open>
  \<open>float\<close> of a string: underscores are allowed between digits only and are removed; white
  space is stripped at both ends; then an optional sign and either \<open>inf\<close>, \<open>infinity\<close>, \<open>nan\<close>
  (in any case) or a decimal numeral with an optional exponent. The numeral's value is
  rounded to the nearest binary64 number, ties to even; anything else is a \<open>ValueError\<close>
  (\<open>None\<close> here).
\<close>

datatype pyfloat = Finite rat | Infinite bool | NaN

definition is_digit :: "char \<Rightarrow> bool" where
  "is_digit c = (48 \<le> (of_char c :: nat) \<and> (of_char c :: nat) \<le> 57)"

definition is_space :: "char \<Rightarrow> bool" where
  "is_space c = ((of_char c :: nat) \<in> {9, 10, 11, 12, 13, 32, 133, 160})"

definition to_lower :: "char \<Rightarrow> char" where
  "to_lower c = (if 65 \<le> (of_char c :: nat) \<and> (of_char c :: nat) \<le> 90
                 then char_of ((of_char c :: nat) + 32) else c)"

definition digit_val :: "char \<Rightarrow> nat" where
  "digit_val c = of_char c - 48"

definition nat_of_digits :: "string \<Rightarrow> nat" where
  "nat_of_digits s = foldl (\<lambda>a c. 10 * a + digit_val c) 0 s"

fun underscores_ok :: "char \<Rightarrow> string \<Rightarrow> bool" where
  "underscores_ok prev [] = (prev \<noteq> CHR ''_'')"
| "underscores_ok prev (c # cs) =
     ((if c = CHR ''_'' then is_digit prev
       else if prev = CHR ''_'' then is_digit c else True)
      \<and> underscores_ok c cs)"

definition remove_underscores :: "string \<Rightarrow> string option" where
  "remove_underscores s =
     (if underscores_ok (CHR 0x00) s then Some (filter (\<lambda>c. c \<noteq> CHR ''_'') s) else None)"

definition py_strip :: "string \<Rightarrow> string" where
  "py_strip s = rev (dropWhile is_space (rev (dropWhile is_space s)))"

definition split_sign :: "string \<Rightarrow> bool \<times> string" where
  "split_sign s =
     (case s of
        [] \<Rightarrow> (False, [])
      | c # t \<Rightarrow> if c = CHR ''-'' then (True, t)
                 else if c = CHR ''+'' then (False, t) else (False, s))"

definition parse_exponent :: "string \<Rightarrow> int option" where
  "parse_exponent r =
     (case r of
        [] \<Rightarrow> Some 0
      | c # t \<Rightarrow>
          if c = CHR ''e'' \<or> c = CHR ''E'' then
            (case split_sign t of
               (neg, ds) \<Rightarrow>
                 if ds \<noteq> [] \<and> list_all is_digit ds
                 then Some (if neg then - int (nat_of_digits ds) else int (nat_of_digits ds))
                 else None)
          else None)"

text \<open>A numeral \<open>digits [. digits] [exponent]\<close> with at least one digit, as the pair
  \<open>(m, e)\<close> of its value \<open>m * 10 ^ e\<close>.\<close>

definition parse_decimal :: "string \<Rightarrow> (nat \<times> int) option" where
  "parse_decimal s =
     (let ip = takeWhile is_digit s;
          r1 = dropWhile is_digit s;
          has_dot = (case r1 of [] \<Rightarrow> False | c # _ \<Rightarrow> c = CHR ''.'');
          fp = (if has_dot then takeWhile is_digit (tl r1) else []);
          r2 = (if has_dot then dropWhile is_digit (tl r1) else r1)
      in if ip = [] \<and> fp = [] then None
         else (case parse_exponent r2 of
                 None \<Rightarrow> None
               | Some e \<Rightarrow> Some (nat_of_digits (ip @ fp), e - int (length fp))))"

definition dec_value :: "nat \<Rightarrow> int \<Rightarrow> rat" where
  "dec_value m e = (if 0 \<le> e then of_nat m * 10 ^ nat e else of_nat m / 10 ^ nat (- e))"

subsection \<open>Rounding to binary64\<close>

fun bit_length :: "nat \<Rightarrow> nat" where
  "bit_length n = (if n = 0 then 0 else Suc (bit_length (n div 2)))"

declare bit_length.simps [simp del]

definition pow2 :: "int \<Rightarrow> rat" where
  "pow2 k = (if 0 \<le> k then 2 ^ nat k else 1 / 2 ^ nat (- k))"

definition round_half_even :: "rat \<Rightarrow> int" where
  "round_half_even x =
     (let f = \<lfloor>x\<rfloor>; d = x - of_int f
      in if d < 1 / 2 then f else if 1 / 2 < d then f + 1 else if even f then f else f + 1)"

text \<open>
  \<open>e\<close> is the binary exponent of \<open>\<bar>q\<bar>\<close> (\<open>2 ^ e \<le> \<bar>q\<bar> < 2 ^ (e + 1)\<close>); the significand has
  53 bits, and no bit is worth less than \<open>2 ^ - 1074\<close> (the subnormal numbers). A result of
  \<open>2 ^ 1024\<close> or more is an infinity.
\<close>

definition round64 :: "rat \<Rightarrow> pyfloat" where
  "round64 q =
     (if q = 0 then Finite 0
      else
        let a = \<bar>q\<bar>;
            k = int (bit_length (nat (fst (quotient_of a)))) - int (bit_length (nat (snd (quotient_of a))));
            e = (if pow2 k \<le> a then k else k - 1);
            p = max (e - 52) (- 1074);
            v = of_int (round_half_even (a / pow2 p)) * pow2 p
        in if pow2 1024 \<le> v then Infinite (q < 0)
           else Finite (if q < 0 then - v else v))"

definition py_float :: "string \<Rightarrow> pyfloat option" where
  "py_float s0 =
     (case remove_underscores s0 of
        None \<Rightarrow> None
      | Some s1 \<Rightarrow>
          (case split_sign (py_strip s1) of
             (neg, body) \<Rightarrow>
               if map to_lower body = ''inf'' \<or> map to_lower body = ''infinity''
               then Some (Infinite neg)
               else if map to_lower body = ''nan'' then Some NaN
               else (case parse_decimal body of
                       None \<Rightarrow> None
                     | Some (m, e) \<Rightarrow>
                         Some (round64 (if neg then - dec_value m e else dec_value m e)))))"

section \<open>Code maps and the two cell mappers\<close>

text \<open>
  A code map is a Python dict from keys to descriptions. The maps of \<^verbatim>\<open>mappings.py\<close> are
  not part of the sources, so every map is a parameter; the literal maps of
  \<^verbatim>\<open>src/2019/parse.py\<close> have string keys and, twice, the key \<open>None\<close>.
\<close>

type_synonym codemap = "pyval \<rightharpoonup> string"

text \<open>\<^verbatim>\<open>src/parse.py\<close>, lines 31 to 41: a rendering with a dot that \<open>float\<close> reads as an
  integral number is replaced by \<open>str(int(float_val))\<close>; the bare \<open>except\<close> keeps the
  rendering when \<open>float\<close> raises.\<close>

definition normalize_code :: "string \<Rightarrow> string" where
  "normalize_code str_val =
     (if CHR ''.'' \<in> set str_val then
        (case py_float str_val of
           Some (Finite q) \<Rightarrow> if of_int \<lfloor>q\<rfloor> = q then str_int \<lfloor>q\<rfloor> else str_val
         | _ \<Rightarrow> str_val)
      else str_val)"

text \<open>\<^verbatim>\<open>src/parse.py\<close>, \<open>clean_and_map\<close> (lines 26 to 44).\<close>

definition clean_and_map :: "codemap \<Rightarrow> pyval \<Rightarrow> pyval" where
  "clean_and_map mapping_dict val =
     (if isna val then PStr ''Unknown''
      else (case mapping_dict (PStr (normalize_code (py_str val))) of
              Some d \<Rightarrow> PStr d
            | None \<Rightarrow> PStr (''Unknown ('' @ py_str val @ '')'')))"

text \<open>\<^verbatim>\<open>src/2019/parse.py\<close>, \<open>map_value\<close> (lines 493 to 499).\<close>

definition map_value :: "codemap \<Rightarrow> pyval \<Rightarrow> pyval" where
  "map_value mapping_dict v =
     (if v = PNone then PNone
      else (case mapping_dict (PStr (py_str v)) of
              Some d \<Rightarrow> PStr d
            | None \<Rightarrow> PStr (''Unknown ('' @ py_str v @ '')'')))"

text \<open>The literal maps of \<^verbatim>\<open>src/2019/parse.py\<close>: lines 366 and 374 (the same dict), and
  line 382.\<close>

definition yes_no_mapping_with_none :: codemap where
  "yes_no_mapping_with_none = [PStr ''1'' \<mapsto> ''yes'', PStr ''2'' \<mapsto> ''no'', PNone \<mapsto> ''yes'']"

definition yes_no_mapping :: codemap where
  "yes_no_mapping = [PStr ''1'' \<mapsto> ''yes'', PStr ''2'' \<mapsto> ''no'']"

section \<open>Tables\<close>

text \<open>
  A pandas DataFrame (\<^verbatim>\<open>src/parse.py\<close>) is its columns in order, each a name with its cells.
  A polars DataFrame (\<^verbatim>\<open>src/2019/parse.py\<close>) also gives every column a dtype, which
  concatenation compares.
\<close>

type_synonym pd_frame = "(string \<times> pyval list) list"

datatype dtype = Int64 | Float64 | Utf8 | NullType

datatype column = Column (cname: string) (ctype: dtype) (cells: "pyval list")

type_synonym pl_frame = "column list"

definition pd_columns :: "pd_frame \<Rightarrow> string list" where
  "pd_columns df = map fst df"

definition pl_columns :: "pl_frame \<Rightarrow> string list" where
  "pl_columns df = map cname df"

definition get_column :: "pl_frame \<Rightarrow> string \<Rightarrow> column option" where
  "get_column df n = find (\<lambda>c. cname c = n) df"

text \<open>\<open>df[name] = cells\<close> in pandas and \<open>df.with_columns(expr.alias(name))\<close> in polars: a
  column of that name is replaced where it stands, a new one is added at the end.\<close>

definition set_column :: "pd_frame \<Rightarrow> string \<Rightarrow> pyval list \<Rightarrow> pd_frame" where
  "set_column df n vs =
     (if n \<in> set (pd_columns df) then map (\<lambda>(m, ws). if m = n then (m, vs) else (m, ws)) df
      else df @ [(n, vs)])"

definition with_column :: "pl_frame \<Rightarrow> column \<Rightarrow> pl_frame" where
  "with_column df col =
     (if cname col \<in> set (pl_columns df)
      then map (\<lambda>c. if cname c = cname col then col else c) df
      else df @ [col])"

definition drop_column :: "string \<Rightarrow> pl_frame \<Rightarrow> pl_frame" where
  "drop_column n df = filter (\<lambda>c. cname c \<noteq> n) df"

definition rename_column :: "string \<Rightarrow> string \<Rightarrow> pl_frame \<Rightarrow> pl_frame" where
  "rename_column old new df =
     map (\<lambda>c. if cname c = old then Column new (ctype c) (cells c) else c) df"

text \<open>Cell \<open>i\<close> of the column named \<open>n\<close>, if there is one.\<close>

definition pd_cell :: "pd_frame \<Rightarrow> string \<Rightarrow> nat \<Rightarrow> pyval option" where
  "pd_cell df n i =
     (case map_of df n of
        None \<Rightarrow> None
      | Some vs \<Rightarrow> if i < length vs then Some (vs ! i) else None)"

definition pl_cell :: "pl_frame \<Rightarrow> string \<Rightarrow> nat \<Rightarrow> pyval option" where
  "pl_cell df n i =
     (case get_column df n of
        None \<Rightarrow> None
      | Some c \<Rightarrow> if i < length (cells c) then Some (cells c ! i) else None)"

fun is_str :: "pyval \<Rightarrow> bool" where
  "is_str (PStr s) = True"
| "is_str v = False"

section \<open>Mapping one column\<close>

text \<open>\<^verbatim>\<open>src/parse.py\<close>, \<open>map_codes_to_descriptions\<close> (lines 6 to 54). Nothing in the \<open>try\<close>
  block raises: \<open>clean_and_map\<close> catches what \<open>float\<close> raises, and \<open>dict.get\<close> of a string
  does not raise.\<close>

definition map_codes_to_descriptions_pd :: "pd_frame \<Rightarrow> string \<Rightarrow> codemap \<Rightarrow> pd_frame" where
  "map_codes_to_descriptions_pd df column_name mapping_dict =
     (if column_name \<notin> set (pd_columns df) then df
      else map (\<lambda>(n, vs). if n = column_name then (n, map (clean_and_map mapping_dict) vs)
                           else (n, vs)) df)"

text \<open>\<^verbatim>\<open>src/2019/parse.py\<close>, \<open>map_codes_to_descriptions\<close> (lines 461 to 512).
  \<open>map_elements\<close> with \<open>return_dtype=pl.Utf8\<close> gives the column the dtype \<open>Utf8\<close>. A
  \<open>Struct\<close> column (lines 481 to 486) cannot come from the CSV files that
  \<^verbatim>\<open>src/convert.py\<close> converts, and is not modelled.\<close>

definition map_codes_to_descriptions_pl :: "pl_frame \<Rightarrow> string \<Rightarrow> codemap \<Rightarrow> pl_frame" where
  "map_codes_to_descriptions_pl df column_name mapping_dict =
     (case get_column df column_name of
        None \<Rightarrow> df
      | Some c \<Rightarrow>
          with_column df (Column column_name Utf8 (map (map_value mapping_dict) (cells c))))"

section \<open>The try blocks of the mapping functions\<close>

text \<open>
  Each of the four mapping functions does its work in a \<open>try\<close> block, and its handler
  prints the exception and returns \<open>df\<close>. No function assigns \<open>df\<close> before the last step of
  its block that can raise, so the \<open>df\<close> of the handler is the table that the function was
  given. \<open>try_except\<close> is that frame: the table that the block made, or the input table
  together with the exception that was printed.
\<close>

definition try_except :: "'t \<Rightarrow> 'e + 't \<Rightarrow> 't \<times> 'e option" where
  "try_except df block = (case block of Inr out \<Rightarrow> (out, None) | Inl e \<Rightarrow> (df, Some e))"

text \<open>\<open>Series.apply(f)\<close>, \<open>map_elements(f)\<close> and \<open>astype\<close> on a column of objects take the
  cells from the first to the last; the first exception ends the call.\<close>

fun apply_cells :: "('a \<Rightarrow> 'e + 'b) \<Rightarrow> 'a list \<Rightarrow> 'e + 'b list" where
  "apply_cells f [] = Inr []"
| "apply_cells f (v # vs) =
     (case f v of
        Inl e \<Rightarrow> Inl e
      | Inr w \<Rightarrow> (case apply_cells f vs of Inl e \<Rightarrow> Inl e | Inr ws \<Rightarrow> Inr (w # ws)))"

text \<open>\<open>map_codes_to_descriptions\<close> of \<^verbatim>\<open>src/parse.py\<close> (lines 18 to 54) with the function
  that is given to \<open>apply\<close> left open; \<open>clean_and_map\<close> is one that never raises.\<close>

definition try_map_codes_pd ::
    "(pyval \<Rightarrow> 'e + pyval) \<Rightarrow> pd_frame \<Rightarrow> string \<Rightarrow> pd_frame \<times> 'e option" where
  "try_map_codes_pd f df column_name =
     (case map_of df column_name of
        None \<Rightarrow> (df, None)
      | Some vs \<Rightarrow>
          try_except df
            (case apply_cells f vs of
               Inl e \<Rightarrow> Inl e
             | Inr ws \<Rightarrow> Inr (set_column df column_name ws)))"

text \<open>\<open>map_codes_to_descriptions\<close> of \<^verbatim>\<open>src/2019/parse.py\<close> (lines 473 to 512), likewise.
  \<open>map_elements\<close> does not call the function on a null cell, which stays null
  (\<open>skip_nulls\<close> is on unless it is turned off).\<close>

definition try_map_codes_pl ::
    "(pyval \<Rightarrow> 'e + pyval) \<Rightarrow> pl_frame \<Rightarrow> string \<Rightarrow> pl_frame \<times> 'e option" where
  "try_map_codes_pl f df column_name =
     (case get_column df column_name of
        None \<Rightarrow> (df, None)
      | Some c \<Rightarrow>
          try_except df
            (case apply_cells (\<lambda>v. if v = PNone then Inr PNone else f v) (cells c) of
               Inl e \<Rightarrow> Inl e
             | Inr ws \<Rightarrow> Inr (with_column df (Column column_name Utf8 ws))))"

text \<open>\<open>map_district_codes\<close> of \<^verbatim>\<open>src/2019/parse.py\<close> (lines 524 to 564) with the function of
  the state and the district left open; \<open>map_district\<close> is one that never raises.\<close>

definition try_map_district_pl ::
    "(pyval \<Rightarrow> pyval \<Rightarrow> 'e + pyval) \<Rightarrow> pl_frame \<Rightarrow> pl_frame \<times> 'e option" where
  "try_map_district_pl f df =
     (case get_column df ''State'' of
        None \<Rightarrow> (df, None)
      | Some st \<Rightarrow>
          (case get_column df ''District'' of
             None \<Rightarrow> (df, None)
           | Some di \<Rightarrow>
               try_except df
                 (case apply_cells (\<lambda>(s, d). f s d) (zip (cells st) (cells di)) of
                    Inl e \<Rightarrow> Inl e
                  | Inr ws \<Rightarrow>
                      Inr (rename_column ''district_name'' ''District''
                             (drop_column ''District''
                                (with_column df (Column ''district_name'' Utf8 ws)))))))"

section \<open>The final column order\<close>

text \<open>\<^verbatim>\<open>src/parse.py\<close>, lines 293 to 307, and \<^verbatim>\<open>src/2019/parse.py\<close>, lines 410 to 446: the
  same list of names and the same two comprehensions in both files.\<close>

definition desired_column_order :: "string list" where
  "desired_column_order =
     [''person_id'', ''state'', ''district'', ''gender'', ''age'', ''marital_status'',
      ''education'', ''religion'', ''social_group'', ''household_size'',
      ''monthly_expenditure'', ''principal_activity'', ''industry'',
      ''activity_serial_no'', ''time_from'', ''time_to'', ''multiple_activity'',
      ''simultaneous_activity'', ''is_major_activity'', ''activity_code'',
      ''activity_location'', ''payment_status'', ''enterprise_type'']"

definition final_column_order :: "string list \<Rightarrow> string list \<Rightarrow> string list" where
  "final_column_order column_order columns =
     (let available_desired_columns = filter (\<lambda>col. col \<in> set columns) column_order;
          remaining_columns = filter (\<lambda>col. col \<notin> set column_order) columns
      in available_desired_columns @ remaining_columns)"

text \<open>\<open>df.select(names)\<close> in polars and \<open>df[names]\<close> in pandas; a name that is not a column
  raises (\<open>None\<close>), and so does a name given twice in polars.\<close>

definition pl_select :: "pl_frame \<Rightarrow> string list \<Rightarrow> pl_frame option" where
  "pl_select df names = (if distinct names then those (map (get_column df) names) else None)"

definition pd_select :: "pd_frame \<Rightarrow> string list \<Rightarrow> pd_frame option" where
  "pd_select df names = those (map (\<lambda>n. map_option (Pair n) (map_of df n)) names)"

definition reorder_pl :: "string list \<Rightarrow> pl_frame \<Rightarrow> pl_frame option" where
  "reorder_pl column_order df = pl_select df (final_column_order column_order (pl_columns df))"

definition reorder_pd :: "string list \<Rightarrow> pd_frame \<Rightarrow> pd_frame option" where
  "reorder_pd column_order df = pd_select df (final_column_order column_order (pd_columns df))"

section \<open>Household and person identifiers\<close>

definition GROUP_BY_COLUMNS :: "string list" where
  "GROUP_BY_COLUMNS =
     [''FSU Serial No.'', ''Sector'', ''State'', ''District'', ''Stratum'', ''Sub-Stratum'',
      ''Sub-Round'', ''FOD Sub-Region'', ''Sample hhld. No.'']"

definition COLUMN_ALIASES :: "(string \<times> string list) list" where
  "COLUMN_ALIASES =
     [(''Schedule'', ['', Schedule'']),
      (''Sl.No.'', [''Person serial no.'', ''Serial no.of member''])]"

text \<open>\<open>cast(pl.Utf8)\<close>. How polars prints a float is the library's business: \<open>fmt\<close> takes
  the float's \<open>repr\<close> to that string.\<close>

fun cast_str :: "(string \<Rightarrow> string) \<Rightarrow> pyval \<Rightarrow> pyval" where
  "cast_str fmt PNone = PNone"
| "cast_str fmt (PInt i) = PStr (str_int i)"
| "cast_str fmt (PFloat r) = PStr (fmt r)"
| "cast_str fmt (PStr s) = PStr s"

definition cast_utf8 :: "(string \<Rightarrow> string) \<Rightarrow> column \<Rightarrow> column" where
  "cast_utf8 fmt c = Column (cname c) Utf8 (map (cast_str fmt) (cells c))"

text \<open>\<open>pl.concat_str\<close>: every column is cast to a string and the strings of a row are
  joined with no separator; a row with a null in it gives null.\<close>

definition str_join :: "pyval \<Rightarrow> pyval \<Rightarrow> pyval" where
  "str_join a b = (if a = PNone \<or> b = PNone then PNone else PStr (py_str a @ py_str b))"

fun concat_cells :: "pyval list list \<Rightarrow> pyval list" where
  "concat_cells [] = []"
| "concat_cells [c] = c"
| "concat_cells (c # cs) = map2 str_join c (concat_cells cs)"

definition concat_str :: "(string \<Rightarrow> string) \<Rightarrow> column list \<Rightarrow> pyval list" where
  "concat_str fmt cols = concat_cells (map (\<lambda>c. cells (cast_utf8 fmt c)) cols)"

text \<open>\<^verbatim>\<open>src/2019/parse.py\<close>, \<open>process_parquet_file\<close>: line 29 (an \<open>IndexError\<close> on a file
  of fewer than two columns ends in the outer \<open>except\<close>), lines 33 to 36, and lines 39 to
  62 (\<open>add_household_id\<close>).\<close>

definition keep_columns :: "pl_frame \<Rightarrow> pl_frame option" where
  "keep_columns df = (case df of c0 # c1 # rest \<Rightarrow> Some (c1 # drop 2 rest) | _ \<Rightarrow> None)"

definition rename_alias :: "string \<Rightarrow> pl_frame \<Rightarrow> string \<Rightarrow> pl_frame" where
  "rename_alias standard_name df alias =
     (if alias \<in> set (pl_columns df) \<and> standard_name \<notin> set (pl_columns df)
      then rename_column alias standard_name df else df)"

definition normalize_aliases :: "(string \<times> string list) list \<Rightarrow> pl_frame \<Rightarrow> pl_frame" where
  "normalize_aliases als df =
     foldl (\<lambda>d (standard_name, aliases). foldl (rename_alias standard_name) d aliases) df als"

definition cast_named :: "(string \<Rightarrow> string) \<Rightarrow> pl_frame \<Rightarrow> string \<Rightarrow> pl_frame" where
  "cast_named fmt df col =
     (case get_column df col of None \<Rightarrow> df | Some c \<Rightarrow> with_column df (cast_utf8 fmt c))"

definition add_household_id :: "(string \<Rightarrow> string) \<Rightarrow> pl_frame \<Rightarrow> pl_frame option" where
  "add_household_id fmt df =
     (let available_group_cols = filter (\<lambda>col. col \<in> set (pl_columns df)) GROUP_BY_COLUMNS
      in if available_group_cols = [] then None
         else
           (let df1 = foldl (cast_named fmt) df available_group_cols
            in Some (with_column df1
                 (Column ''household_id'' Utf8
                    (concat_str fmt (List.map_filter (get_column df1) available_group_cols))))))"

definition process_parquet_file :: "(string \<Rightarrow> string) \<Rightarrow> pl_frame \<Rightarrow> pl_frame option" where
  "process_parquet_file fmt df =
     (case keep_columns df of
        None \<Rightarrow> None
      | Some d \<Rightarrow> add_household_id fmt (normalize_aliases COLUMN_ALIASES d))"

datatype pl_error = SchemaError | ShapeError | ColumnNotFoundError

text \<open>\<^verbatim>\<open>src/2019/parse.py\<close>, lines 174 to 188: \<open>person_id\<close> from \<open>household_id\<close> and
  \<open>Sl.No.\<close>, the latter dropped and the former moved to the front.\<close>

definition add_person_id :: "(string \<Rightarrow> string) \<Rightarrow> pl_frame \<Rightarrow> pl_error + pl_frame" where
  "add_person_id fmt individual_profile =
     (case get_column individual_profile ''Sl.No.'' of
        None \<Rightarrow> Inr individual_profile
      | Some s \<Rightarrow>
          (case get_column individual_profile ''household_id'' of
             None \<Rightarrow> Inl ColumnNotFoundError
           | Some h \<Rightarrow>
               (let df1 = with_column individual_profile
                            (Column ''person_id'' Utf8 (concat_str fmt [h, s]));
                    df2 = drop_column ''Sl.No.'' df1
                in Inr (List.map_filter (get_column df2)
                          (''person_id'' # filter (\<lambda>col. col \<noteq> ''person_id'') (pl_columns df2))))))"

datatype py_error = KeyError | ValueError | TypeError | OverflowError

text \<open>\<^verbatim>\<open>src/parse.py\<close>, line 217: the twelve key columns (those of \<open>join_keys\<close>, line 201, in
  the same order), each \<open>astype(str)\<close>, added up as strings from left to right, then \<open>'_'\<close>,
  then the person's serial number. A missing column is a \<open>KeyError\<close>, which \<open>main\<close> does not
  catch.\<close>

definition join_keys :: "string list" where
  "join_keys =
     [''Schedule ID'', ''FSU Serial No.'', ''Schedule'', ''survey year'', ''Sector'',
      ''NSS-Region'', ''District'', ''Stratum'', ''Sub-Stratum'', ''Sub-Round'',
      ''FOD Sub-Region'', ''Sample hhld. No.'']"

definition astype_str :: "pyval list \<Rightarrow> string list" where
  "astype_str vs = map py_str vs"

definition str_add :: "string list \<Rightarrow> string list \<Rightarrow> string list" where
  "str_add xs ys = map2 (@) xs ys"

definition person_id_cells :: "pyval list list \<Rightarrow> pyval list \<Rightarrow> string list" where
  "person_id_cells key_cols person =
     (case map astype_str key_cols of
        [] \<Rightarrow> []
      | c # cs \<Rightarrow> str_add (map (\<lambda>s. s @ ''_'') (foldl str_add c cs)) (astype_str person))"

definition make_person_id :: "pd_frame \<Rightarrow> py_error + pd_frame" where
  "make_person_id merged_df =
     (case those (map (map_of merged_df) join_keys) of
        None \<Rightarrow> Inl KeyError
      | Some key_cols \<Rightarrow>
          (case map_of merged_df ''Person serial no.'' of
             None \<Rightarrow> Inl KeyError
           | Some person \<Rightarrow>
               Inr (set_column merged_df ''person_id''
                      (map PStr (person_id_cells key_cols person)))))"

section \<open>District names\<close>

subsection \<open>\<^verbatim>\<open>src/2019/parse.py\<close>, \<open>map_district_codes\<close> (lines 514 to 564)\<close>

text \<open>\<open>DISTRICT_MAPPING\<close> of \<^verbatim>\<open>mappings.py\<close> is a dict of dicts, state code to district
  code to name; it is a parameter.\<close>

type_synonym district_mapping = "pyval \<rightharpoonup> codemap"

definition map_district :: "district_mapping \<Rightarrow> pyval \<Rightarrow> pyval \<Rightarrow> pyval" where
  "map_district DISTRICT_MAPPING state_val district_val =
     (if state_val = PNone \<or> district_val = PNone then PNone
      else
        (case DISTRICT_MAPPING (PStr (py_str state_val)) of
           None \<Rightarrow> PStr (''Unknown District ('' @ py_str district_val @ '')'')
         | Some district_map \<Rightarrow>
             (case district_map (PStr (py_str district_val)) of
                None \<Rightarrow> PStr (''Unknown District ('' @ py_str district_val @ '')'')
              | Some d \<Rightarrow> PStr d)))"

definition map_district_codes_pl :: "district_mapping \<Rightarrow> pl_frame \<Rightarrow> pl_frame" where
  "map_district_codes_pl DISTRICT_MAPPING df =
     (case get_column df ''State'' of
        None \<Rightarrow> df
      | Some st \<Rightarrow>
          (case get_column df ''District'' of
             None \<Rightarrow> df
           | Some di \<Rightarrow>
               rename_column ''district_name'' ''District''
                 (drop_column ''District''
                    (with_column df
                       (Column ''district_name'' Utf8
                          (map2 (map_district DISTRICT_MAPPING) (cells st) (cells di)))))))"

subsection \<open>\<^verbatim>\<open>src/parse.py\<close>, \<open>map_district_codes\<close> (lines 56 to 180)\<close>

text \<open>
  The reference table \<^verbatim>\<open>raw/districts.csv\<close> is a parameter: the table that \<open>read_csv\<close>
  returns, whatever its columns. The two log files are not modelled, nor is a failure to
  read or write a file.

  A pandas column has a dtype: a column of integers of the \<open>int64\<close> range only is an
  \<open>int64\<close> column, a column of floats only is a \<open>float64\<close> column, and any other column holds
  Python objects.
\<close>

datatype pd_dtype = PdInt64 | PdFloat64 | PdObject

definition in_int64 :: "int \<Rightarrow> bool" where
  "in_int64 i = (- (2 ^ 63) \<le> i \<and> i < 2 ^ 63)"

fun is_int64_cell :: "pyval \<Rightarrow> bool" where
  "is_int64_cell (PInt i) = in_int64 i"
| "is_int64_cell v = False"

fun is_float_cell :: "pyval \<Rightarrow> bool" where
  "is_float_cell (PFloat r) = True"
| "is_float_cell v = False"

definition pd_dtype_of :: "pyval list \<Rightarrow> pd_dtype" where
  "pd_dtype_of vs =
     (if list_all is_int64_cell vs then PdInt64
      else if list_all is_float_cell vs then PdFloat64 else PdObject)"

text \<open>\<open>int(str)\<close>: white space stripped, an optional sign, digits with single underscores
  between them; more than 4300 digits are refused (Python 3.11).\<close>

definition int_of_digits :: "string \<Rightarrow> int" where
  "int_of_digits s = foldl (\<lambda>a c. 10 * a + int (digit_val c)) 0 s"

definition py_int :: "string \<Rightarrow> py_error + int" where
  "py_int s0 =
     (case split_sign (py_strip s0) of
        (neg, body) \<Rightarrow>
          if body \<noteq> [] \<and> underscores_ok (CHR 0x00) body
             \<and> list_all (\<lambda>c. is_digit c \<or> c = CHR ''_'') body
          then (if 4300 < int (length (filter (\<lambda>c. c \<noteq> CHR ''_'') body)) then Inl ValueError
                else Inr ((if neg then - 1 else 1)
                          * int_of_digits (filter (\<lambda>c. c \<noteq> CHR ''_'') body)))
          else Inl ValueError)"

text \<open>
  \<open>astype(int)\<close> makes an \<open>int64\<close> column. A Python object is converted as \<open>int\<close> converts it
  (a float is truncated, \<open>None\<close> is a \<open>TypeError\<close>, NaN a \<open>ValueError\<close>, an infinity an
  \<open>OverflowError\<close>), and an integer outside the \<open>int64\<close> range is an \<open>OverflowError\<close>. In a
  \<open>float64\<close> column NaN and the infinities are a \<open>ValueError\<close>, and any other float goes
  through the C cast, which truncates; for a float outside the \<open>int64\<close> range the cast is
  undefined in C, and on x86-64 it gives the smallest \<open>int64\<close>, which is what is written
  here.
\<close>

definition to_int64 :: "int \<Rightarrow> py_error + int" where
  "to_int64 i = (if in_int64 i then Inr i else Inl OverflowError)"

definition py_trunc :: "rat \<Rightarrow> int" where
  "py_trunc q = (if 0 \<le> q then \<lfloor>q\<rfloor> else - \<lfloor>- q\<rfloor>)"

definition cast_float_int64 :: "rat \<Rightarrow> int" where
  "cast_float_int64 q = (if in_int64 (py_trunc q) then py_trunc q else - (2 ^ 63))"

fun astype_int_cell :: "pd_dtype \<Rightarrow> pyval \<Rightarrow> py_error + int" where
  "astype_int_cell dt PNone = Inl TypeError"
| "astype_int_cell dt (PInt i) = to_int64 i"
| "astype_int_cell dt (PFloat r) =
     (case py_float r of
        Some (Finite q) \<Rightarrow>
          if dt = PdFloat64 then Inr (cast_float_int64 q) else to_int64 (py_trunc q)
      | Some (Infinite neg) \<Rightarrow> Inl (if dt = PdFloat64 then ValueError else OverflowError)
      | _ \<Rightarrow> Inl ValueError)"
| "astype_int_cell dt (PStr s) = (case py_int s of Inl e \<Rightarrow> Inl e | Inr i \<Rightarrow> to_int64 i)"

definition astype_int :: "pyval list \<Rightarrow> py_error + int list" where
  "astype_int vs = apply_cells (astype_int_cell (pd_dtype_of vs)) vs"

text \<open>\<open>df[name].astype(int)\<close>; a table without that column raises \<open>KeyError\<close>.\<close>

definition astype_int_column :: "pd_frame \<Rightarrow> string \<Rightarrow> py_error + int list" where
  "astype_int_column df n = (case map_of df n of None \<Rightarrow> Inl KeyError | Some vs \<Rightarrow> astype_int vs)"

text \<open>Lines 84 to 86: the three code columns of the reference table.\<close>

definition code_columns :: "string list" where
  "code_columns = [''Sub-region Code'', ''District Code'', ''State Code'']"

definition district_codes :: "pd_frame \<Rightarrow> py_error + int list \<times> int list \<times> int list" where
  "district_codes districts_df =
     (case astype_int_column districts_df ''Sub-region Code'' of
        Inl e \<Rightarrow> Inl e
      | Inr subs \<Rightarrow>
          (case astype_int_column districts_df ''District Code'' of
             Inl e \<Rightarrow> Inl e
           | Inr dists \<Rightarrow>
               (case astype_int_column districts_df ''State Code'' of
                  Inl e \<Rightarrow> Inl e
                | Inr states \<Rightarrow> Inr (subs, dists, states))))"

text \<open>
  \<open>str\<close> of the float nearest to an integer, which is how an f-string prints it. Below
  \<open>10 ^ 16\<close> that is the float's value with \<open>.0\<close> after it. From \<open>10 ^ 16\<close> on it is the
  exponent notation, with the fewest digits that read back as the same float: of the
  decimals of \<open>d\<close> digits on either side of the value, the nearer one that reads back as
  the value (on a tie, the one with the even last digit), for the least \<open>d\<close> that has
  one.
\<close>

definition reads_as :: "int \<Rightarrow> int \<Rightarrow> bool" where
  "reads_as c v = (round64 (of_int c) = Finite (of_int v))"

definition shortest_with :: "int \<Rightarrow> nat \<Rightarrow> int option" where
  "shortest_with v d =
     (let u = 10 ^ (length (str_int v) - d);
          lo = (v div u) * u;
          hi = lo + u
      in if reads_as lo v \<and> reads_as hi v
         then Some (if v - lo < hi - v then lo
                    else if hi - v < v - lo then hi
                    else if even (v div u) then lo else hi)
         else if reads_as lo v then Some lo
         else if reads_as hi v then Some hi
         else None)"

definition shortest_repr :: "int \<Rightarrow> int" where
  "shortest_repr v = (case List.map_filter (shortest_with v) [1..<18] of [] \<Rightarrow> v | c # _ \<Rightarrow> c)"

text \<open>The magnitude \<open>v\<close> of the float is not negative.\<close>

definition str_float_abs :: "int \<Rightarrow> string" where
  "str_float_abs v =
     (if v < 10 ^ 16 then str_int v @ ''.0''
      else
        (let s = str_int (shortest_repr v)
         in (case rev (dropWhile (\<lambda>c. c = CHR ''0'') (rev s)) of
               [] \<Rightarrow> []
             | c # ds \<Rightarrow>
                 c # (if ds = [] then [] else CHR ''.'' # ds)
                 @ ''e+'' @ str_nat (length s - 1))))"

definition str_float_of_int :: "int \<Rightarrow> string" where
  "str_float_of_int n =
     (case round64 (of_int n) of
        Finite q \<Rightarrow> if q < 0 then CHR ''-'' # str_float_abs \<lfloor>- q\<rfloor> else str_float_abs \<lfloor>q\<rfloor>
      | Infinite neg \<Rightarrow> (if neg then ''-inf'' else ''inf'')
      | NaN \<Rightarrow> ''nan'')"

text \<open>
  Lines 110 to 114. \<open>iterrows\<close> hands out every row as a Series of one dtype for all the
  columns of the table: objects if a column holds objects, else \<open>float64\<close> if a column is
  \<open>float64\<close>, else \<open>int64\<close>; the three code columns are \<open>int64\<close> after lines 84 to 86. In a
  \<open>float64\<close> row the integers are floats, so the codes of a table that has no column of
  text are printed as \<open>1.0\<close>. The dict keeps a key where it was first inserted and the
  value that was last written. A table with a row and no \<open>State Name\<close> or \<open>District Name\<close>
  raises \<open>KeyError\<close>.
\<close>

definition row_dtype :: "pd_frame \<Rightarrow> pd_dtype" where
  "row_dtype districts_df =
     (let dtypes = map (\<lambda>(n, vs). if n \<in> set code_columns then PdInt64 else pd_dtype_of vs)
                     districts_df
      in if PdObject \<in> set dtypes then PdObject
         else if PdFloat64 \<in> set dtypes then PdFloat64 else PdInt64)"

fun upcast :: "pd_dtype \<Rightarrow> pyval \<Rightarrow> pyval" where
  "upcast PdFloat64 (PInt n) = PFloat (str_float_of_int n)"
| "upcast dt v = v"

definition reference_key :: "pd_dtype \<Rightarrow> int \<Rightarrow> int \<Rightarrow> int \<Rightarrow> string" where
  "reference_key dt sub_region district state =
     py_str (upcast dt (PInt sub_region)) @ ''_'' @ py_str (upcast dt (PInt district))
     @ ''_'' @ py_str (upcast dt (PInt state))"

definition district_lookup ::
    "pd_frame \<Rightarrow> int list \<times> int list \<times> int list \<Rightarrow> py_error + (string \<times> pyval \<times> pyval) list" where
  "district_lookup districts_df codes =
     (case codes of
        (subs, dists, states) \<Rightarrow>
          if subs = [] then Inr []
          else
            (case map_of districts_df ''State Name'' of
               None \<Rightarrow> Inl KeyError
             | Some state_names \<Rightarrow>
                 (case map_of districts_df ''District Name'' of
                    None \<Rightarrow> Inl KeyError
                  | Some district_names \<Rightarrow>
                      (let dt = row_dtype districts_df
                       in Inr (foldl (\<lambda>mapping_dict (k, v). AList.update k v mapping_dict) []
                                 (zip (map (\<lambda>(a, b, c). reference_key dt a b c)
                                         (zip subs (zip dists states)))
                                      (zip (map (upcast dt) state_names)
                                           (map (upcast dt) district_names))))))))"

text \<open>Lines 89 to 103, on the copy \<open>df_for_mapping\<close>, and the key of line 128, which is made
  of \<open>int64\<close> columns. Only the two columns of the input validation are known to be
  there: a table with no \<open>NSS-Region\<close> raises \<open>KeyError\<close>.\<close>

definition extract_state_code :: "pyval \<Rightarrow> pyval" where
  "extract_state_code nss_region =
     (let nss_str = py_str nss_region
      in if length nss_str = 3 then PStr (take 2 nss_str)
         else if length nss_str = 2 then PStr (take 1 nss_str)
         else PStr nss_str)"

definition district_key :: "int \<Rightarrow> int \<Rightarrow> int \<Rightarrow> string" where
  "district_key sub_region district state =
     str_int sub_region @ ''_'' @ str_int district @ ''_'' @ str_int state"

definition mapping_keys :: "pd_frame \<Rightarrow> py_error + string list" where
  "mapping_keys df =
     (case astype_int_column df ''FOD Sub-Region'' of
        Inl e \<Rightarrow> Inl e
      | Inr subs \<Rightarrow>
          (case astype_int_column df ''District'' of
             Inl e \<Rightarrow> Inl e
           | Inr dists \<Rightarrow>
               (case map_of df ''NSS-Region'' of
                  None \<Rightarrow> Inl KeyError
                | Some nss \<Rightarrow>
                    (case astype_int (map extract_state_code nss) of
                       Inl e \<Rightarrow> Inl e
                     | Inr states \<Rightarrow>
                         Inr (map (\<lambda>(a, b, c). district_key a b c)
                                (zip subs (zip dists states)))))))"

text \<open>\<open>df.loc[mask, col] = v\<close> with \<open>mask = (mapping_key == key)\<close>.\<close>

definition assign_where :: "string list \<Rightarrow> string \<Rightarrow> pyval \<Rightarrow> pyval list \<Rightarrow> pyval list" where
  "assign_where keys key v col = map2 (\<lambda>k old. if k = key then v else old) keys col"

definition apply_mapping ::
    "string list \<Rightarrow> (string \<times> pyval \<times> pyval) list \<Rightarrow> pyval list \<times> pyval list" where
  "apply_mapping keys mapping_dict =
     foldl (\<lambda>(st, di) (key, sn, dn). (assign_where keys key sn st, assign_where keys key dn di))
       (replicate (length keys) (PStr ''Unknown State''),
        replicate (length keys) (PStr ''Unknown District''))
       mapping_dict"

text \<open>The \<open>try\<close> block, lines 73 to 174: the casts of the reference table, those of the
  table, the dict, and the two new columns. \<open>df\<close> is first written at line 135, after the
  last step that can raise.\<close>

definition map_district_codes_try :: "pd_frame \<Rightarrow> pd_frame \<Rightarrow> py_error + pd_frame" where
  "map_district_codes_try districts_df df =
     (case district_codes districts_df of
        Inl e \<Rightarrow> Inl e
      | Inr codes \<Rightarrow>
          (case mapping_keys df of
             Inl e \<Rightarrow> Inl e
           | Inr keys \<Rightarrow>
               (case district_lookup districts_df codes of
                  Inl e \<Rightarrow> Inl e
                | Inr mapping_dict \<Rightarrow>
                    (case apply_mapping keys mapping_dict of
                       (st, di) \<Rightarrow>
                         Inr (set_column (set_column df ''state'' st) ''district'' di)))))"

text \<open>The result is the table together with the exception that the \<open>except\<close> clause
  printed, if any.\<close>

definition map_district_codes_pd :: "pd_frame \<Rightarrow> pd_frame \<Rightarrow> pd_frame \<times> py_error option" where
  "map_district_codes_pd districts_df df =
     (if ''FOD Sub-Region'' \<notin> set (pd_columns df) \<or> ''District'' \<notin> set (pd_columns df)
      then (df, None)
      else try_except df (map_district_codes_try districts_df df))"

section \<open>Concatenating the parts of one module\<close>

text \<open>
  \<open>pl.concat([a, b], how="vertical")\<close> is the library's: it stacks \<open>b\<close> under \<open>a\<close> column by
  column, by position. Frames of different widths, or a pair of columns with different
  names, raise \<open>ShapeError\<close>; a pair of columns with different dtypes raises \<open>SchemaError\<close>,
  except that an all-null column of dtype \<open>Null\<close> is appended to a column of any dtype.
\<close>

definition append_ok :: "dtype \<Rightarrow> dtype \<Rightarrow> bool" where
  "append_ok l r = (l = r \<or> r = NullType)"

fun vstack :: "pl_frame \<Rightarrow> pl_frame \<Rightarrow> pl_error + pl_frame" where
  "vstack [] [] = Inr []"
| "vstack (l # ls) (r # rs) =
     (if cname l \<noteq> cname r then Inl ShapeError
      else if \<not> append_ok (ctype l) (ctype r) then Inl SchemaError
      else (case vstack ls rs of
              Inl e \<Rightarrow> Inl e
            | Inr cs \<Rightarrow> Inr (Column (cname l) (ctype l) (cells l @ cells r) # cs)))"
| "vstack _ _ = Inl ShapeError"

definition concat_vertical :: "pl_frame \<Rightarrow> pl_frame \<Rightarrow> pl_error + pl_frame" where
  "concat_vertical a b =
     (if length a \<noteq> length b then (if a = [] then Inr b else Inl ShapeError)
      else vstack a b)"

definition height :: "pl_frame \<Rightarrow> nat" where
  "height df = (case df of [] \<Rightarrow> 0 | c # _ \<Rightarrow> length (cells c))"

text \<open>\<^verbatim>\<open>src/2019/parse.py\<close>, lines 124 to 143: one round of the loop over the union of the
  column names.\<close>

definition harmonize_column ::
    "(string \<Rightarrow> string) \<Rightarrow> pl_frame \<times> pl_frame \<Rightarrow> string \<Rightarrow> pl_frame \<times> pl_frame" where
  "harmonize_column fmt frames col =
     (case frames of
        (combined_df, df) \<Rightarrow>
          (case (get_column combined_df col, get_column df col) of
             (Some a, Some b) \<Rightarrow>
               if ctype a \<noteq> ctype b
               then (with_column combined_df (cast_utf8 fmt a), with_column df (cast_utf8 fmt b))
               else (combined_df, df)
           | (Some a, None) \<Rightarrow>
               (combined_df, with_column df (Column col NullType (replicate (height df) PNone)))
           | (None, Some b) \<Rightarrow>
               (with_column combined_df
                  (Column col NullType (replicate (height combined_df) PNone)), df)
           | (None, None) \<Rightarrow> (combined_df, df)))"

text \<open>Lines 112 to 151. \<open>all_columns\<close> is a Python set, which is iterated in no
  particular order: \<open>set_order\<close> gives the order for a list of the names. Only
  \<open>SchemaError\<close> is caught at the first attempt; any exception is caught at the second,
  and the accumulated table, as harmonized, is kept.\<close>

definition concat_part ::
    "(string \<Rightarrow> string) \<Rightarrow> (string list \<Rightarrow> string list) \<Rightarrow> pl_frame \<Rightarrow> pl_frame \<Rightarrow> pl_error + pl_frame" where
  "concat_part fmt set_order combined_df df =
     (case concat_vertical combined_df df of
        Inr t \<Rightarrow> Inr t
      | Inl SchemaError \<Rightarrow>
          (case foldl (harmonize_column fmt) (combined_df, df)
                  (set_order (remdups (pl_columns combined_df @ pl_columns df))) of
             (combined_df', df') \<Rightarrow>
               (case concat_vertical combined_df' df' of
                  Inr t \<Rightarrow> Inr t
                | Inl e2 \<Rightarrow> Inr combined_df'))
      | Inl e \<Rightarrow> Inl e)"

text \<open>Lines 105 to 151: the parts of a file group, each as \<open>process_parquet_file\<close> returned
  it. An exception that \<open>concat_part\<close> lets through ends \<open>create_individual_profiles\<close>.\<close>

fun combine_parts ::
    "(string \<Rightarrow> string) \<Rightarrow> (string list \<Rightarrow> string list) \<Rightarrow> pl_frame option \<Rightarrow> pl_frame option list
      \<Rightarrow> pl_error + pl_frame option" where
  "combine_parts fmt set_order combined_df [] = Inr combined_df"
| "combine_parts fmt set_order combined_df (None # parts) =
     combine_parts fmt set_order combined_df parts"
| "combine_parts fmt set_order None (Some df # parts) =
     combine_parts fmt set_order (Some df) parts"
| "combine_parts fmt set_order (Some c) (Some df # parts) =
     (case concat_part fmt set_order c df of
        Inl e \<Rightarrow> Inl e
      | Inr c' \<Rightarrow> combine_parts fmt set_order (Some c') parts)"

section \<open>Facts about tables\<close>

lemma map_of_map_codes_pd:
  "map_of (map_codes_to_descriptions_pd df col m) n =
     (if n = col then map_option (map (clean_and_map m)) (map_of df n) else map_of df n)"
proof (cases "col \<in> set (pd_columns df)")
  case False
  then have "map_of df col = None"
    by (simp add: pd_columns_def map_of_eq_None_iff)
  with False show ?thesis
    by (simp add: map_codes_to_descriptions_pd_def)
next
  case True
  have "map_of (map (\<lambda>(k, vs). if k = col then (k, f vs) else (k, vs)) xs) n =
        (if n = col then map_option f (map_of xs n) else map_of xs n)" for f and xs :: pd_frame
    by (induction xs) auto
  with True show ?thesis
    by (simp add: map_codes_to_descriptions_pd_def)
qed

lemma pd_cell_map_codes:
  "pd_cell (map_codes_to_descriptions_pd df col m) col i = map_option (clean_and_map m) (pd_cell df col i)"
  by (simp add: pd_cell_def map_of_map_codes_pd split: option.splits)

lemma pd_cell_map_codes_other:
  "n \<noteq> col \<Longrightarrow> pd_cell (map_codes_to_descriptions_pd df col m) n i = pd_cell df n i"
  by (simp add: pd_cell_def map_of_map_codes_pd)

lemma get_column_cname: "get_column df n = Some c \<Longrightarrow> cname c = n"
  by (auto simp: get_column_def find_Some_iff)

lemma get_column_None: "get_column df n = None \<longleftrightarrow> n \<notin> set (pl_columns df)"
  by (auto simp: get_column_def pl_columns_def find_None_iff)

lemma find_app:
  "find P (xs @ ys) = (case find P xs of None \<Rightarrow> find P ys | Some x \<Rightarrow> Some x)"
  by (induction xs) auto

lemma get_column_with_column:
  "get_column (with_column df col) n = (if n = cname col then Some col else get_column df n)"
proof -
  have a: "find (\<lambda>c. cname c = n) (map (\<lambda>c. if cname c = cname col then col else c) xs) =
        (if n = cname col then (if cname col \<in> cname ` set xs then Some col else None)
         else find (\<lambda>c. cname c = n) xs)" for xs
    by (induction xs) auto
  show ?thesis
  proof (cases "cname col \<in> set (pl_columns df)")
    case True
    then show ?thesis
      by (simp add: with_column_def get_column_def a pl_columns_def)
  next
    case False
    then have "\<forall>c \<in> set df. cname c \<noteq> cname col"
      unfolding pl_columns_def set_map by (metis imageI)
    then have "n = cname col \<Longrightarrow> find (\<lambda>c. cname c = n) df = None"
      by (simp add: find_None_iff)
    with False show ?thesis
      by (simp add: with_column_def get_column_def find_app split: option.splits)
  qed
qed

lemma get_column_map_codes_pl:
  "get_column (map_codes_to_descriptions_pl df col m) n =
     (if n = col then map_option (\<lambda>c. Column col Utf8 (map (map_value m) (cells c))) (get_column df col)
      else get_column df n)"
  by (auto simp: map_codes_to_descriptions_pl_def get_column_with_column split: option.splits)

lemma pl_cell_map_codes:
  "pl_cell (map_codes_to_descriptions_pl df col m) col i = map_option (map_value m) (pl_cell df col i)"
  by (simp add: pl_cell_def get_column_map_codes_pl split: option.splits)

section \<open>Reading back the rendering of an integer\<close>

lemma digit_char_simps:
  "digit_char 0 = CHR ''0''" "digit_char 1 = CHR ''1''" "digit_char (Suc 0) = CHR ''1''"
  "digit_char 2 = CHR ''2''" "digit_char 3 = CHR ''3''" "digit_char 4 = CHR ''4''"
  "digit_char 5 = CHR ''5''" "digit_char 6 = CHR ''6''" "digit_char 7 = CHR ''7''"
  "digit_char 8 = CHR ''8''" "digit_char 9 = CHR ''9''"
  by code_simp+

lemmas str_int_eval = str_int_def str_nat.simps digit_char_simps

lemma is_digit_digit_char: "d < 10 \<Longrightarrow> is_digit (digit_char d)"
  by (simp add: is_digit_def digit_char_def)

lemma digit_val_digit_char: "d < 10 \<Longrightarrow> digit_val (digit_char d) = d"
  by (simp add: digit_val_def digit_char_def)

lemma str_nat_digits: "list_all is_digit (str_nat m)"
proof (induction m rule: str_nat.induct)
  case (1 n)
  show ?case
  proof (cases "n < 10")
    case True
    then show ?thesis
      by (subst str_nat.simps) (simp add: is_digit_digit_char)
  next
    case False
    with 1 show ?thesis
      by (subst str_nat.simps) (simp add: is_digit_digit_char)
  qed
qed

lemma str_nat_nonempty: "str_nat m \<noteq> []"
  by (subst str_nat.simps) simp

lemma nat_of_digits_snoc: "nat_of_digits (xs @ [c]) = 10 * nat_of_digits xs + digit_val c"
  by (simp add: nat_of_digits_def)

lemma nat_of_digits_str_nat: "nat_of_digits (str_nat m) = m"
proof (induction m rule: str_nat.induct)
  case (1 n)
  show ?case
  proof (cases "n < 10")
    case True
    then show ?thesis
      by (subst str_nat.simps) (simp add: nat_of_digits_def digit_val_digit_char)
  next
    case False
    with 1 show ?thesis
      by (subst str_nat.simps) (simp add: nat_of_digits_snoc digit_val_digit_char)
  qed
qed

lemma nat_of_digits_zeros:
  "nat_of_digits (xs @ replicate k (CHR ''0'')) = nat_of_digits xs * 10 ^ k"
proof (induction k)
  case 0
  then show ?case by simp
next
  case (Suc k)
  have "xs @ replicate (Suc k) (CHR ''0'') = (xs @ replicate k (CHR ''0'')) @ [CHR ''0'']"
    by (simp add: replicate_append_same)
  then show ?case
    by (simp only: nat_of_digits_snoc Suc.IH) (simp add: digit_val_def)
qed

lemma digit_facts:
  assumes "is_digit c"
  shows "\<not> is_space c" "c \<noteq> CHR ''_''" "c \<noteq> CHR ''.''" "c \<noteq> CHR ''-''" "c \<noteq> CHR ''+''"
    "to_lower c = c" "c \<noteq> CHR ''i''" "c \<noteq> CHR ''n''"
  using assms by (auto simp: is_digit_def is_space_def to_lower_def)

lemma special_chars:
  "\<not> is_digit (CHR ''.'')" "is_digit (CHR ''0'')" "\<not> is_space (CHR ''.'')" "\<not> is_space (CHR ''0'')"
  "\<not> is_space (CHR ''-'')"
  by (simp_all add: is_digit_def is_space_def)

lemma underscores_ok_none:
  "CHR ''_'' \<notin> set s \<Longrightarrow> prev \<noteq> CHR ''_'' \<Longrightarrow> underscores_ok prev s"
  by (induction s arbitrary: prev) auto

lemma py_strip_id:
  assumes "s \<noteq> []" "\<not> is_space (hd s)" "\<not> is_space (last s)"
  shows "py_strip s = s"
proof -
  have "dropWhile is_space s = s"
    using assms(2) by (simp add: dropWhile_eq_self_iff)
  moreover have "dropWhile is_space (rev s) = rev s"
    using assms(1,3) by (simp add: dropWhile_eq_self_iff hd_rev)
  ultimately show ?thesis
    by (simp add: py_strip_def)
qed

lemma bit_length_bounds: "0 < m \<Longrightarrow> 2 ^ (bit_length m - 1) \<le> m \<and> m < 2 ^ bit_length m"
proof (induction m rule: bit_length.induct)
  case (1 n)
  then have n: "0 < n" by simp
  have b: "bit_length n = Suc (bit_length (n div 2))"
    using n by (subst bit_length.simps) simp
  show ?case
  proof (cases "n div 2 = 0")
    case True
    then have "n = 1" using n by (simp add: div_eq_0_iff) 
    moreover have "bit_length 0 = 0" by (subst bit_length.simps) simp
    ultimately show ?thesis using b by simp
  next
    case False
    then have p: "0 < n div 2" by simp
    with "1.IH" n have ih: "2 ^ (bit_length (n div 2) - 1) \<le> n div 2"
      "n div 2 < 2 ^ bit_length (n div 2)"
      by simp_all
    have "0 < bit_length (n div 2)"
      using p by (subst bit_length.simps) simp
    then have "(2::nat) ^ bit_length (n div 2) = 2 * 2 ^ (bit_length (n div 2) - 1)"
      by (cases "bit_length (n div 2)") simp_all
    with ih(1) have lo: "2 ^ bit_length (n div 2) \<le> n"
      by linarith
    from ih(2) have hi: "n < 2 * 2 ^ bit_length (n div 2)"
      by linarith
    from lo hi show ?thesis
      by (simp add: b)
  qed
qed

lemma round_half_even_int: "round_half_even (of_int M) = M"
  by (simp add: round_half_even_def)

lemma pow2_nonneg: "pow2 (int j) = 2 ^ j"
  by (simp add: pow2_def)

lemma pow2_neg: "pow2 (- int j) = 1 / 2 ^ j"
  by (cases "j = 0") (simp_all add: pow2_def)

lemma round64_abs_nat:
  assumes "0 < m" "m < 2 ^ 53" "\<bar>q\<bar> = of_nat m"
  shows "round64 q = Finite (if q < 0 then - of_nat m else of_nat m)"
proof -
  define b where "b = bit_length m"
  define j where "j = 53 - b"
  have q0: "q \<noteq> 0"
    using assms(1,3) by auto
  have bb: "2 ^ (b - 1) \<le> m" "m < 2 ^ b"
    using bit_length_bounds [OF assms(1)] by (simp_all add: b_def)
  have b1: "1 \<le> b"
    using assms(1) unfolding b_def by (subst bit_length.simps) simp
  have "(2::nat) ^ (b - 1) < 2 ^ 53"
    using bb(1) assms(2) by linarith
  then have "b - 1 < 53"
    by (simp only: power_strict_increasing_iff one_less_numeral_iff semiring_norm)
  then have b53: "b \<le> 53"
    by simp
  have qo: "quotient_of (of_nat m :: rat) = (int m, 1)"
    using quotient_of_int [of "int m"] by simp
  have one: "bit_length (Suc 0) = 1"
    by (subst bit_length.simps, subst bit_length.simps) simp
  have k: "int (bit_length (nat (fst (quotient_of \<bar>q\<bar>))))
         - int (bit_length (nat (snd (quotient_of \<bar>q\<bar>)))) = int (b - 1)"
    using b1 by (simp add: assms(3) qo one b_def)
  have le: "pow2 (int (b - 1)) \<le> \<bar>q\<bar>"
  proof -
    have "(of_nat (2 ^ (b - 1)) :: rat) \<le> of_nat m"
      using bb(1) by (simp only: of_nat_le_iff)
    then show ?thesis
      by (simp add: pow2_nonneg assms(3))
  qed
  have p: "max (int (b - 1) - 52) (- 1074) = - int j"
    using b1 b53 by (simp add: j_def)
  have d: "\<bar>q\<bar> / pow2 (- int j) = of_int (int (m * 2 ^ j))"
    by (simp add: pow2_neg assms(3))
  have v: "of_int (round_half_even (\<bar>q\<bar> / pow2 (- int j))) * pow2 (- int j) = (of_nat m :: rat)"
    by (simp only: d round_half_even_int) (simp add: pow2_neg)
  have "(of_nat m :: rat) < of_nat (2 ^ 53)"
    using assms(2) by (simp only: of_nat_less_iff)
  also have "\<dots> < 2 ^ 1024"
    by simp
  finally have big: "\<not> pow2 1024 \<le> (of_nat m :: rat)"
    by (simp add: pow2_def)
  show ?thesis
    unfolding round64_def Let_def k
    using q0 le big by (simp only: if_True if_False p v)
qed

lemma filter_absent: "x \<notin> set s \<Longrightarrow> filter (\<lambda>c. c \<noteq> x) s = s"
  by (induction s) auto

lemma zeros_digits: "list_all is_digit (replicate k (CHR ''0''))"
  by (simp add: list_all_iff special_chars)

lemma parse_decimal_int_zeros:
  "parse_decimal (str_nat m @ CHR ''.'' # replicate k (CHR ''0'')) = Some (m * 10 ^ k, - int k)"
proof -
  define ds where "ds = str_nat m"
  define zs where "zs = replicate k (CHR ''0'')"
  have dd: "\<forall>c \<in> set ds. is_digit c"
    using str_nat_digits [of m] by (simp add: ds_def list_all_iff)
  have dz: "\<forall>c \<in> set zs. is_digit c"
    using zeros_digits [of k] by (simp add: zs_def list_all_iff)
  have ne: "ds \<noteq> []"
    by (simp add: ds_def str_nat_nonempty)
  have ip: "takeWhile is_digit (ds @ CHR ''.'' # zs) = ds"
    using dd by (simp add: takeWhile_append2 special_chars)
  have r1: "dropWhile is_digit (ds @ CHR ''.'' # zs) = CHR ''.'' # zs"
    using dd by (simp add: dropWhile_append2 special_chars)
  have fp: "takeWhile is_digit zs = zs"
    using dz by (simp add: takeWhile_eq_all_conv)
  have r2: "dropWhile is_digit zs = []"
    using dz by simp
  have nd: "nat_of_digits (ds @ zs) = m * 10 ^ k"
    by (simp add: ds_def zs_def nat_of_digits_zeros nat_of_digits_str_nat)
  have "parse_decimal (ds @ CHR ''.'' # zs) = Some (m * 10 ^ k, - int k)"
    using ne by (simp add: parse_decimal_def ip r1 fp r2 nd parse_exponent_def) (simp add: zs_def)
  then show ?thesis
    by (simp add: ds_def zs_def)
qed

lemma dec_value_scaled: "dec_value (m * 10 ^ k) (- int k) = of_nat m"
  by (cases "k = 0") (simp_all add: dec_value_def)

lemma str_nat_hd_digit: "\<exists>c rest. str_nat m = c # rest \<and> is_digit c"
proof -
  obtain c rest where "str_nat m = c # rest"
    using str_nat_nonempty [of m] by (cases "str_nat m") auto
  moreover from this have "is_digit c"
    using str_nat_digits [of m] by simp
  ultimately show ?thesis by blast
qed

lemma no_underscore_str_nat: "CHR ''_'' \<notin> set (str_nat m)"
  using str_nat_digits [of m] digit_facts(2) by (auto simp: list_all_iff)

lemma no_dot_str_nat: "CHR ''.'' \<notin> set (str_nat m)"
  using str_nat_digits [of m] digit_facts(3) by (auto simp: list_all_iff)

lemma no_dot_str_int: "CHR ''.'' \<notin> set (str_int n)"
  by (simp add: str_int_def no_dot_str_nat)

text \<open>The body of the numeral, after the sign: the digits of \<open>m\<close>, a dot and \<open>k\<close> zeros.\<close>

lemma py_float_body:
  assumes "m < 2 ^ 53"
  shows "py_float (str_nat m @ CHR ''.'' # replicate k (CHR ''0'')) = Some (Finite (of_nat m))"
    and "py_float (CHR ''-'' # str_nat m @ CHR ''.'' # replicate k (CHR ''0''))
         = Some (Finite (- of_nat m))"
proof -
  define body where "body = str_nat m @ CHR ''.'' # replicate k (CHR ''0'')"
  obtain c rest where cr: "str_nat m = c # rest" "is_digit c"
    using str_nat_hd_digit by blast
  have b: "body = c # rest @ CHR ''.'' # replicate k (CHR ''0'')"
    by (simp add: body_def cr(1))
  have nu: "CHR ''_'' \<notin> set body"
    using no_underscore_str_nat [of m] by (simp add: body_def)
  have la: "\<not> is_space (last body)"
    by (cases "k = 0") (simp_all add: body_def special_chars)
  have hd: "\<not> is_space (hd body)"
    using cr(2) by (simp add: b digit_facts)
  have ru: "remove_underscores body = Some body"
    "remove_underscores (CHR ''-'' # body) = Some (CHR ''-'' # body)"
    using nu by (simp_all add: remove_underscores_def underscores_ok_none filter_absent)
  have st: "py_strip body = body" "py_strip (CHR ''-'' # body) = CHR ''-'' # body"
    using la hd by (simp_all add: py_strip_id b special_chars)
  have sg: "split_sign body = (False, body)" "split_sign (CHR ''-'' # body) = (True, body)"
    using cr(2) by (simp_all add: split_sign_def b digit_facts)
  have lo: "map to_lower body \<noteq> ''inf''" "map to_lower body \<noteq> ''infinity''"
    "map to_lower body \<noteq> ''nan''"
    using cr(2) by (simp_all add: b digit_facts)
  have pd: "parse_decimal body = Some (m * 10 ^ k, - int k)"
    by (simp add: body_def parse_decimal_int_zeros)
  have r: "round64 (of_nat m) = Finite (of_nat m)" "round64 (- of_nat m) = Finite (- of_nat m)"
  proof -
    show "round64 (of_nat m) = Finite (of_nat m)"
    proof (cases "m = 0")
      case True
      then show ?thesis by (simp add: round64_def)
    next
      case False
      then show ?thesis
        using round64_abs_nat [of m "of_nat m"] assms by simp
    qed
    show "round64 (- of_nat m) = Finite (- of_nat m)"
    proof (cases "m = 0")
      case True
      then show ?thesis by (simp add: round64_def)
    next
      case False
      then show ?thesis
        using round64_abs_nat [of m "- of_nat m"] assms by simp
    qed
  qed
  show "py_float (str_nat m @ CHR ''.'' # replicate k (CHR ''0'')) = Some (Finite (of_nat m))"
    using lo unfolding body_def [symmetric]
    by (simp add: py_float_def ru st sg pd dec_value_scaled r)
  show "py_float (CHR ''-'' # str_nat m @ CHR ''.'' # replicate k (CHR ''0''))
         = Some (Finite (- of_nat m))"
    using lo unfolding body_def [symmetric]
    by (simp add: py_float_def ru st sg pd dec_value_scaled r)
qed

lemma py_float_int_zeros:
  assumes "\<bar>n\<bar> < 2 ^ 53"
  shows "py_float (str_int n @ CHR ''.'' # replicate k (CHR ''0'')) = Some (Finite (of_int n))"
proof (cases "n < 0")
  case True
  with assms have "nat (- n) < 2 ^ 53"
    by (simp add: nat_less_iff)
  from py_float_body(2) [OF this, of k] True show ?thesis
    by (simp add: str_int_def)
next
  case False
  with assms have "nat n < 2 ^ 53"
    by (simp add: nat_less_iff)
  from py_float_body(1) [OF this, of k] False show ?thesis
    by (simp add: str_int_def)
qed

lemma normalize_code_int_zeros:
  assumes "\<bar>n\<bar> < 2 ^ 53"
  shows "normalize_code (str_int n @ CHR ''.'' # replicate k (CHR ''0'')) = str_int n"
  by (simp add: normalize_code_def py_float_int_zeros [OF assms])

lemma normalize_code_no_dot: "CHR ''.'' \<notin> set s \<Longrightarrow> normalize_code s = s"
  by (simp add: normalize_code_def)

text \<open>
  Claim C1, amended. In \<^verbatim>\<open>src/parse.py\<close> a cell that is not NA and whose rendering is the
  decimal numeral of an integer \<open>n\<close> (of magnitude below \<open>2 ^ 53\<close>) followed by a dot and
  zeros only, such as the float \<open>1.0\<close>, is looked up under the integer's own rendering, so
  it resolves to the same entry of the code map as the integer \<open>n\<close> does; this holds for
  every code map and every column. In \<^verbatim>\<open>src/2019/parse.py\<close> a cell is looked up under its
  rendering as it is, with no normalization.
\<close>

theorem float_codes_resolve_like_integers:
  "(\<bar>n\<bar> < 2 ^ 53 \<and> pd_cell df col i = Some v \<and> \<not> isna v
     \<and> py_str v = str_int n @ CHR ''.'' # replicate k (CHR ''0'')
      \<longrightarrow> pd_cell (map_codes_to_descriptions_pd df col mapping_dict) col i
            = Some (case mapping_dict (PStr (str_int n)) of
                      Some d \<Rightarrow> PStr d
                    | None \<Rightarrow> PStr (''Unknown ('' @ py_str v @ '')'')))
   \<and> (pd_cell df col i = Some (PInt n)
      \<longrightarrow> pd_cell (map_codes_to_descriptions_pd df col mapping_dict) col i
            = Some (case mapping_dict (PStr (str_int n)) of
                      Some d \<Rightarrow> PStr d
                    | None \<Rightarrow> PStr (''Unknown ('' @ str_int n @ '')'')))
   \<and> (pl_cell pl_df col j = Some w \<and> w \<noteq> PNone
      \<longrightarrow> pl_cell (map_codes_to_descriptions_pl pl_df col mapping_dict) col j
            = Some (case mapping_dict (PStr (py_str w)) of
                      Some d \<Rightarrow> PStr d
                    | None \<Rightarrow> PStr (''Unknown ('' @ py_str w @ '')'')))"
proof -
  have 1: "\<bar>n\<bar> < 2 ^ 53 \<and> pd_cell df col i = Some v \<and> \<not> isna v
     \<and> py_str v = str_int n @ CHR ''.'' # replicate k (CHR ''0'')
      \<longrightarrow> pd_cell (map_codes_to_descriptions_pd df col mapping_dict) col i
            = Some (case mapping_dict (PStr (str_int n)) of
                      Some d \<Rightarrow> PStr d
                    | None \<Rightarrow> PStr (''Unknown ('' @ py_str v @ '')''))"
    by (simp add: pd_cell_map_codes clean_and_map_def normalize_code_int_zeros)
  have "normalize_code (str_int n) = str_int n"
    by (simp add: normalize_code_no_dot no_dot_str_int)
  then have 2: "pd_cell df col i = Some (PInt n)
      \<longrightarrow> pd_cell (map_codes_to_descriptions_pd df col mapping_dict) col i
            = Some (case mapping_dict (PStr (str_int n)) of
                      Some d \<Rightarrow> PStr d
                    | None \<Rightarrow> PStr (''Unknown ('' @ str_int n @ '')''))"
    by (simp add: pd_cell_map_codes clean_and_map_def isna_def split: option.splits)
  have 3: "pl_cell pl_df col j = Some w \<and> w \<noteq> PNone
      \<longrightarrow> pl_cell (map_codes_to_descriptions_pl pl_df col mapping_dict) col j
            = Some (case mapping_dict (PStr (py_str w)) of
                      Some d \<Rightarrow> PStr d
                    | None \<Rightarrow> PStr (''Unknown ('' @ py_str w @ '')''))"
    by (simp add: pl_cell_map_codes map_value_def)
  from 1 2 3 show ?thesis by (intro conjI)
qed

text \<open>
  Claim C1 as stated fails in \<^verbatim>\<open>src/2019/parse.py\<close>: with the map \<open>{"1": "male", "2":
  "female"}\<close> the float \<open>1.0\<close> is mapped to \<open>Unknown (1.0)\<close> and the integer \<open>1\<close> to \<open>male\<close>.
\<close>

theorem polars_float_code_is_not_normalized:
  "pl_cell (map_codes_to_descriptions_pl [Column ''Gender'' Float64 [PFloat ''1.0'']] ''Gender''
      [PStr ''1'' \<mapsto> ''male'', PStr ''2'' \<mapsto> ''female'']) ''Gender'' 0
     = Some (PStr ''Unknown (1.0)'')
   \<and> pl_cell (map_codes_to_descriptions_pl [Column ''Gender'' Int64 [PInt 1]] ''Gender''
      [PStr ''1'' \<mapsto> ''male'', PStr ''2'' \<mapsto> ''female'']) ''Gender'' 0
     = Some (PStr ''male'')"
proof -
  have s1: "str_int 1 = ''1''" by code_simp
  show ?thesis
    unfolding pl_cell_map_codes
    by (simp add: pl_cell_def get_column_def map_value_def s1)
qed

theorem float_codes_resolve_like_integers_witness:
  "\<bar>1 :: int\<bar> < 2 ^ 53
   \<and> pd_cell [(''Gender'', [PFloat ''1.0'', PInt 1])] ''Gender'' 0 = Some (PFloat ''1.0'')
   \<and> \<not> isna (PFloat ''1.0'')
   \<and> py_str (PFloat ''1.0'') = str_int 1 @ CHR ''.'' # replicate 1 (CHR ''0'')
   \<and> pd_cell (map_codes_to_descriptions_pd [(''Gender'', [PFloat ''1.0'', PInt 1])] ''Gender''
        [PStr ''1'' \<mapsto> ''male'', PStr ''2'' \<mapsto> ''female'']) ''Gender'' 0 = Some (PStr ''male'')
   \<and> pd_cell [(''Gender'', [PInt 1])] ''Gender'' 0 = Some (PInt 1)
   \<and> pd_cell (map_codes_to_descriptions_pd [(''Gender'', [PInt 1])] ''Gender''
        [PStr ''1'' \<mapsto> ''male'', PStr ''2'' \<mapsto> ''female'']) ''Gender'' 0 = Some (PStr ''male'')
   \<and> pl_cell [Column ''Gender'' Float64 [PFloat ''1.0'']] ''Gender'' 0 = Some (PFloat ''1.0'')
   \<and> pl_cell (map_codes_to_descriptions_pl [Column ''Gender'' Float64 [PFloat ''1.0'']] ''Gender''
        [PStr ''1'' \<mapsto> ''male'', PStr ''2'' \<mapsto> ''female'']) ''Gender'' 0
       = Some (PStr ''Unknown (1.0)'')"
proof -
  let ?m = "[PStr ''1'' \<mapsto> ''male'', PStr ''2'' \<mapsto> ''female''] :: codemap"
  let ?df = "[(''Gender'', [PFloat ''1.0'', PInt 1])]"
  have s1: "str_int 1 = ''1''" by code_simp
  have a: "\<bar>1 :: int\<bar> < 2 ^ 53" by simp
  have b: "pd_cell ?df ''Gender'' 0 = Some (PFloat ''1.0'')"
    and e: "pd_cell [(''Gender'', [PInt 1])] ''Gender'' 0 = Some (PInt 1)"
    by (simp_all add: pd_cell_def)
  have c: "\<not> isna (PFloat ''1.0'')" by (simp add: isna_def)
  have d: "py_str (PFloat ''1.0'') = str_int 1 @ CHR ''.'' # replicate 1 (CHR ''0'')"
    by (simp add: s1)
  have f: "pl_cell [Column ''Gender'' Float64 [PFloat ''1.0'']] ''Gender'' 0 = Some (PFloat ''1.0'')"
    by (simp add: pl_cell_def get_column_def)
  have h1: "\<bar>1 :: int\<bar> < 2 ^ 53 \<and> pd_cell ?df ''Gender'' 0 = Some (PFloat ''1.0'')
      \<and> \<not> isna (PFloat ''1.0'')
      \<and> py_str (PFloat ''1.0'') = str_int 1 @ CHR ''.'' # replicate 1 (CHR ''0'')"
    using a b c d by (intro conjI)
  from float_codes_resolve_like_integers [where n = 1 and df = ?df and col = "''Gender''"
      and i = 0 and v = "PFloat ''1.0''" and k = 1 and mapping_dict = ?m,
      THEN conjunct1, THEN mp, OF h1]
  have 1: "pd_cell (map_codes_to_descriptions_pd ?df ''Gender'' ?m) ''Gender'' 0
      = Some (PStr ''male'')"
    by (simp add: s1)
  from float_codes_resolve_like_integers [where n = 1 and df = "[(''Gender'', [PInt 1])]"
      and col = "''Gender''" and i = 0 and mapping_dict = ?m,
      THEN conjunct2, THEN conjunct1, THEN mp, OF e]
  have 2: "pd_cell (map_codes_to_descriptions_pd [(''Gender'', [PInt 1])] ''Gender'' ?m)
      ''Gender'' 0 = Some (PStr ''male'')"
    by (simp add: s1)
  have h3: "pl_cell [Column ''Gender'' Float64 [PFloat ''1.0'']] ''Gender'' 0 = Some (PFloat ''1.0'')
      \<and> PFloat ''1.0'' \<noteq> PNone"
    using f by simp
  from float_codes_resolve_like_integers [where pl_df = "[Column ''Gender'' Float64 [PFloat ''1.0'']]"
      and col = "''Gender''" and j = 0 and w = "PFloat ''1.0''" and mapping_dict = ?m,
      THEN conjunct2, THEN conjunct2, THEN mp, OF h3]
  have 3: "pl_cell (map_codes_to_descriptions_pl [Column ''Gender'' Float64 [PFloat ''1.0'']]
      ''Gender'' ?m) ''Gender'' 0 = Some (PStr ''Unknown (1.0)'')"
    by simp
  from a b c d 1 e 2 f 3 show ?thesis by (intro conjI)
qed

section \<open>What a mapped cell is\<close>

lemma is_str_clean_and_map: "is_str (clean_and_map m v)"
  by (simp add: clean_and_map_def split: option.splits)

lemma map_value_str_or_none: "map_value m v = PNone \<or> is_str (map_value m v)"
  by (simp add: map_value_def split: option.splits)

lemma unknown_prefix: "prefix ''Unknown ('' (''Unknown ('' @ s)"
  by simp

text \<open>
  Claim C9, amended. Let \<open>c\<close> be a key of the code map and \<open>d\<close> its description. In
  \<^verbatim>\<open>src/parse.py\<close> a cell that is not NA is mapped to exactly \<open>d\<close> when its normalized
  rendering is \<open>c\<close>: the rendering itself when it has no dot, or when \<open>float\<close> refuses it
  or reads a number that is not whole (first and fourth conjunct); the integer that
  \<open>float\<close> reads, printed by \<open>str\<close>, when the rendering has a dot (second conjunct), which
  for the numeral of an integer below \<open>2 ^ 53\<close> in magnitude followed by a dot and zeros
  is that integer (third conjunct). In \<^verbatim>\<open>src/2019/parse.py\<close> a cell that is not null is
  mapped to exactly \<open>d\<close> when its rendering, as it is, is \<open>c\<close> (last conjunct).
\<close>

theorem mapped_code_resolves:
  "(pd_cell df col i = Some v \<and> \<not> isna v \<and> CHR ''.'' \<notin> set (py_str v)
      \<and> mapping_dict (PStr (py_str v)) = Some d
      \<longrightarrow> pd_cell (map_codes_to_descriptions_pd df col mapping_dict) col i = Some (PStr d))
   \<and> (pd_cell df col i = Some v \<and> \<not> isna v \<and> CHR ''.'' \<in> set (py_str v)
      \<and> py_float (py_str v) = Some (Finite q) \<and> of_int \<lfloor>q\<rfloor> = q
      \<and> mapping_dict (PStr (str_int \<lfloor>q\<rfloor>)) = Some d
      \<longrightarrow> pd_cell (map_codes_to_descriptions_pd df col mapping_dict) col i = Some (PStr d))
   \<and> (pd_cell df col i = Some v \<and> \<not> isna v \<and> \<bar>n\<bar> < 2 ^ 53
      \<and> py_str v = str_int n @ CHR ''.'' # replicate k (CHR ''0'')
      \<and> mapping_dict (PStr (str_int n)) = Some d
      \<longrightarrow> pd_cell (map_codes_to_descriptions_pd df col mapping_dict) col i = Some (PStr d))
   \<and> (pd_cell df col i = Some v \<and> \<not> isna v
      \<and> (case py_float (py_str v) of Some (Finite r) \<Rightarrow> of_int \<lfloor>r\<rfloor> \<noteq> r | _ \<Rightarrow> True)
      \<and> mapping_dict (PStr (py_str v)) = Some d
      \<longrightarrow> pd_cell (map_codes_to_descriptions_pd df col mapping_dict) col i = Some (PStr d))
   \<and> (pl_cell df' col' i' = Some v' \<and> v' \<noteq> PNone \<and> mapping_dict (PStr (py_str v')) = Some d
      \<longrightarrow> pl_cell (map_codes_to_descriptions_pl df' col' mapping_dict) col' i' = Some (PStr d))"
proof -
  have 1: "pd_cell df col i = Some v \<and> \<not> isna v \<and> CHR ''.'' \<notin> set (py_str v)
      \<and> mapping_dict (PStr (py_str v)) = Some d
      \<longrightarrow> pd_cell (map_codes_to_descriptions_pd df col mapping_dict) col i = Some (PStr d)"
    by (simp add: pd_cell_map_codes clean_and_map_def normalize_code_no_dot)
  have 2: "pd_cell df col i = Some v \<and> \<not> isna v \<and> CHR ''.'' \<in> set (py_str v)
      \<and> py_float (py_str v) = Some (Finite q) \<and> of_int \<lfloor>q\<rfloor> = q
      \<and> mapping_dict (PStr (str_int \<lfloor>q\<rfloor>)) = Some d
      \<longrightarrow> pd_cell (map_codes_to_descriptions_pd df col mapping_dict) col i = Some (PStr d)"
    by (simp add: pd_cell_map_codes clean_and_map_def normalize_code_def)
  have 3: "pd_cell df col i = Some v \<and> \<not> isna v \<and> \<bar>n\<bar> < 2 ^ 53
      \<and> py_str v = str_int n @ CHR ''.'' # replicate k (CHR ''0'')
      \<and> mapping_dict (PStr (str_int n)) = Some d
      \<longrightarrow> pd_cell (map_codes_to_descriptions_pd df col mapping_dict) col i = Some (PStr d)"
    by (simp add: pd_cell_map_codes clean_and_map_def normalize_code_int_zeros)
  have "normalize_code s = s"
    if "case py_float s of Some (Finite r) \<Rightarrow> of_int \<lfloor>r\<rfloor> \<noteq> r | _ \<Rightarrow> True" for s
    using that by (simp add: normalize_code_def split: option.splits pyfloat.splits)
  then have 4: "pd_cell df col i = Some v \<and> \<not> isna v
      \<and> (case py_float (py_str v) of Some (Finite r) \<Rightarrow> of_int \<lfloor>r\<rfloor> \<noteq> r | _ \<Rightarrow> True)
      \<and> mapping_dict (PStr (py_str v)) = Some d
      \<longrightarrow> pd_cell (map_codes_to_descriptions_pd df col mapping_dict) col i = Some (PStr d)"
    by (simp add: pd_cell_map_codes clean_and_map_def)
  have 5: "pl_cell df' col' i' = Some v' \<and> v' \<noteq> PNone \<and> mapping_dict (PStr (py_str v')) = Some d
      \<longrightarrow> pl_cell (map_codes_to_descriptions_pl df' col' mapping_dict) col' i' = Some (PStr d)"
    by (simp add: pl_cell_map_codes map_value_def)
  from 1 2 3 4 5 show ?thesis by (intro conjI)
qed

text \<open>
  Claim C9 as stated fails in \<^verbatim>\<open>src/2019/parse.py\<close>: the float \<open>28.0\<close> has the normalized
  string form \<open>28\<close>, which is a key of the map, and the cell is mapped to
  \<open>Unknown (28.0)\<close>, not to the description of \<open>28\<close>.
\<close>

theorem polars_float_cell_misses_its_key:
  "normalize_code (py_str (PFloat ''28.0'')) = ''28''
   \<and> [PStr ''28'' \<mapsto> ''Andhra Pradesh''] (PStr ''28'') = Some ''Andhra Pradesh''
   \<and> pl_cell (map_codes_to_descriptions_pl [Column ''State'' Float64 [PFloat ''28.0'', PNone]]
        ''State'' [PStr ''28'' \<mapsto> ''Andhra Pradesh'']) ''State'' 0 = Some (PStr ''Unknown (28.0)'')
   \<and> PStr ''Unknown (28.0)'' \<noteq> PStr ''Andhra Pradesh''"
proof -
  have "normalize_code ''28.0'' = ''28''"
    by code_simp
  then show ?thesis
    unfolding pl_cell_map_codes
    by (simp add: pl_cell_def get_column_def map_value_def)
qed

theorem mapped_code_resolves_witness:
  "pd_cell [(''Gender'', [PInt 2, PFloat ''1.0'', PStr ''1.50'', PStr ''2.5e1''])] ''Gender'' 0
     = Some (PInt 2)
   \<and> pd_cell (map_codes_to_descriptions_pd
          [(''Gender'', [PInt 2, PFloat ''1.0'', PStr ''1.50'', PStr ''2.5e1''])] ''Gender''
          [PStr ''1'' \<mapsto> ''male'', PStr ''2'' \<mapsto> ''female'', PStr ''1.50'' \<mapsto> ''x'',
           PStr ''25'' \<mapsto> ''y'']) ''Gender'' 0 = Some (PStr ''female'')
   \<and> py_float ''2.5e1'' = Some (Finite 25)
   \<and> pd_cell (map_codes_to_descriptions_pd
          [(''Gender'', [PInt 2, PFloat ''1.0'', PStr ''1.50'', PStr ''2.5e1''])] ''Gender''
          [PStr ''1'' \<mapsto> ''male'', PStr ''2'' \<mapsto> ''female'', PStr ''1.50'' \<mapsto> ''x'',
           PStr ''25'' \<mapsto> ''y'']) ''Gender'' 3 = Some (PStr ''y'')
   \<and> pd_cell (map_codes_to_descriptions_pd
          [(''Gender'', [PInt 2, PFloat ''1.0'', PStr ''1.50'', PStr ''2.5e1''])] ''Gender''
          [PStr ''1'' \<mapsto> ''male'', PStr ''2'' \<mapsto> ''female'', PStr ''1.50'' \<mapsto> ''x'',
           PStr ''25'' \<mapsto> ''y'']) ''Gender'' 1 = Some (PStr ''male'')
   \<and> py_float ''1.50'' = Some (Finite (3 / 2))
   \<and> pd_cell (map_codes_to_descriptions_pd
          [(''Gender'', [PInt 2, PFloat ''1.0'', PStr ''1.50'', PStr ''2.5e1''])] ''Gender''
          [PStr ''1'' \<mapsto> ''male'', PStr ''2'' \<mapsto> ''female'', PStr ''1.50'' \<mapsto> ''x'',
           PStr ''25'' \<mapsto> ''y'']) ''Gender'' 2 = Some (PStr ''x'')
   \<and> pl_cell [Column ''Gender'' Int64 [PInt 1, PInt 2]] ''Gender'' 1 = Some (PInt 2)
   \<and> pl_cell (map_codes_to_descriptions_pl [Column ''Gender'' Int64 [PInt 1, PInt 2]] ''Gender''
          [PStr ''1'' \<mapsto> ''male'', PStr ''2'' \<mapsto> ''female'', PStr ''1.50'' \<mapsto> ''x'',
           PStr ''25'' \<mapsto> ''y'']) ''Gender'' 1 = Some (PStr ''female'')"
proof -
  let ?m = "[PStr ''1'' \<mapsto> ''male'', PStr ''2'' \<mapsto> ''female'', PStr ''1.50'' \<mapsto> ''x'',
             PStr ''25'' \<mapsto> ''y''] :: codemap"
  let ?df = "[(''Gender'', [PInt 2, PFloat ''1.0'', PStr ''1.50'', PStr ''2.5e1''])]"
  let ?pl = "[Column ''Gender'' Int64 [PInt 1, PInt 2]]"
  have s1: "str_int 1 = ''1''" and s2: "str_int 2 = ''2''" and s25: "str_int 25 = ''25''"
    by code_simp+
  have c0: "pd_cell ?df ''Gender'' 0 = Some (PInt 2)"
    and c1: "pd_cell ?df ''Gender'' 1 = Some (PFloat ''1.0'')"
    and c2: "pd_cell ?df ''Gender'' 2 = Some (PStr ''1.50'')"
    and c3: "pd_cell ?df ''Gender'' 3 = Some (PStr ''2.5e1'')"
    by (simp_all add: pd_cell_def)
  have f1: "py_float ''2.5e1'' = Some (Finite 25)"
    by code_simp
  have f2: "py_float ''1.50'' = Some (Finite (3 / 2))"
    by code_simp
  have fl: "\<lfloor>3 / 2 :: rat\<rfloor> = 1"
    by (simp add: floor_eq_iff)
  have p: "pl_cell ?pl ''Gender'' 1 = Some (PInt 2)"
    by (simp add: pl_cell_def get_column_def)
  have h1: "pd_cell ?df ''Gender'' 0 = Some (PInt 2) \<and> \<not> isna (PInt 2)
      \<and> CHR ''.'' \<notin> set (py_str (PInt 2)) \<and> ?m (PStr (py_str (PInt 2))) = Some ''female''"
    using c0 by (simp add: isna_def s2)
  from mapped_code_resolves [where df = ?df and col = "''Gender''" and i = 0 and v = "PInt 2"
      and mapping_dict = ?m and d = "''female''", THEN conjunct1, THEN mp, OF h1]
  have 1: "pd_cell (map_codes_to_descriptions_pd ?df ''Gender'' ?m) ''Gender'' 0
      = Some (PStr ''female'')" .
  have h2: "pd_cell ?df ''Gender'' 3 = Some (PStr ''2.5e1'') \<and> \<not> isna (PStr ''2.5e1'')
      \<and> CHR ''.'' \<in> set (py_str (PStr ''2.5e1''))
      \<and> py_float (py_str (PStr ''2.5e1'')) = Some (Finite 25) \<and> of_int \<lfloor>25 :: rat\<rfloor> = (25 :: rat)
      \<and> ?m (PStr (str_int \<lfloor>25 :: rat\<rfloor>)) = Some ''y''"
    using c3 f1 by (simp add: isna_def s25)
  from mapped_code_resolves [where df = ?df and col = "''Gender''" and i = 3 and v = "PStr ''2.5e1''"
      and mapping_dict = ?m and d = "''y''" and q = 25,
      THEN conjunct2, THEN conjunct1, THEN mp, OF h2]
  have 2: "pd_cell (map_codes_to_descriptions_pd ?df ''Gender'' ?m) ''Gender'' 3
      = Some (PStr ''y'')" .
  have h3: "pd_cell ?df ''Gender'' 1 = Some (PFloat ''1.0'') \<and> \<not> isna (PFloat ''1.0'')
      \<and> \<bar>1 :: int\<bar> < 2 ^ 53
      \<and> py_str (PFloat ''1.0'') = str_int 1 @ CHR ''.'' # replicate 1 (CHR ''0'')
      \<and> ?m (PStr (str_int 1)) = Some ''male''"
    using c1 by (simp add: isna_def s1)
  from mapped_code_resolves [where df = ?df and col = "''Gender''" and i = 1 and v = "PFloat ''1.0''"
      and mapping_dict = ?m and d = "''male''" and n = 1 and k = 1,
      THEN conjunct2, THEN conjunct2, THEN conjunct1, THEN mp, OF h3]
  have 3: "pd_cell (map_codes_to_descriptions_pd ?df ''Gender'' ?m) ''Gender'' 1
      = Some (PStr ''male'')" .
  have h4: "pd_cell ?df ''Gender'' 2 = Some (PStr ''1.50'') \<and> \<not> isna (PStr ''1.50'')
      \<and> (case py_float (py_str (PStr ''1.50'')) of
            Some (Finite r) \<Rightarrow> of_int \<lfloor>r\<rfloor> \<noteq> r | _ \<Rightarrow> True)
      \<and> ?m (PStr (py_str (PStr ''1.50''))) = Some ''x''"
    using c2 f2 by (simp add: isna_def fl)
  from mapped_code_resolves [where df = ?df and col = "''Gender''" and i = 2 and v = "PStr ''1.50''"
      and mapping_dict = ?m and d = "''x''",
      THEN conjunct2, THEN conjunct2, THEN conjunct2, THEN conjunct1, THEN mp, OF h4]
  have 4: "pd_cell (map_codes_to_descriptions_pd ?df ''Gender'' ?m) ''Gender'' 2
      = Some (PStr ''x'')" .
  have h5: "pl_cell ?pl ''Gender'' 1 = Some (PInt 2) \<and> PInt 2 \<noteq> PNone
      \<and> ?m (PStr (py_str (PInt 2))) = Some ''female''"
    using p by (simp add: s2)
  from mapped_code_resolves [where df' = ?pl and col' = "''Gender''" and i' = 1 and v' = "PInt 2"
      and mapping_dict = ?m and d = "''female''",
      THEN conjunct2, THEN conjunct2, THEN conjunct2, THEN conjunct2, THEN mp, OF h5]
  have 5: "pl_cell (map_codes_to_descriptions_pl ?pl ''Gender'' ?m) ''Gender'' 1
      = Some (PStr ''female'')" .
  from c0 1 f1 2 3 f2 4 p 5 show ?thesis by (intro conjI)
qed

text \<open>
  Claim C4, amended. A cell whose lookup key is not in the code map becomes exactly
  \<open>Unknown (<raw>)\<close>, with \<open><raw>\<close> the cell's own rendering \<open>str(val)\<close> (in \<^verbatim>\<open>src/parse.py\<close> the
  key is the normalized rendering, the fallback embeds the rendering as it was); this
  holds for every code map. That value differs from every description of the map
  provided no description of the map begins with \<open>Unknown (\<close>; nothing in the code keeps
  such a description out of a map.
\<close>

theorem unmapped_code_fallback:
  "(pd_cell df col i = Some v \<and> \<not> isna v
        \<and> mapping_dict (PStr (normalize_code (py_str v))) = None
      \<longrightarrow> pd_cell (map_codes_to_descriptions_pd df col mapping_dict) col i
            = Some (PStr (''Unknown ('' @ py_str v @ '')'')))
   \<and> (pl_cell df' col' i' = Some v' \<and> v' \<noteq> PNone \<and> mapping_dict (PStr (py_str v')) = None
      \<longrightarrow> pl_cell (map_codes_to_descriptions_pl df' col' mapping_dict) col' i'
            = Some (PStr (''Unknown ('' @ py_str v' @ '')'')))
   \<and> ((\<forall>k d. mapping_dict k = Some d \<longrightarrow> \<not> prefix ''Unknown ('' d)
      \<longrightarrow> (pd_cell df col i = Some v \<and> \<not> isna v
              \<and> mapping_dict (PStr (normalize_code (py_str v))) = None
            \<longrightarrow> (\<forall>k d. mapping_dict k = Some d
                   \<longrightarrow> pd_cell (map_codes_to_descriptions_pd df col mapping_dict) col i
                       \<noteq> Some (PStr d)))
          \<and> (pl_cell df' col' i' = Some v' \<and> v' \<noteq> PNone
              \<and> mapping_dict (PStr (py_str v')) = None
            \<longrightarrow> (\<forall>k d. mapping_dict k = Some d
                   \<longrightarrow> pl_cell (map_codes_to_descriptions_pl df' col' mapping_dict) col' i'
                       \<noteq> Some (PStr d))))"
proof -
  have 1: "pd_cell df col i = Some v \<and> \<not> isna v
        \<and> mapping_dict (PStr (normalize_code (py_str v))) = None
      \<longrightarrow> pd_cell (map_codes_to_descriptions_pd df col mapping_dict) col i
            = Some (PStr (''Unknown ('' @ py_str v @ '')''))"
    by (simp add: pd_cell_map_codes clean_and_map_def)
  have 2: "pl_cell df' col' i' = Some v' \<and> v' \<noteq> PNone \<and> mapping_dict (PStr (py_str v')) = None
      \<longrightarrow> pl_cell (map_codes_to_descriptions_pl df' col' mapping_dict) col' i'
            = Some (PStr (''Unknown ('' @ py_str v' @ '')''))"
    by (simp add: pl_cell_map_codes map_value_def)
  have 3: "(\<forall>k d. mapping_dict k = Some d \<longrightarrow> \<not> prefix ''Unknown ('' d)
      \<longrightarrow> (pd_cell df col i = Some v \<and> \<not> isna v
              \<and> mapping_dict (PStr (normalize_code (py_str v))) = None
            \<longrightarrow> (\<forall>k d. mapping_dict k = Some d
                   \<longrightarrow> pd_cell (map_codes_to_descriptions_pd df col mapping_dict) col i
                       \<noteq> Some (PStr d)))
          \<and> (pl_cell df' col' i' = Some v' \<and> v' \<noteq> PNone
              \<and> mapping_dict (PStr (py_str v')) = None
            \<longrightarrow> (\<forall>k d. mapping_dict k = Some d
                   \<longrightarrow> pl_cell (map_codes_to_descriptions_pl df' col' mapping_dict) col' i'
                       \<noteq> Some (PStr d)))"
  proof (rule impI)
    assume h: "\<forall>k d. mapping_dict k = Some d \<longrightarrow> \<not> prefix ''Unknown ('' d"
    have distinct_from: "d \<noteq> ''Unknown ('' @ s" if "mapping_dict k = Some d" for k d s
      using h that unknown_prefix by blast
    show "(pd_cell df col i = Some v \<and> \<not> isna v
              \<and> mapping_dict (PStr (normalize_code (py_str v))) = None
            \<longrightarrow> (\<forall>k d. mapping_dict k = Some d
                   \<longrightarrow> pd_cell (map_codes_to_descriptions_pd df col mapping_dict) col i
                       \<noteq> Some (PStr d)))
          \<and> (pl_cell df' col' i' = Some v' \<and> v' \<noteq> PNone
              \<and> mapping_dict (PStr (py_str v')) = None
            \<longrightarrow> (\<forall>k d. mapping_dict k = Some d
                   \<longrightarrow> pl_cell (map_codes_to_descriptions_pl df' col' mapping_dict) col' i'
                       \<noteq> Some (PStr d)))"
      by (auto simp: pd_cell_map_codes pl_cell_map_codes clean_and_map_def map_value_def
          dest: distinct_from)
  qed
  from 1 2 3 show ?thesis by (intro conjI)
qed

theorem unmapped_code_fallback_witness:
  "pd_cell [(''Gender'', [PFloat ''3.0''])] ''Gender'' 0 = Some (PFloat ''3.0'')
   \<and> \<not> isna (PFloat ''3.0'')
   \<and> yes_no_mapping (PStr (normalize_code (py_str (PFloat ''3.0'')))) = None
   \<and> pd_cell (map_codes_to_descriptions_pd [(''Gender'', [PFloat ''3.0''])] ''Gender'' yes_no_mapping)
        ''Gender'' 0 = Some (PStr ''Unknown (3.0)'')
   \<and> pd_cell (map_codes_to_descriptions_pd [(''Gender'', [PFloat ''3.0''])] ''Gender'' yes_no_mapping)
        ''Gender'' 0 \<noteq> Some (PStr ''yes'')
   \<and> pl_cell [Column ''is_major_activity'' Int64 [PInt 3]] ''is_major_activity'' 0 = Some (PInt 3)
   \<and> yes_no_mapping (PStr (py_str (PInt 3))) = None
   \<and> pl_cell (map_codes_to_descriptions_pl [Column ''is_major_activity'' Int64 [PInt 3]]
        ''is_major_activity'' yes_no_mapping) ''is_major_activity'' 0 = Some (PStr ''Unknown (3)'')
   \<and> pl_cell (map_codes_to_descriptions_pl [Column ''is_major_activity'' Int64 [PInt 3]]
        ''is_major_activity'' yes_no_mapping) ''is_major_activity'' 0 \<noteq> Some (PStr ''no'')"
proof -
  let ?pd = "[(''Gender'', [PFloat ''3.0''])]"
  let ?pl = "[Column ''is_major_activity'' Int64 [PInt 3]]"
  have h: "\<forall>k d. yes_no_mapping k = Some d \<longrightarrow> \<not> prefix ''Unknown ('' d"
    by (auto simp: yes_no_mapping_def split: if_splits)
  have n: "normalize_code ''3.0'' = ''3''" by code_simp
  have s3: "str_int 3 = ''3''" by code_simp
  have a: "pd_cell ?pd ''Gender'' 0 = Some (PFloat ''3.0'')"
    by (simp add: pd_cell_def)
  have b: "\<not> isna (PFloat ''3.0'')" by (simp add: isna_def)
  have c: "yes_no_mapping (PStr (normalize_code (py_str (PFloat ''3.0'')))) = None"
    by (simp add: n yes_no_mapping_def)
  have d: "pl_cell ?pl ''is_major_activity'' 0 = Some (PInt 3)"
    by (simp add: pl_cell_def get_column_def)
  have e: "yes_no_mapping (PStr (py_str (PInt 3))) = None"
    by (simp add: s3 yes_no_mapping_def)
  have y: "yes_no_mapping (PStr ''1'') = Some ''yes''" and z: "yes_no_mapping (PStr ''2'') = Some ''no''"
    by (simp_all add: yes_no_mapping_def)
  note t = unmapped_code_fallback [where df = ?pd and col = "''Gender''" and i = 0
      and v = "PFloat ''3.0''" and df' = ?pl and col' = "''is_major_activity''" and i' = 0
      and v' = "PInt 3" and mapping_dict = yes_no_mapping]
  have h1: "pd_cell ?pd ''Gender'' 0 = Some (PFloat ''3.0'') \<and> \<not> isna (PFloat ''3.0'')
      \<and> yes_no_mapping (PStr (normalize_code (py_str (PFloat ''3.0'')))) = None"
    using a b c by (intro conjI)
  have h2: "pl_cell ?pl ''is_major_activity'' 0 = Some (PInt 3) \<and> PInt 3 \<noteq> PNone
      \<and> yes_no_mapping (PStr (py_str (PInt 3))) = None"
    using d e by simp
  from t [THEN conjunct1, THEN mp, OF h1]
  have 1: "pd_cell (map_codes_to_descriptions_pd ?pd ''Gender'' yes_no_mapping) ''Gender'' 0
      = Some (PStr ''Unknown (3.0)'')"
    by simp
  from t [THEN conjunct2, THEN conjunct1, THEN mp, OF h2]
  have 2: "pl_cell (map_codes_to_descriptions_pl ?pl ''is_major_activity'' yes_no_mapping)
      ''is_major_activity'' 0 = Some (PStr ''Unknown (3)'')"
    by (simp add: s3)
  note u = t [THEN conjunct2, THEN conjunct2, THEN mp, OF h]
  from u [THEN conjunct1, THEN mp, OF h1, THEN spec, THEN spec, THEN mp, OF y]
  have 3: "pd_cell (map_codes_to_descriptions_pd ?pd ''Gender'' yes_no_mapping) ''Gender'' 0
      \<noteq> Some (PStr ''yes'')" .
  from u [THEN conjunct2, THEN mp, OF h2, THEN spec, THEN spec, THEN mp, OF z]
  have 4: "pl_cell (map_codes_to_descriptions_pl ?pl ''is_major_activity'' yes_no_mapping)
      ''is_major_activity'' 0 \<noteq> Some (PStr ''no'')" .
  from a b c 1 3 d e 2 4 show ?thesis by (intro conjI)
qed

text \<open>
  Claim C4 as stated fails: with the map \<open>{"1": "Unknown (3)"}\<close> the absent code \<open>3\<close> is
  given the fallback \<open>Unknown (3)\<close>, which is the description of the code \<open>1\<close>.
\<close>

theorem fallback_may_equal_a_description:
  "\<not> (\<forall>mapping_dict v. v \<noteq> PNone \<and> mapping_dict (PStr (py_str v)) = None
        \<longrightarrow> (\<forall>k d. mapping_dict k = Some d \<longrightarrow> map_value mapping_dict v \<noteq> PStr d))"
proof
  assume h: "\<forall>mapping_dict v. v \<noteq> PNone \<and> mapping_dict (PStr (py_str v)) = None
        \<longrightarrow> (\<forall>k d. mapping_dict k = Some d \<longrightarrow> map_value mapping_dict v \<noteq> PStr d)"
  let ?m = "[PStr ''1'' \<mapsto> ''Unknown (3)''] :: codemap"
  have a: "?m (PStr (py_str (PStr ''3''))) = None" by simp
  have b: "?m (PStr ''1'') = Some ''Unknown (3)''" by simp
  have c: "map_value ?m (PStr ''3'') = PStr ''Unknown (3)''" by (simp add: map_value_def)
  from h a b have "map_value ?m (PStr ''3'') \<noteq> PStr ''Unknown (3)''" by blast
  with c show False by simp
qed

text \<open>
  Claim C2, amended. \<^verbatim>\<open>src/parse.py\<close> maps every NA cell to the literal \<open>Unknown\<close>,
  whatever the map holds. \<^verbatim>\<open>src/2019/parse.py\<close> leaves a null cell null when the map has no
  entry for the key \<open>None\<close>.
\<close>

theorem null_cell_mapping:
  "(pd_cell df col i = Some v \<and> isna v
      \<longrightarrow> pd_cell (map_codes_to_descriptions_pd df col mapping_dict) col i = Some (PStr ''Unknown''))
   \<and> (pl_cell df' col' i' = Some PNone \<and> mapping_dict' PNone = None
      \<longrightarrow> pl_cell (map_codes_to_descriptions_pl df' col' mapping_dict') col' i' = Some PNone)"
  by (simp add: pd_cell_map_codes pl_cell_map_codes clean_and_map_def map_value_def)

theorem null_cell_mapping_witness:
  "pd_cell [(''Gender'', [PFloat ''nan''])] ''Gender'' 0 = Some (PFloat ''nan'')
   \<and> isna (PFloat ''nan'')
   \<and> pd_cell (map_codes_to_descriptions_pd [(''Gender'', [PFloat ''nan''])] ''Gender'' yes_no_mapping)
        ''Gender'' 0 = Some (PStr ''Unknown'')
   \<and> pl_cell [Column ''is_major_activity'' Int64 [PNone]] ''is_major_activity'' 0 = Some PNone
   \<and> yes_no_mapping PNone = None
   \<and> pl_cell (map_codes_to_descriptions_pl [Column ''is_major_activity'' Int64 [PNone]]
        ''is_major_activity'' yes_no_mapping) ''is_major_activity'' 0 = Some PNone"
proof -
  have a: "pd_cell [(''Gender'', [PFloat ''nan''])] ''Gender'' 0 = Some (PFloat ''nan'')"
    by (simp add: pd_cell_def)
  have b: "isna (PFloat ''nan'')" by (simp add: isna_def)
  have c: "pl_cell [Column ''is_major_activity'' Int64 [PNone]] ''is_major_activity'' 0 = Some PNone"
    by (simp add: pl_cell_def get_column_def)
  have d: "yes_no_mapping PNone = None" by (simp add: yes_no_mapping_def)
  from null_cell_mapping [of "[(''Gender'', [PFloat ''nan''])]" "''Gender''" 0 "PFloat ''nan''"
      yes_no_mapping "[Column ''is_major_activity'' Int64 [PNone]]" "''is_major_activity''" 0
      yes_no_mapping]
  show ?thesis using a b c d by simp
qed

text \<open>
  Claim C2 as stated fails: the map of lines 366 and 374 gives the key \<open>None\<close> the
  description \<open>yes\<close>, and a null cell mapped with it stays null in
  \<^verbatim>\<open>src/2019/parse.py\<close> and becomes \<open>Unknown\<close> in \<^verbatim>\<open>src/parse.py\<close>: neither mapper looks the key
  \<open>None\<close> up.
\<close>

theorem null_key_entry_is_never_consulted:
  "yes_no_mapping_with_none PNone = Some ''yes''
   \<and> pl_cell (map_codes_to_descriptions_pl [Column ''multiple_activity'' Int64 [PNone]]
        ''multiple_activity'' yes_no_mapping_with_none) ''multiple_activity'' 0 = Some PNone
   \<and> pd_cell (map_codes_to_descriptions_pd [(''multiple_activity'', [PNone])]
        ''multiple_activity'' yes_no_mapping_with_none) ''multiple_activity'' 0
       = Some (PStr ''Unknown'')"
  unfolding pd_cell_map_codes pl_cell_map_codes
  by (simp add: clean_and_map_def map_value_def yes_no_mapping_with_none_def pd_cell_def
      pl_cell_def get_column_def isna_def)

text \<open>
  Claim C10. After a column has been mapped, every cell of it is a string in
  \<^verbatim>\<open>src/parse.py\<close> (the NA cells included), and in \<^verbatim>\<open>src/2019/parse.py\<close> the column has the
  dtype \<open>Utf8\<close> and every cell of it is null or a string, whatever the cells were before.
\<close>

theorem mapped_column_is_string_typed:
  "(pd_cell (map_codes_to_descriptions_pd df col mapping_dict) col i = Some w \<longrightarrow> is_str w)
   \<and> (get_column df' col' \<noteq> None \<longrightarrow>
        (\<exists>c. get_column (map_codes_to_descriptions_pl df' col' mapping_dict') col' = Some c
             \<and> ctype c = Utf8 \<and> list_all (\<lambda>w. w = PNone \<or> is_str w) (cells c)))"
proof -
  have "list_all (\<lambda>w. w = PNone \<or> is_str w) (map (map_value m) vs)" for m vs
    by (simp add: list_all_iff map_value_str_or_none)
  then show ?thesis
    by (auto simp: pd_cell_map_codes get_column_map_codes_pl is_str_clean_and_map)
qed

theorem mapped_column_is_string_typed_witness:
  "pd_cell (map_codes_to_descriptions_pd [(''Gender'', [PFloat ''1.0'', PFloat ''nan''])] ''Gender''
        yes_no_mapping) ''Gender'' 1 = Some (PStr ''Unknown'')
   \<and> is_str (PStr ''Unknown'')
   \<and> get_column [Column ''Gender'' Int64 [PInt 1, PNone]] ''Gender'' \<noteq> None
   \<and> (\<exists>c. get_column (map_codes_to_descriptions_pl [Column ''Gender'' Int64 [PInt 1, PNone]]
              ''Gender'' yes_no_mapping) ''Gender'' = Some c
           \<and> ctype c = Utf8 \<and> list_all (\<lambda>w. w = PNone \<or> is_str w) (cells c))"
proof -
  have a: "pd_cell (map_codes_to_descriptions_pd [(''Gender'', [PFloat ''1.0'', PFloat ''nan''])]
        ''Gender'' yes_no_mapping) ''Gender'' 1 = Some (PStr ''Unknown'')"
    unfolding pd_cell_map_codes by (simp add: pd_cell_def clean_and_map_def isna_def)
  have b: "get_column [Column ''Gender'' Int64 [PInt 1, PNone]] ''Gender'' \<noteq> None"
    by (simp add: get_column_def)
  from mapped_column_is_string_typed [of "[(''Gender'', [PFloat ''1.0'', PFloat ''nan''])]"
      "''Gender''" yes_no_mapping 1 "PStr ''Unknown''" "[Column ''Gender'' Int64 [PInt 1, PNone]]"
      "''Gender''" yes_no_mapping]
  show ?thesis using a b by simp
qed

section \<open>The column order\<close>

lemma set_final_column_order: "set (final_column_order column_order columns) = set columns"
  by (auto simp: final_column_order_def)

lemma mset_final_column_order:
  assumes "distinct column_order" "distinct columns"
  shows "mset (final_column_order column_order columns) = mset columns"
proof -
  have "distinct (filter (\<lambda>c. c \<in> set columns) column_order)"
    and "distinct (filter (\<lambda>c. c \<in> set column_order) columns)"
    using assms by simp_all
  moreover have "set (filter (\<lambda>c. c \<in> set columns) column_order)
      = set (filter (\<lambda>c. c \<in> set column_order) columns)"
    by auto
  ultimately have "mset (filter (\<lambda>c. c \<in> set columns) column_order)
      = mset (filter (\<lambda>c. c \<in> set column_order) columns)"
    by (simp only: set_eq_iff_mset_eq_distinct)
  then have "mset (final_column_order column_order columns)
      = mset (filter (\<lambda>c. c \<in> set column_order) columns)
        + mset (filter (\<lambda>c. c \<notin> set column_order) columns)"
    by (simp add: final_column_order_def)
  also have "\<dots> = mset columns"
    by (simp only: mset_filter multiset_partition [symmetric])
  finally show ?thesis .
qed

lemma those_map_Some:
  "(\<And>x. x \<in> set xs \<Longrightarrow> f x = Some (g x)) \<Longrightarrow> those (map f xs) = Some (map g xs)"
  by (induction xs) auto

lemma get_column_of_member:
  "distinct (pl_columns df) \<Longrightarrow> c \<in> set df \<Longrightarrow> get_column df (cname c) = Some c"
  by (induction df) (auto simp: get_column_def pl_columns_def)

lemma get_column_the:
  assumes "n \<in> set (pl_columns df)"
  shows "get_column df n = Some (the (get_column df n))"
  using assms get_column_None [of df n] by (cases "get_column df n") auto

lemma mset_map_inverse:
  assumes "mset names = mset (map k xs)" and "\<And>x. x \<in> set xs \<Longrightarrow> g (k x) = x"
  shows "mset (map g names) = mset xs"
proof -
  have "mset (map g names) = image_mset g (mset names)"
    by simp
  also have "\<dots> = image_mset g (image_mset k (mset xs))"
    by (simp only: assms(1) mset_map)
  also have "\<dots> = image_mset (g \<circ> k) (mset xs)"
    by (simp only: multiset.map_comp)
  also have "\<dots> = image_mset id (mset xs)"
    by (rule image_mset_cong) (simp add: assms(2))
  finally show ?thesis by simp
qed

lemma reorder_pl_permutes:
  assumes "distinct (pl_columns df)" "distinct column_order"
  shows "\<exists>out. reorder_pl column_order df = Some out
           \<and> pl_columns out = final_column_order column_order (pl_columns df)
           \<and> mset out = mset df"
proof -
  define names where "names = final_column_order column_order (pl_columns df)"
  define g where "g = (\<lambda>n. the (get_column df n))"
  have m: "mset names = mset (map cname df)"
    using assms by (simp add: names_def mset_final_column_order pl_columns_def)
  have sn: "set names = set (pl_columns df)"
    by (simp add: names_def set_final_column_order)
  have d: "distinct names"
    using assms(1) m mset_eq_imp_distinct_iff [of names "map cname df"]
    by (simp add: pl_columns_def)
  have gs: "get_column df x = Some (g x)" if "x \<in> set names" for x
    using that sn get_column_the [of x df] by (simp add: g_def)
  have s: "those (map (get_column df) names) = Some (map g names)"
    by (rule those_map_Some) (rule gs)
  have "cname (g x) = x" if "x \<in> set names" for x
    using gs [OF that] by (rule get_column_cname)
  then have n: "map cname (map g names) = names"
    by (simp add: map_idI)
  have "g (cname c) = c" if "c \<in> set df" for c
    using get_column_of_member [OF assms(1) that] by (simp add: g_def)
  with m have p: "mset (map g names) = mset df"
    by (rule mset_map_inverse)
  have "reorder_pl column_order df = Some (map g names)"
    using d s by (simp add: reorder_pl_def pl_select_def names_def)
  with n p show ?thesis
    by (simp add: pl_columns_def names_def)
qed

lemma map_of_member:
  "distinct (map fst df) \<Longrightarrow> p \<in> set df \<Longrightarrow> map_of df (fst p) = Some (snd p)"
  by (cases p) simp

lemma map_of_the:
  assumes "n \<in> set (pd_columns df)"
  shows "map_of df n = Some (the (map_of df n))"
proof (cases "map_of df n")
  case None
  with assms show ?thesis by (simp add: map_of_eq_None_iff pd_columns_def)
qed simp

lemma reorder_pd_permutes:
  assumes "distinct (pd_columns df)" "distinct column_order"
  shows "\<exists>out. reorder_pd column_order df = Some out
           \<and> pd_columns out = final_column_order column_order (pd_columns df)
           \<and> mset out = mset df"
proof -
  define names where "names = final_column_order column_order (pd_columns df)"
  define g where "g = (\<lambda>n. (n, the (map_of df n)))"
  have m: "mset names = mset (map fst df)"
    using assms by (simp add: names_def mset_final_column_order pd_columns_def)
  have sn: "set names = set (pd_columns df)"
    by (simp add: names_def set_final_column_order)
  have gs: "map_option (Pair x) (map_of df x) = Some (g x)" if "x \<in> set names" for x
  proof -
    from that sn have "x \<in> set (pd_columns df)"
      by simp
    then have "map_of df x = Some (the (map_of df x))"
      by (rule map_of_the)
    then obtain vs where "map_of df x = Some vs" ..
    then show ?thesis by (simp add: g_def)
  qed
  have s: "those (map (\<lambda>n. map_option (Pair n) (map_of df n)) names) = Some (map g names)"
    by (rule those_map_Some) (rule gs)
  have n: "map fst (map g names) = names"
    by (simp add: g_def comp_def)
  have "g (fst p) = p" if "p \<in> set df" for p
  proof -
    from assms(1) have "distinct (map fst df)"
      by (simp add: pd_columns_def)
    from map_of_member [OF this that] show ?thesis
      by (simp add: g_def)
  qed
  with m have p: "mset (map g names) = mset df"
    by (rule mset_map_inverse)
  have "reorder_pd column_order df = Some (map g names)"
    using s by (simp add: reorder_pd_def pd_select_def names_def)
  with n p show ?thesis
    by (simp add: pd_columns_def names_def)
qed

text \<open>
  Claim C8. For every desired order and every list of the table's columns, the final
  order is the desired columns that the table has, in the desired order, followed by the
  table's other columns in their own order; it has exactly the table's columns, each once
  when no name is repeated. Selecting the columns in that order succeeds and keeps every
  column of the table, in polars and in pandas. The desired order \<open>[a, b]\<close> over the
  columns \<open>b, c, a\<close> gives \<open>[a, b, c]\<close>.
\<close>

theorem final_order_keeps_every_column:
  "(\<exists>desired remaining.
       final_column_order column_order columns = desired @ remaining
       \<and> desired = filter (\<lambda>c. c \<in> set columns) column_order \<and> subseq desired column_order
       \<and> remaining = filter (\<lambda>c. c \<notin> set column_order) columns \<and> subseq remaining columns)
   \<and> set (final_column_order column_order columns) = set columns
   \<and> (distinct column_order \<and> distinct columns
        \<longrightarrow> mset (final_column_order column_order columns) = mset columns)
   \<and> (distinct column_order \<and> distinct (pl_columns pl_df)
        \<longrightarrow> (\<exists>out. reorder_pl column_order pl_df = Some out
               \<and> pl_columns out = final_column_order column_order (pl_columns pl_df)
               \<and> mset out = mset pl_df))
   \<and> (distinct column_order \<and> distinct (pd_columns pd_df)
        \<longrightarrow> (\<exists>out. reorder_pd column_order pd_df = Some out
               \<and> pd_columns out = final_column_order column_order (pd_columns pd_df)
               \<and> mset out = mset pd_df))
   \<and> final_column_order [''a'', ''b''] [''b'', ''c'', ''a''] = [''a'', ''b'', ''c'']"
proof -
  have 1: "\<exists>desired remaining.
       final_column_order column_order columns = desired @ remaining
       \<and> desired = filter (\<lambda>c. c \<in> set columns) column_order \<and> subseq desired column_order
       \<and> remaining = filter (\<lambda>c. c \<notin> set column_order) columns \<and> subseq remaining columns"
    by (simp add: final_column_order_def)
  have 2: "set (final_column_order column_order columns) = set columns"
    by (rule set_final_column_order)
  have 3: "distinct column_order \<and> distinct columns
        \<longrightarrow> mset (final_column_order column_order columns) = mset columns"
    by (simp add: mset_final_column_order)
  have 4: "distinct column_order \<and> distinct (pl_columns pl_df)
        \<longrightarrow> (\<exists>out. reorder_pl column_order pl_df = Some out
               \<and> pl_columns out = final_column_order column_order (pl_columns pl_df)
               \<and> mset out = mset pl_df)"
    using reorder_pl_permutes [of pl_df column_order] by blast
  have 5: "distinct column_order \<and> distinct (pd_columns pd_df)
        \<longrightarrow> (\<exists>out. reorder_pd column_order pd_df = Some out
               \<and> pd_columns out = final_column_order column_order (pd_columns pd_df)
               \<and> mset out = mset pd_df)"
    using reorder_pd_permutes [of pd_df column_order] by blast
  have 6: "final_column_order [''a'', ''b''] [''b'', ''c'', ''a''] = [''a'', ''b'', ''c'']"
    by (simp add: final_column_order_def)
  from 1 2 3 4 5 6 show ?thesis by (intro conjI)
qed

theorem final_order_keeps_every_column_witness:
  "distinct [''a'', ''b''] \<and> distinct [''b'', ''c'', ''a'']
   \<and> mset (final_column_order [''a'', ''b''] [''b'', ''c'', ''a'']) = mset [''b'', ''c'', ''a'']
   \<and> distinct (pl_columns [Column ''b'' Utf8 [PStr ''x''], Column ''c'' Int64 [PInt 1],
        Column ''a'' Int64 [PInt 2]])
   \<and> reorder_pl [''a'', ''b''] [Column ''b'' Utf8 [PStr ''x''], Column ''c'' Int64 [PInt 1],
        Column ''a'' Int64 [PInt 2]]
       = Some [Column ''a'' Int64 [PInt 2], Column ''b'' Utf8 [PStr ''x''], Column ''c'' Int64 [PInt 1]]
   \<and> distinct (pd_columns [(''b'', [PStr ''x'']), (''c'', [PInt 1]), (''a'', [PInt 2])])
   \<and> reorder_pd [''a'', ''b''] [(''b'', [PStr ''x'']), (''c'', [PInt 1]), (''a'', [PInt 2])]
       = Some [(''a'', [PInt 2]), (''b'', [PStr ''x'']), (''c'', [PInt 1])]"
proof -
  have a: "distinct [''a'', ''b''] \<and> distinct [''b'', ''c'', ''a'']" by simp
  have b: "distinct (pl_columns [Column ''b'' Utf8 [PStr ''x''], Column ''c'' Int64 [PInt 1],
        Column ''a'' Int64 [PInt 2]])"
    by (simp add: pl_columns_def)
  have c: "reorder_pl [''a'', ''b''] [Column ''b'' Utf8 [PStr ''x''], Column ''c'' Int64 [PInt 1],
        Column ''a'' Int64 [PInt 2]]
       = Some [Column ''a'' Int64 [PInt 2], Column ''b'' Utf8 [PStr ''x''], Column ''c'' Int64 [PInt 1]]"
    by (simp add: reorder_pl_def pl_select_def final_column_order_def pl_columns_def get_column_def)
  have d: "distinct (pd_columns [(''b'', [PStr ''x'']), (''c'', [PInt 1]), (''a'', [PInt 2])])"
    by (simp add: pd_columns_def)
  have e: "reorder_pd [''a'', ''b''] [(''b'', [PStr ''x'']), (''c'', [PInt 1]), (''a'', [PInt 2])]
       = Some [(''a'', [PInt 2]), (''b'', [PStr ''x'']), (''c'', [PInt 1])]"
    by (simp add: reorder_pd_def pd_select_def final_column_order_def pd_columns_def)
  have "mset (final_column_order [''a'', ''b''] [''b'', ''c'', ''a'']) = mset [''b'', ''c'', ''a'']"
    using a final_order_keeps_every_column [of "[''a'', ''b'']" "[''b'', ''c'', ''a'']",
        THEN conjunct2, THEN conjunct2, THEN conjunct1]
    by (rule rev_mp)
  with a b c d e show ?thesis by (simp only: simp_thms)
qed

section \<open>Identifiers\<close>

lemma those_eq_Some: "those xs = Some ys \<longleftrightarrow> xs = map Some ys"
  by (induction xs arbitrary: ys) (auto split: option.splits)

lemma map_of_set_column: "map_of (set_column df n vs) n = Some vs"
proof (cases "n \<in> set (pd_columns df)")
  case True
  have "n \<in> fst ` set xs \<Longrightarrow>
      map_of (map (\<lambda>(m, ws). if m = n then (m, vs) else (m, ws)) xs) n = Some vs" for xs :: pd_frame
    by (induction xs) auto
  with True show ?thesis
    by (simp add: set_column_def pd_columns_def)
next
  case False
  then have "map_of df n = None"
    by (simp add: pd_columns_def map_of_eq_None_iff)
  with False show ?thesis
    by (simp add: set_column_def map_add_def)
qed

lemma map_of_set_column_other: "m \<noteq> n \<Longrightarrow> map_of (set_column df n vs) m = map_of df m"
proof -
  assume a: "m \<noteq> n"
  have "map_of (map (\<lambda>(k, ws). if k = n then (k, vs) else (k, ws)) xs) m = map_of xs m"
    for xs :: pd_frame
    using a by (induction xs) auto
  with a show ?thesis
    by (simp add: set_column_def map_add_def split: option.splits)
qed

lemma length_foldl_str_add:
  "length (foldl str_add c cs) = fold min (map length cs) (length c)"
  by (induction cs arbitrary: c) (simp_all add: str_add_def min.commute)

lemma nth_foldl_str_add:
  "i < length c \<Longrightarrow> \<forall>d \<in> set cs. i < length d \<Longrightarrow>
     i < length (foldl str_add c cs)
     \<and> foldl str_add c cs ! i = c ! i @ concat (map (\<lambda>d. d ! i) cs)"
proof (induction cs arbitrary: c)
  case Nil
  then show ?case by simp
next
  case (Cons d cs)
  have "i < length (str_add c d)" and "str_add c d ! i = c ! i @ d ! i"
    using Cons.prems by (simp_all add: str_add_def)
  with Cons.IH [of "str_add c d"] Cons.prems show ?case
    by simp
qed

lemma nth_person_id_cells:
  assumes "key_cols \<noteq> []" "\<forall>c \<in> set key_cols. i < length c" "i < length person"
  shows "i < length (person_id_cells key_cols person)
     \<and> person_id_cells key_cols person ! i
       = concat (map (\<lambda>c. py_str (c ! i)) key_cols) @ ''_'' @ py_str (person ! i)"
proof -
  obtain c cs where k: "key_cols = c # cs"
    using assms(1) by (cases key_cols) auto
  have "i < length (astype_str c)" "\<forall>d \<in> set (map astype_str cs). i < length d"
    using assms(2) k by (simp_all add: astype_str_def)
  from nth_foldl_str_add [OF this]
  have f: "i < length (foldl str_add (astype_str c) (map astype_str cs))"
    and g: "foldl str_add (astype_str c) (map astype_str cs) ! i
       = astype_str c ! i @ concat (map (\<lambda>d. d ! i) (map astype_str cs))"
    by simp_all
  have h: "concat (map (\<lambda>d. d ! i) (map astype_str cs)) = concat (map (\<lambda>c. py_str (c ! i)) cs)"
    using assms(2) k by (auto simp: astype_str_def comp_def intro!: arg_cong [where f = concat])
  have "astype_str c ! i = py_str (c ! i)"
    using assms(2) k by (simp add: astype_str_def)
  with f g h assms(3) show ?thesis
    by (simp add: person_id_cells_def k str_add_def astype_str_def)
qed

lemma map_Some_eq_nonNone:
  "map f xs = map Some ys \<Longrightarrow> x \<in> set xs \<Longrightarrow> f x \<noteq> None"
  by (induction xs arbitrary: ys) auto

lemma make_person_id_cell:
  assumes "those (map (\<lambda>n. pd_cell merged_df n i) join_keys) = Some vs"
    and "pd_cell merged_df ''Person serial no.'' i = Some p"
  shows "\<exists>out. make_person_id merged_df = Inr out
     \<and> pd_cell out ''person_id'' i = Some (PStr (concat (map py_str vs) @ ''_'' @ py_str p))"
proof -
  define cols where "cols = map (\<lambda>n. the (map_of merged_df n)) join_keys"
  have ne: "join_keys \<noteq> []"
    by (simp add: join_keys_def)
  from assms(1) have e: "map (\<lambda>n. pd_cell merged_df n i) join_keys = map Some vs"
    by (simp add: those_eq_Some)
  have c: "map_of merged_df n = Some (the (map_of merged_df n))
      \<and> i < length (the (map_of merged_df n))
      \<and> pd_cell merged_df n i = Some (the (map_of merged_df n) ! i)" if "n \<in> set join_keys" for n
  proof -
    from e that have "pd_cell merged_df n i \<noteq> None"
      by (rule map_Some_eq_nonNone)
    then show ?thesis
      by (auto simp: pd_cell_def split: option.splits if_splits)
  qed
  then have t: "those (map (map_of merged_df) join_keys) = Some cols"
    unfolding cols_def by (intro those_map_Some) simp
  have v: "map (\<lambda>c. c ! i) cols = vs"
  proof -
    have "map Some (map (\<lambda>c. c ! i) cols) = map (\<lambda>n. pd_cell merged_df n i) join_keys"
      using c by (simp add: cols_def)
    with e show ?thesis
      by (metis (no_types, lifting) list.inj_map_strong option.inject)
  qed
  obtain person where p: "map_of merged_df ''Person serial no.'' = Some person"
    "i < length person" "person ! i = p"
    using assms(2) by (auto simp: pd_cell_def split: option.splits if_splits)
  have "cols \<noteq> []" "\<forall>c \<in> set cols. i < length c"
    using ne c by (auto simp: cols_def)
  from nth_person_id_cells [OF this p(2)]
  have "i < length (person_id_cells cols person)"
    and "person_id_cells cols person ! i
       = concat (map py_str (map (\<lambda>c. c ! i) cols)) @ ''_'' @ py_str (person ! i)"
    by (simp_all add: comp_def)
  with t p v show ?thesis
    by (simp add: make_person_id_def pd_cell_def map_of_set_column)
qed

lemma cast_str_idem: "cast_str fmt (cast_str fmt v) = cast_str fmt v"
  by (cases v) simp_all

lemma cast_str_None: "cast_str fmt v = PNone \<longleftrightarrow> v = PNone"
  by (cases v) simp_all

lemma cast_str_shape: "cast_str fmt v = PNone \<or> is_str (cast_str fmt v)"
  by (cases v) simp_all

lemma cast_utf8_idem: "cast_utf8 fmt (cast_utf8 fmt c) = cast_utf8 fmt c"
  by (simp add: cast_utf8_def cast_str_idem)

lemma cname_cast_utf8: "cname (cast_utf8 fmt c) = cname c"
  by (simp add: cast_utf8_def)

lemma pl_columns_with_column:
  "pl_columns (with_column df col) =
     (if cname col \<in> set (pl_columns df) then pl_columns df else pl_columns df @ [cname col])"
proof -
  have "map cname (map (\<lambda>c. if cname c = cname col then col else c) xs) = map cname xs" for xs
    by (induction xs) auto
  then show ?thesis
    by (simp add: with_column_def pl_columns_def)
qed

lemma get_column_cast_named:
  "get_column (cast_named fmt df col) n =
     (if n = col then map_option (cast_utf8 fmt) (get_column df n) else get_column df n)"
proof (cases "get_column df col")
  case None
  then show ?thesis by (simp add: cast_named_def)
next
  case (Some c)
  then have "cname c = col" by (rule get_column_cname)
  with Some show ?thesis
    by (simp add: cast_named_def get_column_with_column cname_cast_utf8)
qed

lemma pl_columns_cast_named: "pl_columns (cast_named fmt df col) = pl_columns df"
proof (cases "get_column df col")
  case None
  then show ?thesis by (simp add: cast_named_def)
next
  case (Some c)
  then have "cname c = col" by (rule get_column_cname)
  moreover from Some have "col \<in> set (pl_columns df)"
    using get_column_None [of df col] by auto
  ultimately show ?thesis
    using Some by (simp add: cast_named_def pl_columns_with_column cname_cast_utf8)
qed

lemma get_column_foldl_cast:
  "get_column (foldl (cast_named fmt) df cols) n =
     (if n \<in> set cols then map_option (cast_utf8 fmt) (get_column df n) else get_column df n)"
proof (induction cols arbitrary: df)
  case Nil
  then show ?case by simp
next
  case (Cons col cols)
  have "get_column (foldl (cast_named fmt) (cast_named fmt df col) cols) n =
     (if n \<in> set cols then map_option (cast_utf8 fmt) (get_column (cast_named fmt df col) n)
      else get_column (cast_named fmt df col) n)"
    by (rule Cons.IH)
  then show ?case
    by (cases "get_column df n") (auto simp: get_column_cast_named cast_utf8_idem)
qed

lemma pl_columns_foldl_cast: "pl_columns (foldl (cast_named fmt) df cols) = pl_columns df"
  by (induction cols arbitrary: df) (simp_all add: pl_columns_cast_named)

lemma map_filter_all_Some:
  "(\<And>x. x \<in> set xs \<Longrightarrow> f x = Some (g x)) \<Longrightarrow> List.map_filter f xs = map g xs"
  by (induction xs) (simp_all add: map_filter_simps)

lemma nth_concat_cells:
  "cs \<noteq> [] \<Longrightarrow> \<forall>c \<in> set cs. i < length c \<and> (c ! i = PNone \<or> is_str (c ! i)) \<Longrightarrow>
     i < length (concat_cells cs)
     \<and> concat_cells cs ! i =
         (if PNone \<in> set (map (\<lambda>c. c ! i) cs) then PNone
          else PStr (concat (map (\<lambda>c. py_str (c ! i)) cs)))"
proof (induction cs rule: concat_cells.induct)
  case 1
  then show ?case by simp
next
  case (2 c)
  then show ?case by (cases "c ! i") auto
next
  case (3 c d cs)
  then have ih: "i < length (concat_cells (d # cs))"
    "concat_cells (d # cs) ! i =
       (if PNone \<in> set (map (\<lambda>c. c ! i) (d # cs)) then PNone
        else PStr (concat (map (\<lambda>c. py_str (c ! i)) (d # cs))))"
    by simp_all
  from "3.prems" have c: "i < length c" by simp
  from c ih(1) have "concat_cells (c # d # cs) ! i = str_join (c ! i) (concat_cells (d # cs) ! i)"
    by simp
  with c ih show ?case
    by (simp add: str_join_def)
qed

lemma pl_cell_SomeD:
  assumes "pl_cell df n i \<noteq> None"
  shows "get_column df n = Some (the (get_column df n))
     \<and> i < length (cells (the (get_column df n)))
     \<and> pl_cell df n i = Some (cells (the (get_column df n)) ! i)"
  using assms by (auto simp: pl_cell_def split: option.splits if_splits)

lemma none_in_cast: "PNone \<in> set (map (cast_str fmt) vs) \<longleftrightarrow> PNone \<in> set vs"
proof (induction vs)
  case Nil
  then show ?case by simp
next
  case (Cons a vs)
  then show ?case
    using cast_str_None [of fmt a] by auto
qed

lemma in_map_filterD: "c \<in> set (List.map_filter f xs) \<Longrightarrow> \<exists>x. f x = Some c"
  by (induction xs) (auto simp: map_filter_simps split: option.splits)

lemma add_household_id_cell:
  assumes "those (map (\<lambda>n. pl_cell df n i)
                  (filter (\<lambda>col. col \<in> set (pl_columns df)) GROUP_BY_COLUMNS)) = Some vs"
    and "vs \<noteq> []"
  shows "\<exists>out. add_household_id fmt df = Some out
     \<and> pl_cell out ''household_id'' i
         = Some (if PNone \<in> set vs then PNone
                 else PStr (concat (map (\<lambda>v. py_str (cast_str fmt v)) vs)))
     \<and> (''household_id'' \<notin> set (pl_columns df)
          \<longrightarrow> pl_columns out = pl_columns df @ [''household_id''])"
proof -
  define avail where "avail = filter (\<lambda>col. col \<in> set (pl_columns df)) GROUP_BY_COLUMNS"
  define col where "col = (\<lambda>n. the (get_column df n))"
  define df1 where "df1 = foldl (cast_named fmt) df avail"
  define cs where "cs = map (\<lambda>n. map (cast_str fmt) (cells (col n))) avail"
  from assms(1) have e: "map (\<lambda>n. pl_cell df n i) avail = map Some vs"
    by (simp add: those_eq_Some avail_def)
  then have "length avail = length vs"
    by (metis length_map)
  with assms(2) have ne: "avail \<noteq> []"
    by auto
  have c: "get_column df n = Some (col n) \<and> i < length (cells (col n))
      \<and> pl_cell df n i = Some (cells (col n) ! i)" if "n \<in> set avail" for n
    unfolding col_def using map_Some_eq_nonNone [OF e that] by (rule pl_cell_SomeD)
  have v: "map (\<lambda>n. cells (col n) ! i) avail = vs"
  proof -
    have "map Some (map (\<lambda>n. cells (col n) ! i) avail) = map (\<lambda>n. pl_cell df n i) avail"
      using c by simp
    with e show ?thesis
      by (metis (no_types, lifting) list.inj_map_strong option.inject)
  qed
  have g: "get_column df1 n = Some (cast_utf8 fmt (col n))" if "n \<in> set avail" for n
    using that c [OF that] by (simp add: df1_def get_column_foldl_cast)
  have mf: "List.map_filter (get_column df1) avail = map (\<lambda>n. cast_utf8 fmt (col n)) avail"
    by (rule map_filter_all_Some) (rule g)
  have cc: "concat_str fmt (List.map_filter (get_column df1) avail) = concat_cells cs"
    by (simp add: mf concat_str_def cs_def comp_def cast_utf8_idem) (simp add: cast_utf8_def)
  have "cs \<noteq> []"
    using ne by (simp add: cs_def)
  moreover have "\<forall>c \<in> set cs. i < length c \<and> (c ! i = PNone \<or> is_str (c ! i))"
    using c by (auto simp: cs_def cast_str_shape)
  ultimately have n: "i < length (concat_cells cs)"
    "concat_cells cs ! i =
       (if PNone \<in> set (map (\<lambda>c. c ! i) cs) then PNone
        else PStr (concat (map (\<lambda>c. py_str (c ! i)) cs)))"
    using nth_concat_cells [of cs i] by simp_all
  have m: "map (\<lambda>c. c ! i) cs = map (cast_str fmt) vs"
    using c v by (auto simp: cs_def comp_def)
  have "map (\<lambda>c. py_str (c ! i)) cs = map py_str (map (\<lambda>c. c ! i) cs)"
    by simp
  also have "\<dots> = map py_str (map (cast_str fmt) vs)"
    by (simp only: m)
  finally have m2: "map (\<lambda>c. py_str (c ! i)) cs = map (\<lambda>v. py_str (cast_str fmt v)) vs"
    by simp
  have m3: "PNone \<in> set (map (\<lambda>c. c ! i) cs) \<longleftrightarrow> PNone \<in> set vs"
    unfolding m by (rule none_in_cast)
  define out where "out = with_column df1 (Column ''household_id'' Utf8 (concat_cells cs))"
  have a: "add_household_id fmt df = Some out"
    using ne cc unfolding avail_def df1_def out_def add_household_id_def
    by (simp add: Let_def)
  have b: "pl_cell out ''household_id'' i
         = Some (if PNone \<in> set vs then PNone
                 else PStr (concat (map (\<lambda>v. py_str (cast_str fmt v)) vs)))"
  proof -
    have "concat_cells cs ! i = (if PNone \<in> set vs then PNone
                 else PStr (concat (map (\<lambda>v. py_str (cast_str fmt v)) vs)))"
      by (simp only: n(2) m2 m3)
    with n(1) show ?thesis
      by (simp add: pl_cell_def out_def get_column_with_column)
  qed
  have d: "''household_id'' \<notin> set (pl_columns df)
          \<longrightarrow> pl_columns out = pl_columns df @ [''household_id'']"
    by (simp add: out_def pl_columns_with_column df1_def pl_columns_foldl_cast)
  from a b d show ?thesis by (intro exI [of _ out] conjI)
qed

lemma get_column_drop_column:
  "get_column (drop_column n df) m = (if m = n then None else get_column df m)"
proof -
  have "find (\<lambda>c. cname c = m) (filter (\<lambda>c. cname c \<noteq> n) xs) =
      (if m = n then None else find (\<lambda>c. cname c = m) xs)" for xs
    by (induction xs) auto
  then show ?thesis
    by (simp add: drop_column_def get_column_def)
qed

lemma add_person_id_cell:
  assumes "pl_cell individual_profile ''household_id'' i = Some h"
    and "pl_cell individual_profile ''Sl.No.'' i = Some s"
  shows "\<exists>out. add_person_id fmt individual_profile = Inr out
     \<and> pl_cell out ''person_id'' i
         = Some (if h = PNone \<or> s = PNone then PNone
                 else PStr (py_str (cast_str fmt h) @ py_str (cast_str fmt s)))
     \<and> map cname (take 1 out) = [''person_id'']
     \<and> ''Sl.No.'' \<notin> set (pl_columns out)"
proof -
  obtain hc where hc: "get_column individual_profile ''household_id'' = Some hc"
    "i < length (cells hc)" "cells hc ! i = h"
    using assms(1) by (auto simp: pl_cell_def split: option.splits if_splits)
  obtain sc where sc: "get_column individual_profile ''Sl.No.'' = Some sc"
    "i < length (cells sc)" "cells sc ! i = s"
    using assms(2) by (auto simp: pl_cell_def split: option.splits if_splits)
  define pid where "pid = Column ''person_id'' Utf8 (concat_str fmt [hc, sc])"
  define df2 where "df2 = drop_column ''Sl.No.'' (with_column individual_profile pid)"
  define names where "names = ''person_id'' # filter (\<lambda>col. col \<noteq> ''person_id'') (pl_columns df2)"
  define out where "out = List.map_filter (get_column df2) names"
  have g: "get_column df2 ''person_id'' = Some pid"
    by (simp add: df2_def get_column_drop_column get_column_with_column pid_def)
  have o: "out = pid # List.map_filter (get_column df2)
                     (filter (\<lambda>col. col \<noteq> ''person_id'') (pl_columns df2))"
    by (simp add: out_def names_def map_filter_simps g)
  have a: "add_person_id fmt individual_profile = Inr out"
    by (simp add: add_person_id_def hc sc out_def names_def df2_def pid_def Let_def)
  have cv: "cells pid = map2 str_join (map (cast_str fmt) (cells hc)) (map (cast_str fmt) (cells sc))"
    by (simp add: pid_def concat_str_def cast_utf8_def)
  have b: "pl_cell out ''person_id'' i
         = Some (if h = PNone \<or> s = PNone then PNone
                 else PStr (py_str (cast_str fmt h) @ py_str (cast_str fmt s)))"
    using hc sc
    by (simp add: o pl_cell_def get_column_def pid_def [symmetric] cv str_join_def cast_str_None)
      (simp add: pid_def)
  have c: "map cname (take 1 out) = [''person_id'']"
    by (simp add: o pid_def)
  have nn: "cname c \<noteq> ''Sl.No.''" if "c \<in> set out" for c
  proof -
    from that obtain n where n: "get_column df2 n = Some c"
      unfolding out_def by (auto dest: in_map_filterD)
    then have "cname c = n" by (rule get_column_cname)
    with n show ?thesis
      by (auto simp: df2_def get_column_drop_column split: if_splits)
  qed
  have d: "''Sl.No.'' \<notin> set (pl_columns out)"
  proof
    assume "''Sl.No.'' \<in> set (pl_columns out)"
    then obtain c where "c \<in> set out" "cname c = ''Sl.No.''"
      by (auto simp: pl_columns_def)
    with nn show False by blast
  qed
  from a b c d show ?thesis by (intro exI [of _ out] conjI)
qed

text \<open>
  Claim C3, amended. In \<^verbatim>\<open>src/2019/parse.py\<close> the grouping columns that the table has are
  cast to strings and joined, in the order of \<open>GROUP_BY_COLUMNS\<close> (the FSU serial number
  first, then sector, state and district) and with no separator, into the column
  \<open>household_id\<close>, which is added at the end (a row with a null key cell gets a null
  identifier); \<open>person_id\<close> is \<open>household_id\<close> followed directly by \<open>Sl.No.\<close>. A row with the
  sector \<open>10\<close>, the state \<open>2\<close>, the district \<open>07\<close> and the FSU serial number \<open>003\<close> gets the
  household identifier \<open>00310207\<close>, and the person sequence \<open>02\<close> gives the person identifier
  \<open>0031020702\<close>. In \<^verbatim>\<open>src/parse.py\<close> (line 217) \<open>person_id\<close> is the strings of the twelve key
  columns joined with no separator, then \<open>_\<close>, then the person's serial number.
\<close>

theorem household_and_person_id:
  "(those (map (\<lambda>n. pl_cell df n i)
             (filter (\<lambda>col. col \<in> set (pl_columns df)) GROUP_BY_COLUMNS)) = Some vs \<and> vs \<noteq> []
     \<longrightarrow> (\<exists>out. add_household_id fmt df = Some out
            \<and> pl_cell out ''household_id'' i
                = Some (if PNone \<in> set vs then PNone
                        else PStr (concat (map (\<lambda>v. py_str (cast_str fmt v)) vs)))
            \<and> (''household_id'' \<notin> set (pl_columns df)
                 \<longrightarrow> pl_columns out = pl_columns df @ [''household_id''])))
   \<and> (pl_cell individual_profile ''household_id'' j = Some h
       \<and> pl_cell individual_profile ''Sl.No.'' j = Some s
     \<longrightarrow> (\<exists>out. add_person_id fmt individual_profile = Inr out
            \<and> pl_cell out ''person_id'' j
                = Some (if h = PNone \<or> s = PNone then PNone
                        else PStr (py_str (cast_str fmt h) @ py_str (cast_str fmt s)))
            \<and> map cname (take 1 out) = [''person_id'']
            \<and> ''Sl.No.'' \<notin> set (pl_columns out)))
   \<and> (those (map (\<lambda>n. pd_cell merged_df n k) join_keys) = Some ws
       \<and> pd_cell merged_df ''Person serial no.'' k = Some p
     \<longrightarrow> (\<exists>out. make_person_id merged_df = Inr out
            \<and> pd_cell out ''person_id'' k
                = Some (PStr (concat (map py_str ws) @ ''_'' @ py_str p))))
   \<and> add_household_id fmt
        [Column ''Sector'' Utf8 [PStr ''10''], Column ''State'' Utf8 [PStr ''2''],
         Column ''District'' Utf8 [PStr ''07''], Column ''FSU Serial No.'' Utf8 [PStr ''003'']]
       = Some [Column ''Sector'' Utf8 [PStr ''10''], Column ''State'' Utf8 [PStr ''2''],
               Column ''District'' Utf8 [PStr ''07''], Column ''FSU Serial No.'' Utf8 [PStr ''003''],
               Column ''household_id'' Utf8 [PStr ''00310207'']]
   \<and> add_person_id fmt
        [Column ''household_id'' Utf8 [PStr ''00310207''], Column ''Sl.No.'' Utf8 [PStr ''02'']]
       = Inr [Column ''person_id'' Utf8 [PStr ''0031020702''],
              Column ''household_id'' Utf8 [PStr ''00310207'']]"
proof -
  have 1: "those (map (\<lambda>n. pl_cell df n i)
             (filter (\<lambda>col. col \<in> set (pl_columns df)) GROUP_BY_COLUMNS)) = Some vs \<and> vs \<noteq> []
     \<longrightarrow> (\<exists>out. add_household_id fmt df = Some out
            \<and> pl_cell out ''household_id'' i
                = Some (if PNone \<in> set vs then PNone
                        else PStr (concat (map (\<lambda>v. py_str (cast_str fmt v)) vs)))
            \<and> (''household_id'' \<notin> set (pl_columns df)
                 \<longrightarrow> pl_columns out = pl_columns df @ [''household_id'']))"
    using add_household_id_cell [of df i vs fmt] by (intro impI) (elim conjE)
  have 2: "pl_cell individual_profile ''household_id'' j = Some h
       \<and> pl_cell individual_profile ''Sl.No.'' j = Some s
     \<longrightarrow> (\<exists>out. add_person_id fmt individual_profile = Inr out
            \<and> pl_cell out ''person_id'' j
                = Some (if h = PNone \<or> s = PNone then PNone
                        else PStr (py_str (cast_str fmt h) @ py_str (cast_str fmt s)))
            \<and> map cname (take 1 out) = [''person_id'']
            \<and> ''Sl.No.'' \<notin> set (pl_columns out))"
    using add_person_id_cell [of individual_profile j h s fmt] by (intro impI) (elim conjE)
  have 3: "those (map (\<lambda>n. pd_cell merged_df n k) join_keys) = Some ws
       \<and> pd_cell merged_df ''Person serial no.'' k = Some p
     \<longrightarrow> (\<exists>out. make_person_id merged_df = Inr out
            \<and> pd_cell out ''person_id'' k
                = Some (PStr (concat (map py_str ws) @ ''_'' @ py_str p)))"
    using make_person_id_cell [of merged_df k ws p] by (intro impI) (elim conjE)
  have 4: "add_household_id fmt
        [Column ''Sector'' Utf8 [PStr ''10''], Column ''State'' Utf8 [PStr ''2''],
         Column ''District'' Utf8 [PStr ''07''], Column ''FSU Serial No.'' Utf8 [PStr ''003'']]
       = Some [Column ''Sector'' Utf8 [PStr ''10''], Column ''State'' Utf8 [PStr ''2''],
               Column ''District'' Utf8 [PStr ''07''], Column ''FSU Serial No.'' Utf8 [PStr ''003''],
               Column ''household_id'' Utf8 [PStr ''00310207'']]"
    by (simp add: add_household_id_def GROUP_BY_COLUMNS_def pl_columns_def cast_named_def
        get_column_def with_column_def cast_utf8_def concat_str_def map_filter_simps str_join_def)
  have 5: "add_person_id fmt
        [Column ''household_id'' Utf8 [PStr ''00310207''], Column ''Sl.No.'' Utf8 [PStr ''02'']]
       = Inr [Column ''person_id'' Utf8 [PStr ''0031020702''],
              Column ''household_id'' Utf8 [PStr ''00310207'']]"
    by (simp add: add_person_id_def pl_columns_def get_column_def with_column_def cast_utf8_def
        concat_str_def map_filter_simps str_join_def drop_column_def)
  from 1 2 3 4 5 show ?thesis by (intro conjI)
qed

text \<open>
  Claim C3 as stated fails. In \<^verbatim>\<open>src/parse.py\<close> line 217 puts \<open>_\<close> between the key and the
  person's serial number: the row below, with the twelve key columns and the serial
  number \<open>2\<close>, gets \<open>10610001101912817121128101_2\<close> and not \<open>106100011019128171211281012\<close>. In \<^verbatim>\<open>src/2019/parse.py\<close> the
  order of concatenation is that of \<open>GROUP_BY_COLUMNS\<close>, where the FSU serial number comes
  first: the row of the claim gets \<open>00310207\<close> and not \<open>10207003\<close>.
\<close>

theorem pandas_person_id_has_separator:
  "make_person_id
     [(''Schedule ID'', [PInt 106]), (''FSU Serial No.'', [PInt 10001]),
       (''Schedule'', [PInt 10]), (''survey year'', [PInt 19]), (''Sector'', [PInt 1]),
       (''NSS-Region'', [PInt 281]), (''District'', [PInt 7]), (''Stratum'', [PInt 12]),
       (''Sub-Stratum'', [PInt 1]), (''Sub-Round'', [PInt 1]),
       (''FOD Sub-Region'', [PInt 2810]), (''Sample hhld. No.'', [PInt 1]),
       (''Person serial no.'', [PInt 2])]
   = Inr [(''Schedule ID'', [PInt 106]), (''FSU Serial No.'', [PInt 10001]),
          (''Schedule'', [PInt 10]), (''survey year'', [PInt 19]), (''Sector'', [PInt 1]),
          (''NSS-Region'', [PInt 281]), (''District'', [PInt 7]), (''Stratum'', [PInt 12]),
          (''Sub-Stratum'', [PInt 1]), (''Sub-Round'', [PInt 1]),
          (''FOD Sub-Region'', [PInt 2810]), (''Sample hhld. No.'', [PInt 1]),
          (''Person serial no.'', [PInt 2]),
          (''person_id'', [PStr ''10610001101912817121128101_2''])]
   \<and> ''10610001101912817121128101_2'' \<noteq> ''106100011019128171211281012''
   \<and> (\<exists>out. process_parquet_file id
         [Column ''Unnamed: 0'' Int64 [PInt 0], Column ''Sector'' Utf8 [PStr ''10''],
          Column ''a'' Int64 [PInt 0], Column ''b'' Int64 [PInt 0],
          Column ''State'' Utf8 [PStr ''2''], Column ''District'' Utf8 [PStr ''07''],
          Column ''FSU Serial No.'' Utf8 [PStr ''003'']] = Some out
        \<and> pl_cell out ''household_id'' 0 = Some (PStr ''00310207''))
   \<and> ''00310207'' \<noteq> ''10207003''"
proof -
  have "process_parquet_file id
         [Column ''Unnamed: 0'' Int64 [PInt 0], Column ''Sector'' Utf8 [PStr ''10''],
          Column ''a'' Int64 [PInt 0], Column ''b'' Int64 [PInt 0],
          Column ''State'' Utf8 [PStr ''2''], Column ''District'' Utf8 [PStr ''07''],
          Column ''FSU Serial No.'' Utf8 [PStr ''003'']]
       = Some [Column ''Sector'' Utf8 [PStr ''10''], Column ''State'' Utf8 [PStr ''2''],
               Column ''District'' Utf8 [PStr ''07''], Column ''FSU Serial No.'' Utf8 [PStr ''003''],
               Column ''household_id'' Utf8 [PStr ''00310207'']]"
    by code_simp
  then have a: "\<exists>out. process_parquet_file id
         [Column ''Unnamed: 0'' Int64 [PInt 0], Column ''Sector'' Utf8 [PStr ''10''],
          Column ''a'' Int64 [PInt 0], Column ''b'' Int64 [PInt 0],
          Column ''State'' Utf8 [PStr ''2''], Column ''District'' Utf8 [PStr ''07''],
          Column ''FSU Serial No.'' Utf8 [PStr ''003'']] = Some out
        \<and> pl_cell out ''household_id'' 0 = Some (PStr ''00310207'')"
    by (simp add: pl_cell_def get_column_def)
  have b: "make_person_id
     [(''Schedule ID'', [PInt 106]), (''FSU Serial No.'', [PInt 10001]),
       (''Schedule'', [PInt 10]), (''survey year'', [PInt 19]), (''Sector'', [PInt 1]),
       (''NSS-Region'', [PInt 281]), (''District'', [PInt 7]), (''Stratum'', [PInt 12]),
       (''Sub-Stratum'', [PInt 1]), (''Sub-Round'', [PInt 1]),
       (''FOD Sub-Region'', [PInt 2810]), (''Sample hhld. No.'', [PInt 1]),
       (''Person serial no.'', [PInt 2])]
   = Inr [(''Schedule ID'', [PInt 106]), (''FSU Serial No.'', [PInt 10001]),
          (''Schedule'', [PInt 10]), (''survey year'', [PInt 19]), (''Sector'', [PInt 1]),
          (''NSS-Region'', [PInt 281]), (''District'', [PInt 7]), (''Stratum'', [PInt 12]),
          (''Sub-Stratum'', [PInt 1]), (''Sub-Round'', [PInt 1]),
          (''FOD Sub-Region'', [PInt 2810]), (''Sample hhld. No.'', [PInt 1]),
          (''Person serial no.'', [PInt 2]),
          (''person_id'', [PStr ''10610001101912817121128101_2''])]"
    by (simp add: make_person_id_def join_keys_def person_id_cells_def astype_str_def str_add_def
        set_column_def pd_columns_def str_int_eval)
  from a b show ?thesis by simp
qed

theorem household_and_person_id_witness:
  "those (map (\<lambda>n. pl_cell [Column ''State'' Int64 [PInt 2, PNone], Column ''Age'' Int64 [PInt 30, PInt 4],
                              Column ''District'' Utf8 [PStr ''07'', PStr ''08'']] n 0)
             (filter (\<lambda>col. col \<in> set (pl_columns [Column ''State'' Int64 [PInt 2, PNone],
                        Column ''Age'' Int64 [PInt 30, PInt 4],
                        Column ''District'' Utf8 [PStr ''07'', PStr ''08'']])) GROUP_BY_COLUMNS))
     = Some [PInt 2, PStr ''07'']
   \<and> (\<exists>out. add_household_id id
               [Column ''State'' Int64 [PInt 2, PNone], Column ''Age'' Int64 [PInt 30, PInt 4],
                Column ''District'' Utf8 [PStr ''07'', PStr ''08'']] = Some out
          \<and> pl_cell out ''household_id'' 0 = Some (PStr ''207''))
   \<and> pl_cell [Column ''household_id'' Utf8 [PStr ''207''], Column ''Sl.No.'' Int64 [PInt 1]]
        ''household_id'' 0 = Some (PStr ''207'')
   \<and> pl_cell [Column ''household_id'' Utf8 [PStr ''207''], Column ''Sl.No.'' Int64 [PInt 1]]
        ''Sl.No.'' 0 = Some (PInt 1)
   \<and> (\<exists>out. add_person_id id
               [Column ''household_id'' Utf8 [PStr ''207''], Column ''Sl.No.'' Int64 [PInt 1]] = Inr out
          \<and> pl_cell out ''person_id'' 0 = Some (PStr ''2071''))
   \<and> those (map (\<lambda>n. pd_cell
        [(''Schedule ID'', [PInt 106]), (''FSU Serial No.'', [PInt 10001]),
       (''Schedule'', [PInt 10]), (''survey year'', [PInt 19]), (''Sector'', [PInt 1]),
       (''NSS-Region'', [PInt 281]), (''District'', [PInt 7]), (''Stratum'', [PInt 12]),
       (''Sub-Stratum'', [PInt 1]), (''Sub-Round'', [PInt 1]),
       (''FOD Sub-Region'', [PInt 2810]), (''Sample hhld. No.'', [PInt 1]),
       (''Person serial no.'', [PInt 2])] n 0) join_keys)
     = Some [PInt 106, PInt 10001, PInt 10, PInt 19, PInt 1, PInt 281, PInt 7, PInt 12, PInt 1, PInt 1, PInt 2810, PInt 1]
   \<and> pd_cell
        [(''Schedule ID'', [PInt 106]), (''FSU Serial No.'', [PInt 10001]),
       (''Schedule'', [PInt 10]), (''survey year'', [PInt 19]), (''Sector'', [PInt 1]),
       (''NSS-Region'', [PInt 281]), (''District'', [PInt 7]), (''Stratum'', [PInt 12]),
       (''Sub-Stratum'', [PInt 1]), (''Sub-Round'', [PInt 1]),
       (''FOD Sub-Region'', [PInt 2810]), (''Sample hhld. No.'', [PInt 1]),
       (''Person serial no.'', [PInt 2])] ''Person serial no.'' 0 = Some (PInt 2)
   \<and> (\<exists>out. make_person_id
        [(''Schedule ID'', [PInt 106]), (''FSU Serial No.'', [PInt 10001]),
       (''Schedule'', [PInt 10]), (''survey year'', [PInt 19]), (''Sector'', [PInt 1]),
       (''NSS-Region'', [PInt 281]), (''District'', [PInt 7]), (''Stratum'', [PInt 12]),
       (''Sub-Stratum'', [PInt 1]), (''Sub-Round'', [PInt 1]),
       (''FOD Sub-Region'', [PInt 2810]), (''Sample hhld. No.'', [PInt 1]),
       (''Person serial no.'', [PInt 2])] = Inr out
          \<and> pd_cell out ''person_id'' 0 = Some (PStr ''10610001101912817121128101_2''))"
proof -
  let ?df = "[Column ''State'' Int64 [PInt 2, PNone], Column ''Age'' Int64 [PInt 30, PInt 4],
              Column ''District'' Utf8 [PStr ''07'', PStr ''08'']]"
  let ?prof = "[Column ''household_id'' Utf8 [PStr ''207''], Column ''Sl.No.'' Int64 [PInt 1]]"
  let ?pd = "[(''Schedule ID'', [PInt 106]), (''FSU Serial No.'', [PInt 10001]),
       (''Schedule'', [PInt 10]), (''survey year'', [PInt 19]), (''Sector'', [PInt 1]),
       (''NSS-Region'', [PInt 281]), (''District'', [PInt 7]), (''Stratum'', [PInt 12]),
       (''Sub-Stratum'', [PInt 1]), (''Sub-Round'', [PInt 1]),
       (''FOD Sub-Region'', [PInt 2810]), (''Sample hhld. No.'', [PInt 1]),
       (''Person serial no.'', [PInt 2])]"
  let ?ws = "[PInt 106, PInt 10001, PInt 10, PInt 19, PInt 1, PInt 281, PInt 7, PInt 12, PInt 1, PInt 1, PInt 2810, PInt 1]"
  have s1: "str_int 1 = ''1''" and s2: "str_int 2 = ''2''"
    by code_simp+
  have a: "those (map (\<lambda>n. pl_cell ?df n 0)
             (filter (\<lambda>col. col \<in> set (pl_columns ?df)) GROUP_BY_COLUMNS))
     = Some [PInt 2, PStr ''07'']"
    by (simp add: GROUP_BY_COLUMNS_def pl_columns_def pl_cell_def get_column_def)
  have b: "pl_cell ?prof ''household_id'' 0 = Some (PStr ''207'')"
    and c: "pl_cell ?prof ''Sl.No.'' 0 = Some (PInt 1)"
    by (simp_all add: pl_cell_def get_column_def)
  have d: "those (map (\<lambda>n. pd_cell ?pd n 0) join_keys) = Some ?ws"
    by code_simp
  have e: "pd_cell ?pd ''Person serial no.'' 0 = Some (PInt 2)"
    by code_simp
  have f: "concat (map py_str ?ws) @ ''_'' @ py_str (PInt 2) = ''10610001101912817121128101_2''"
    by (simp add: str_int_eval)
  note t = household_and_person_id [where df = ?df and i = 0
      and vs = "[PInt 2, PStr ''07'']" and fmt = id and individual_profile = ?prof and j = 0
      and h = "PStr ''207''" and s = "PInt 1"
      and merged_df = ?pd and k = 0 and ws = ?ws and p = "PInt 2"]
  have h1: "those (map (\<lambda>n. pl_cell ?df n 0)
             (filter (\<lambda>col. col \<in> set (pl_columns ?df)) GROUP_BY_COLUMNS))
     = Some [PInt 2, PStr ''07''] \<and> [PInt 2, PStr ''07''] \<noteq> []"
    using a by simp
  from t [THEN conjunct1, THEN mp, OF h1] obtain out1
    where "add_household_id id ?df = Some out1"
      and "pl_cell out1 ''household_id'' 0
            = Some (if PNone \<in> set [PInt 2, PStr ''07''] then PNone
                    else PStr (concat (map (\<lambda>v. py_str (cast_str id v)) [PInt 2, PStr ''07''])))"
    by (elim exE conjE)
  then have 1: "\<exists>out. add_household_id id ?df = Some out
          \<and> pl_cell out ''household_id'' 0 = Some (PStr ''207'')"
    by (intro exI [of _ out1]) (simp add: s2)
  have h2: "pl_cell ?prof ''household_id'' 0 = Some (PStr ''207'')
      \<and> pl_cell ?prof ''Sl.No.'' 0 = Some (PInt 1)"
    using b c by simp
  from t [THEN conjunct2, THEN conjunct1, THEN mp, OF h2] obtain out2
    where "add_person_id id ?prof = Inr out2"
      and "pl_cell out2 ''person_id'' 0
            = Some (if PStr ''207'' = PNone \<or> PInt 1 = PNone then PNone
                    else PStr (py_str (cast_str id (PStr ''207'')) @ py_str (cast_str id (PInt 1))))"
    by (elim exE conjE)
  then have 2: "\<exists>out. add_person_id id ?prof = Inr out
          \<and> pl_cell out ''person_id'' 0 = Some (PStr ''2071'')"
    by (intro exI [of _ out2]) (simp add: s1)
  have h3: "those (map (\<lambda>n. pd_cell ?pd n 0) join_keys) = Some ?ws
      \<and> pd_cell ?pd ''Person serial no.'' 0 = Some (PInt 2)"
    using d e by (intro conjI)
  from t [THEN conjunct2, THEN conjunct2, THEN conjunct1, THEN mp, OF h3] obtain out3
    where o3: "make_person_id ?pd = Inr out3"
      and "pd_cell out3 ''person_id'' 0
            = Some (PStr (concat (map py_str ?ws) @ ''_'' @ py_str (PInt 2)))"
    by (elim exE conjE)
  then have "pd_cell out3 ''person_id'' 0 = Some (PStr ''10610001101912817121128101_2'')"
    by (simp only: f)
  with o3 have 3: "\<exists>out. make_person_id ?pd = Inr out
          \<and> pd_cell out ''person_id'' 0 = Some (PStr ''10610001101912817121128101_2'')"
    by (intro exI [of _ out3] conjI)
  from a 1 b c 2 d e 3 show ?thesis by (intro conjI)
qed

section \<open>District names\<close>

lemma round64_int:
  assumes "\<bar>n\<bar> < 2 ^ 53"
  shows "round64 (of_int n) = Finite (of_int n)"
proof (cases "n = 0")
  case True
  then show ?thesis by (simp add: round64_def)
next
  case False
  define m where "m = nat \<bar>n\<bar>"
  have m: "0 < m" "m < 2 ^ 53"
    using False assms by (simp_all add: m_def nat_less_iff)
  have a: "\<bar>of_int n :: rat\<bar> = of_nat m"
    by (simp add: m_def)
  have "(if (of_int n :: rat) < 0 then - of_nat m else of_nat m) = (of_int n :: rat)"
    by (simp add: m_def)
  with round64_abs_nat [OF m a] show ?thesis
    by simp
qed

lemma str_float_of_int_exact:
  assumes "\<bar>n\<bar> < 2 ^ 53"
  shows "str_float_of_int n = str_int n @ ''.0''"
proof -
  have b: "\<bar>n\<bar> < 10 ^ 16"
    using assms by simp
  show ?thesis
  proof (cases "n < 0")
    case True
    with b show ?thesis
      by (simp add: str_float_of_int_def round64_int [OF assms] str_float_abs_def str_int_def)
  next
    case False
    with b show ?thesis
      by (simp add: str_float_of_int_def round64_int [OF assms] str_float_abs_def)
  qed
qed

lemma get_column_rename_column:
  "old \<noteq> new \<Longrightarrow> new \<notin> set (pl_columns df) \<Longrightarrow>
     get_column (rename_column old new df) n =
       (if n = new then map_option (\<lambda>c. Column new (ctype c) (cells c)) (get_column df old)
        else if n = old then None else get_column df n)"
  by (induction df) (auto simp: rename_column_def get_column_def pl_columns_def)

lemma pl_columns_drop_column: "set (pl_columns (drop_column n df)) = set (pl_columns df) - {n}"
  by (auto simp: drop_column_def pl_columns_def)

lemma get_column_map_district_codes_pl:
  assumes "get_column df ''State'' = Some st" "get_column df ''District'' = Some di"
  shows "get_column (map_district_codes_pl DISTRICT_MAPPING df) n =
     (if n = ''District''
      then Some (Column ''District'' Utf8
                   (map2 (map_district DISTRICT_MAPPING) (cells st) (cells di)))
      else if n = ''district_name'' then None else get_column df n)"
proof -
  define dn where
    "dn = Column ''district_name'' Utf8 (map2 (map_district DISTRICT_MAPPING) (cells st) (cells di))"
  define df2 where "df2 = drop_column ''District'' (with_column df dn)"
  have r: "map_district_codes_pl DISTRICT_MAPPING df = rename_column ''district_name'' ''District'' df2"
    by (simp add: map_district_codes_pl_def assms df2_def dn_def)
  have "''District'' \<notin> set (pl_columns df2)"
    by (simp add: df2_def pl_columns_drop_column)
  then have "get_column (rename_column ''district_name'' ''District'' df2) n =
       (if n = ''District''
        then map_option (\<lambda>c. Column ''District'' (ctype c) (cells c)) (get_column df2 ''district_name'')
        else if n = ''district_name'' then None else get_column df2 n)"
    by (intro get_column_rename_column) simp
  moreover have "get_column df2 ''district_name'' = Some dn"
    by (simp add: df2_def get_column_drop_column get_column_with_column dn_def)
  moreover have "get_column df2 n = get_column df n" if "n \<noteq> ''District''" "n \<noteq> ''district_name''"
    using that by (simp add: df2_def get_column_drop_column get_column_with_column dn_def)
  ultimately show ?thesis
    by (simp add: r dn_def)
qed

lemma pl_cell_map_district_codes_pl:
  assumes "pl_cell df ''State'' i = Some s" "pl_cell df ''District'' i = Some d"
  shows "pl_cell (map_district_codes_pl DISTRICT_MAPPING df) ''District'' i
     = Some (map_district DISTRICT_MAPPING s d)"
proof -
  obtain st where st: "get_column df ''State'' = Some st" "i < length (cells st)" "cells st ! i = s"
    using assms(1) by (auto simp: pl_cell_def split: option.splits if_splits)
  obtain di where di: "get_column df ''District'' = Some di" "i < length (cells di)" "cells di ! i = d"
    using assms(2) by (auto simp: pl_cell_def split: option.splits if_splits)
  show ?thesis
    using st(2,3) di(2,3)
    by (simp add: pl_cell_def get_column_map_district_codes_pl [OF st(1) di(1)])
qed

lemma get_column_map_district_codes_pl_other:
  assumes "n \<noteq> ''District''" "n \<noteq> ''district_name''"
  shows "get_column (map_district_codes_pl DISTRICT_MAPPING df) n = get_column df n"
proof (cases "get_column df ''State''")
  case None
  then show ?thesis by (simp add: map_district_codes_pl_def)
next
  case st: (Some st)
  show ?thesis
  proof (cases "get_column df ''District''")
    case None
    with st show ?thesis by (simp add: map_district_codes_pl_def)
  next
    case (Some di)
    with st assms show ?thesis
      by (simp add: get_column_map_district_codes_pl)
  qed
qed

lemma assign_where_nth:
  "i < length keys \<Longrightarrow> i < length col \<Longrightarrow>
     assign_where keys key v col ! i = (if keys ! i = key then v else col ! i)"
  by (simp add: assign_where_def)

lemma length_assign_where:
  "length col = length keys \<Longrightarrow> length (assign_where keys key v col) = length keys"
  by (simp add: assign_where_def)

lemma foldl_assign_nth:
  assumes "distinct (map fst md)" "i < length keys" "length st = length keys" "length di = length keys"
  shows "length (fst (foldl (\<lambda>(st, di) (key, sn, dn).
                  (assign_where keys key sn st, assign_where keys key dn di)) (st, di) md))
           = length keys
     \<and> length (snd (foldl (\<lambda>(st, di) (key, sn, dn).
                  (assign_where keys key sn st, assign_where keys key dn di)) (st, di) md))
           = length keys
     \<and> fst (foldl (\<lambda>(st, di) (key, sn, dn).
                  (assign_where keys key sn st, assign_where keys key dn di)) (st, di) md) ! i
         = (case map_of md (keys ! i) of None \<Rightarrow> st ! i | Some (sn, dn) \<Rightarrow> sn)
     \<and> snd (foldl (\<lambda>(st, di) (key, sn, dn).
                  (assign_where keys key sn st, assign_where keys key dn di)) (st, di) md) ! i
         = (case map_of md (keys ! i) of None \<Rightarrow> di ! i | Some (sn, dn) \<Rightarrow> dn)"
  using assms
proof (induction md arbitrary: st di)
  case Nil
  then show ?case by simp
next
  case (Cons entry md)
  obtain key sn dn where e: "entry = (key, sn, dn)"
    by (cases entry) auto
  define st1 where "st1 = assign_where keys key sn st"
  define di1 where "di1 = assign_where keys key dn di"
  have l: "length st1 = length keys" "length di1 = length keys"
    using Cons.prems by (simp_all add: st1_def di1_def length_assign_where)
  have d: "distinct (map fst md)" and k: "key \<notin> fst ` set md"
    using Cons.prems(1) e by simp_all
  note ih = Cons.IH [OF d Cons.prems(2) l]
  have n: "st1 ! i = (if keys ! i = key then sn else st ! i)"
    "di1 ! i = (if keys ! i = key then dn else di ! i)"
    using Cons.prems by (simp_all add: st1_def di1_def assign_where_nth)
  have m: "keys ! i = key \<Longrightarrow> map_of md (keys ! i) = None"
    using k by (simp add: map_of_eq_None_iff)
  show ?case
    using ih n m by (auto simp: e st1_def [symmetric] di1_def [symmetric] split: option.splits)
qed

lemma apply_mapping_nth:
  assumes "distinct (map fst mapping_dict)" "i < length keys"
  shows "length (fst (apply_mapping keys mapping_dict)) = length keys
     \<and> length (snd (apply_mapping keys mapping_dict)) = length keys
     \<and> fst (apply_mapping keys mapping_dict) ! i
         = (case map_of mapping_dict (keys ! i) of
              None \<Rightarrow> PStr ''Unknown State'' | Some (sn, dn) \<Rightarrow> sn)
     \<and> snd (apply_mapping keys mapping_dict) ! i
         = (case map_of mapping_dict (keys ! i) of
              None \<Rightarrow> PStr ''Unknown District'' | Some (sn, dn) \<Rightarrow> dn)"
  using foldl_assign_nth [OF assms, of "replicate (length keys) (PStr ''Unknown State'')"
      "replicate (length keys) (PStr ''Unknown District'')"] assms(2)
  by (simp add: apply_mapping_def split: option.splits)

lemma distinct_foldl_update:
  "distinct (map fst acc) \<Longrightarrow>
     distinct (map fst (foldl (\<lambda>mapping_dict (k, v). AList.update k v mapping_dict) acc kvs))"
  by (induction kvs arbitrary: acc) (auto simp: AList.distinct_update)

lemma district_lookup_distinct:
  "district_lookup districts_df codes = Inr mapping_dict \<Longrightarrow> distinct (map fst mapping_dict)"
  by (auto simp: district_lookup_def distinct_foldl_update Let_def
      split: prod.splits if_splits option.splits)

lemma mapping_keys_columns:
  assumes "mapping_keys df = Inr keys"
  shows "''FOD Sub-Region'' \<in> set (pd_columns df) \<and> ''District'' \<in> set (pd_columns df)"
proof -
  from assms have "map_of df ''FOD Sub-Region'' \<noteq> None" "map_of df ''District'' \<noteq> None"
    by (auto simp: mapping_keys_def astype_int_column_def split: option.splits sum.splits)
  then show ?thesis
    by (simp add: map_of_eq_None_iff pd_columns_def)
qed

lemma map_district_codes_pd_mapped:
  assumes "district_codes districts_df = Inr codes" "mapping_keys df = Inr keys"
    and "district_lookup districts_df codes = Inr mapping_dict" "i < length keys"
  shows "\<exists>out. map_district_codes_pd districts_df df = (out, None)
     \<and> pd_cell out ''district'' i
         = Some (case map_of mapping_dict (keys ! i) of
                   None \<Rightarrow> PStr ''Unknown District'' | Some (sn, dn) \<Rightarrow> dn)
     \<and> pd_cell out ''state'' i
         = Some (case map_of mapping_dict (keys ! i) of
                   None \<Rightarrow> PStr ''Unknown State'' | Some (sn, dn) \<Rightarrow> sn)
     \<and> pd_cell out ''District'' i = pd_cell df ''District'' i"
proof -
  define st where "st = fst (apply_mapping keys mapping_dict)"
  define di where "di = snd (apply_mapping keys mapping_dict)"
  define out where "out = set_column (set_column df ''state'' st) ''district'' di"
  have am: "apply_mapping keys mapping_dict = (st, di)"
    by (simp add: st_def di_def)
  have "distinct (map fst mapping_dict)"
    using assms(3) by (rule district_lookup_distinct)
  from apply_mapping_nth [OF this assms(4)]
  have n: "i < length st" "i < length di"
    "st ! i = (case map_of mapping_dict (keys ! i) of
                 None \<Rightarrow> PStr ''Unknown State'' | Some (sn, dn) \<Rightarrow> sn)"
    "di ! i = (case map_of mapping_dict (keys ! i) of
                 None \<Rightarrow> PStr ''Unknown District'' | Some (sn, dn) \<Rightarrow> dn)"
    using assms(4) by (simp_all add: st_def di_def)
  have a: "map_district_codes_pd districts_df df = (out, None)"
    using mapping_keys_columns [OF assms(2)] assms(1,2,3)
    by (simp add: map_district_codes_pd_def map_district_codes_try_def try_except_def am out_def)
  have b: "pd_cell out ''district'' i
         = Some (case map_of mapping_dict (keys ! i) of
                   None \<Rightarrow> PStr ''Unknown District'' | Some (sn, dn) \<Rightarrow> dn)"
    using n(2,4) by (simp add: pd_cell_def out_def map_of_set_column)
  have c: "pd_cell out ''state'' i
         = Some (case map_of mapping_dict (keys ! i) of
                   None \<Rightarrow> PStr ''Unknown State'' | Some (sn, dn) \<Rightarrow> sn)"
    using n(1,3) by (simp add: pd_cell_def out_def map_of_set_column map_of_set_column_other)
  have d: "pd_cell out ''District'' i = pd_cell df ''District'' i"
    by (simp add: pd_cell_def out_def map_of_set_column_other)
  from a b c d show ?thesis by (intro exI [of _ out] conjI)
qed

lemma map_district_codes_pd_other:
  assumes "n \<noteq> ''state''" "n \<noteq> ''district''"
  shows "map_of (fst (map_district_codes_pd districts_df df)) n = map_of df n"
  using assms
  by (simp add: map_district_codes_pd_def map_district_codes_try_def try_except_def
      map_of_set_column_other split: sum.splits prod.splits)

lemma map_district_codes_pd_caught:
  "snd (map_district_codes_pd districts_df df) \<noteq> None \<Longrightarrow>
     fst (map_district_codes_pd districts_df df) = df"
  by (simp add: map_district_codes_pd_def try_except_def split: if_splits sum.splits)

lemma map_district_codes_pd_raises:
  assumes "''FOD Sub-Region'' \<in> set (pd_columns df)" "''District'' \<in> set (pd_columns df)"
    and "map_district_codes_try districts_df df = Inl e"
  shows "map_district_codes_pd districts_df df = (df, Some e)"
  using assms by (simp add: map_district_codes_pd_def try_except_def)

lemma pd_columns_map_codes:
  "pd_columns (map_codes_to_descriptions_pd df col m) = pd_columns df"
proof -
  have "map fst (map (\<lambda>(n, vs). if n = col then (n, f vs) else (n, vs)) xs) = map fst xs"
    for f and xs :: pd_frame
    by (induction xs) auto
  then show ?thesis
    by (simp add: map_codes_to_descriptions_pd_def pd_columns_def)
qed

lemma pl_columns_map_codes:
  "pl_columns (map_codes_to_descriptions_pl df col m) = pl_columns df"
proof (cases "get_column df col")
  case None
  then show ?thesis by (simp add: map_codes_to_descriptions_pl_def)
next
  case (Some c)
  then have "col \<in> set (pl_columns df)"
    using get_column_None [of df col] by auto
  with Some show ?thesis
    by (simp add: map_codes_to_descriptions_pl_def pl_columns_with_column)
qed

text \<open>
  Claim C5, amended. In \<^verbatim>\<open>src/2019/parse.py\<close> the state and district codes of a row are
  rendered as strings and looked up, the state first and the district in the state's map;
  the \<open>District\<close> column gets the name found, and exactly
  \<open>Unknown District (<raw district code>)\<close> when the pair is not in the map; a row with a
  null state or district gets null. In \<^verbatim>\<open>src/parse.py\<close>, when no cast raises, the \<open>District\<close>
  column is left as it is and two columns are written, \<open>state\<close> and \<open>district\<close>: the names of
  the reference row whose key equals the row's key, and the literals \<open>Unknown State\<close> and
  \<open>Unknown District\<close>, with no code in them, for a key that the reference table does not
  have. The key of a row is made of integers, and so is the key of a reference row when
  the reference table has a column of text; the codes of a reference table whose columns
  are all numeric, one of them of floats, are printed as floats, and no row matches (the
  last conjunct but one has such a table). When a cast raises, as for a code of twenty
  digits, the table is returned as it was, with no \<open>district\<close> column (last conjunct).
\<close>

theorem district_names_resolved:
  "(pl_cell df ''State'' i = Some s \<and> pl_cell df ''District'' i = Some d
      \<longrightarrow> pl_cell (map_district_codes_pl DISTRICT_MAPPING df) ''District'' i =
            Some (if s = PNone \<or> d = PNone then PNone
                  else (case DISTRICT_MAPPING (PStr (py_str s)) of
                          None \<Rightarrow> PStr (''Unknown District ('' @ py_str d @ '')'')
                        | Some district_map \<Rightarrow>
                            (case district_map (PStr (py_str d)) of
                               None \<Rightarrow> PStr (''Unknown District ('' @ py_str d @ '')'')
                             | Some name \<Rightarrow> PStr name))))
   \<and> (district_codes districts_df = Inr codes \<and> mapping_keys pd_df = Inr keys
       \<and> district_lookup districts_df codes = Inr mapping_dict \<and> k < length keys
      \<longrightarrow> (\<exists>out. map_district_codes_pd districts_df pd_df = (out, None)
             \<and> pd_cell out ''district'' k
                 = Some (case map_of mapping_dict (keys ! k) of
                           None \<Rightarrow> PStr ''Unknown District'' | Some (sn, dn) \<Rightarrow> dn)
             \<and> pd_cell out ''state'' k
                 = Some (case map_of mapping_dict (keys ! k) of
                           None \<Rightarrow> PStr ''Unknown State'' | Some (sn, dn) \<Rightarrow> sn)
             \<and> pd_cell out ''District'' k = pd_cell pd_df ''District'' k))
   \<and> reference_key PdObject a b c = district_key a b c
   \<and> reference_key PdInt64 a b c = district_key a b c
   \<and> (\<bar>a\<bar> < 2 ^ 53 \<and> \<bar>b\<bar> < 2 ^ 53 \<and> \<bar>c\<bar> < 2 ^ 53
      \<longrightarrow> reference_key PdFloat64 a b c
            = str_int a @ ''.0'' @ ''_'' @ str_int b @ ''.0'' @ ''_'' @ str_int c @ ''.0'')
   \<and> map_district_codes_pd
       [(''Sub-region Code'', [PInt 1]), (''District Code'', [PInt 7]), (''State Code'', [PInt 2]),
        (''State Name'', [PFloat ''nan'']), (''District Name'', [PInt 5])]
       [(''FOD Sub-Region'', [PInt 1]), (''District'', [PInt 7]), (''NSS-Region'', [PInt 21])]
     = ([(''FOD Sub-Region'', [PInt 1]), (''District'', [PInt 7]), (''NSS-Region'', [PInt 21]),
         (''state'', [PStr ''Unknown State'']), (''district'', [PStr ''Unknown District''])], None)
   \<and> map_district_codes_pd
       [(''Sub-region Code'', [PInt 1]), (''District Code'', [PInt 7]), (''State Code'', [PInt 2]),
        (''State Name'', [PStr ''Kerala'']), (''District Name'', [PStr ''Kollam''])]
       [(''FOD Sub-Region'', [PInt 1]), (''District'', [PStr ''99999999999999999999'']),
        (''NSS-Region'', [PInt 21])]
     = ([(''FOD Sub-Region'', [PInt 1]), (''District'', [PStr ''99999999999999999999'']),
         (''NSS-Region'', [PInt 21])], Some OverflowError)"
proof -
  have "map_district DISTRICT_MAPPING s d =
      (if s = PNone \<or> d = PNone then PNone
       else (case DISTRICT_MAPPING (PStr (py_str s)) of
               None \<Rightarrow> PStr (''Unknown District ('' @ py_str d @ '')'')
             | Some district_map \<Rightarrow>
                 (case district_map (PStr (py_str d)) of
                    None \<Rightarrow> PStr (''Unknown District ('' @ py_str d @ '')'')
                  | Some name \<Rightarrow> PStr name)))"
    by (simp add: map_district_def)
  then have 1: "pl_cell df ''State'' i = Some s \<and> pl_cell df ''District'' i = Some d
      \<longrightarrow> pl_cell (map_district_codes_pl DISTRICT_MAPPING df) ''District'' i =
            Some (if s = PNone \<or> d = PNone then PNone
                  else (case DISTRICT_MAPPING (PStr (py_str s)) of
                          None \<Rightarrow> PStr (''Unknown District ('' @ py_str d @ '')'')
                        | Some district_map \<Rightarrow>
                            (case district_map (PStr (py_str d)) of
                               None \<Rightarrow> PStr (''Unknown District ('' @ py_str d @ '')'')
                             | Some name \<Rightarrow> PStr name)))"
    using pl_cell_map_district_codes_pl [of df i s d DISTRICT_MAPPING] by simp
  have 2: "district_codes districts_df = Inr codes \<and> mapping_keys pd_df = Inr keys
       \<and> district_lookup districts_df codes = Inr mapping_dict \<and> k < length keys
      \<longrightarrow> (\<exists>out. map_district_codes_pd districts_df pd_df = (out, None)
             \<and> pd_cell out ''district'' k
                 = Some (case map_of mapping_dict (keys ! k) of
                           None \<Rightarrow> PStr ''Unknown District'' | Some (sn, dn) \<Rightarrow> dn)
             \<and> pd_cell out ''state'' k
                 = Some (case map_of mapping_dict (keys ! k) of
                           None \<Rightarrow> PStr ''Unknown State'' | Some (sn, dn) \<Rightarrow> sn)
             \<and> pd_cell out ''District'' k = pd_cell pd_df ''District'' k)"
    using map_district_codes_pd_mapped [of districts_df codes pd_df keys mapping_dict k]
    by (intro impI) (elim conjE)
  have 3: "reference_key PdObject a b c = district_key a b c"
    and 4: "reference_key PdInt64 a b c = district_key a b c"
    by (simp_all add: reference_key_def district_key_def)
  have 5: "\<bar>a\<bar> < 2 ^ 53 \<and> \<bar>b\<bar> < 2 ^ 53 \<and> \<bar>c\<bar> < 2 ^ 53
      \<longrightarrow> reference_key PdFloat64 a b c
            = str_int a @ ''.0'' @ ''_'' @ str_int b @ ''.0'' @ ''_'' @ str_int c @ ''.0''"
    by (simp add: reference_key_def str_float_of_int_exact)
  have 7: "map_district_codes_pd
       [(''Sub-region Code'', [PInt 1]), (''District Code'', [PInt 7]), (''State Code'', [PInt 2]),
        (''State Name'', [PStr ''Kerala'']), (''District Name'', [PStr ''Kollam''])]
       [(''FOD Sub-Region'', [PInt 1]), (''District'', [PStr ''99999999999999999999'']),
        (''NSS-Region'', [PInt 21])]
     = ([(''FOD Sub-Region'', [PInt 1]), (''District'', [PStr ''99999999999999999999'']),
         (''NSS-Region'', [PInt 21])], Some OverflowError)"
    by code_simp
  have 6: "map_district_codes_pd
       [(''Sub-region Code'', [PInt 1]), (''District Code'', [PInt 7]), (''State Code'', [PInt 2]),
        (''State Name'', [PFloat ''nan'']), (''District Name'', [PInt 5])]
       [(''FOD Sub-Region'', [PInt 1]), (''District'', [PInt 7]), (''NSS-Region'', [PInt 21])]
     = ([(''FOD Sub-Region'', [PInt 1]), (''District'', [PInt 7]), (''NSS-Region'', [PInt 21]),
         (''state'', [PStr ''Unknown State'']), (''district'', [PStr ''Unknown District''])], None)"
  proof -
    let ?ref = "[(''Sub-region Code'', [PInt 1]), (''District Code'', [PInt 7]),
                 (''State Code'', [PInt 2]), (''State Name'', [PFloat ''nan'']),
                 (''District Name'', [PInt 5])]"
    let ?pd = "[(''FOD Sub-Region'', [PInt 1]), (''District'', [PInt 7]), (''NSS-Region'', [PInt 21])]"
    have s: "str_int 1 = ''1''" "str_int 2 = ''2''" "str_int 5 = ''5''" "str_int 7 = ''7''"
      by code_simp+
    have f: "str_float_of_int 1 = ''1.0''" "str_float_of_int 2 = ''2.0''"
      "str_float_of_int 5 = ''5.0''" "str_float_of_int 7 = ''7.0''"
      by (simp_all add: str_float_of_int_exact s)
    have rd: "row_dtype ?ref = PdFloat64"
      by code_simp
    have dc: "district_codes ?ref = Inr ([1], [7], [2])"
      by code_simp
    have mk: "mapping_keys ?pd = Inr [''1_7_2'']"
      by code_simp
    have dl: "district_lookup ?ref ([1], [7], [2])
        = Inr [(''1.0_7.0_2.0'', PFloat ''nan'', PFloat ''5.0'')]"
      by (simp add: district_lookup_def rd reference_key_def f)
    show ?thesis
      by (simp add: map_district_codes_pd_def map_district_codes_try_def try_except_def dc mk dl
          apply_mapping_def assign_where_def set_column_def pd_columns_def)
  qed
  from 1 2 3 4 5 6 7 show ?thesis by (intro conjI)
qed

text \<open>
  Claim C5 as stated fails in \<^verbatim>\<open>src/parse.py\<close>: the second row below has the key \<open>1_9_2\<close>,
  which the reference table does not have; its district is \<open>Unknown District\<close>, without
  the raw code \<open>9\<close>, and the \<open>District\<close> column still holds the codes.
\<close>

theorem pandas_unknown_district_has_no_code:
  "map_district_codes_pd
     [(''Sub-region Code'', [PInt 1]), (''District Code'', [PInt 7]), (''State Code'', [PInt 2]),
      (''State Name'', [PStr ''Kerala'']), (''District Name'', [PStr ''Kollam''])]
     [(''FOD Sub-Region'', [PInt 1, PInt 1]), (''District'', [PInt 7, PInt 9]),
      (''NSS-Region'', [PInt 21, PInt 21])]
   = ([(''FOD Sub-Region'', [PInt 1, PInt 1]), (''District'', [PInt 7, PInt 9]),
       (''NSS-Region'', [PInt 21, PInt 21]),
       (''state'', [PStr ''Kerala'', PStr ''Unknown State'']),
       (''district'', [PStr ''Kollam'', PStr ''Unknown District''])], None)"
  by code_simp

theorem district_names_resolved_witness:
  "pl_cell [Column ''State'' Utf8 [PStr ''32''], Column ''District'' Utf8 [PStr ''99'']] ''State'' 0
     = Some (PStr ''32'')
   \<and> pl_cell [Column ''State'' Utf8 [PStr ''32''], Column ''District'' Utf8 [PStr ''99'']] ''District'' 0
     = Some (PStr ''99'')
   \<and> pl_cell (map_district_codes_pl [PStr ''32'' \<mapsto> [PStr ''13'' \<mapsto> ''Kollam'']]
        [Column ''State'' Utf8 [PStr ''32''], Column ''District'' Utf8 [PStr ''99'']]) ''District'' 0
     = Some (PStr ''Unknown District (99)'')
   \<and> district_codes
        [(''Sub-region Code'', [PInt 1, PInt 3, PInt 1]),
         (''District Code'', [PFloat ''7.0'', PFloat ''4.0'', PFloat ''7.0'']),
         (''State Code'', [PStr ''02'', PStr ''5'', PStr ''2'']),
         (''State Name'', [PStr ''Kerala'', PStr ''Goa'', PStr ''Kerala'']),
         (''District Name'', [PStr ''Kollam'', PStr ''Panaji'', PStr ''Quilon''])]
     = Inr ([1, 3, 1], [7, 4, 7], [2, 5, 2])
   \<and> district_lookup
        [(''Sub-region Code'', [PInt 1, PInt 3, PInt 1]),
         (''District Code'', [PFloat ''7.0'', PFloat ''4.0'', PFloat ''7.0'']),
         (''State Code'', [PStr ''02'', PStr ''5'', PStr ''2'']),
         (''State Name'', [PStr ''Kerala'', PStr ''Goa'', PStr ''Kerala'']),
         (''District Name'', [PStr ''Kollam'', PStr ''Panaji'', PStr ''Quilon''])]
        ([1, 3, 1], [7, 4, 7], [2, 5, 2])
     = Inr [(''1_7_2'', PStr ''Kerala'', PStr ''Quilon''), (''3_4_5'', PStr ''Goa'', PStr ''Panaji'')]
   \<and> mapping_keys [(''FOD Sub-Region'', [PInt 3, PInt 1, PInt 1]),
        (''District'', [PInt 4, PInt 9, PInt 7]), (''NSS-Region'', [PInt 51, PInt 21, PInt 21])]
     = Inr [''3_4_5'', ''1_9_2'', ''1_7_2'']
   \<and> (\<exists>out. map_district_codes_pd
               [(''Sub-region Code'', [PInt 1, PInt 3, PInt 1]),
                (''District Code'', [PFloat ''7.0'', PFloat ''4.0'', PFloat ''7.0'']),
                (''State Code'', [PStr ''02'', PStr ''5'', PStr ''2'']),
                (''State Name'', [PStr ''Kerala'', PStr ''Goa'', PStr ''Kerala'']),
                (''District Name'', [PStr ''Kollam'', PStr ''Panaji'', PStr ''Quilon''])]
               [(''FOD Sub-Region'', [PInt 3, PInt 1, PInt 1]),
                (''District'', [PInt 4, PInt 9, PInt 7]),
                (''NSS-Region'', [PInt 51, PInt 21, PInt 21])] = (out, None)
          \<and> pd_cell out ''district'' 0 = Some (PStr ''Panaji'')
          \<and> pd_cell out ''state'' 0 = Some (PStr ''Goa''))
   \<and> (\<exists>out. map_district_codes_pd
               [(''Sub-region Code'', [PInt 1, PInt 3, PInt 1]),
                (''District Code'', [PFloat ''7.0'', PFloat ''4.0'', PFloat ''7.0'']),
                (''State Code'', [PStr ''02'', PStr ''5'', PStr ''2'']),
                (''State Name'', [PStr ''Kerala'', PStr ''Goa'', PStr ''Kerala'']),
                (''District Name'', [PStr ''Kollam'', PStr ''Panaji'', PStr ''Quilon''])]
               [(''FOD Sub-Region'', [PInt 3, PInt 1, PInt 1]),
                (''District'', [PInt 4, PInt 9, PInt 7]),
                (''NSS-Region'', [PInt 51, PInt 21, PInt 21])] = (out, None)
          \<and> pd_cell out ''district'' 1 = Some (PStr ''Unknown District'')
          \<and> pd_cell out ''state'' 1 = Some (PStr ''Unknown State''))
   \<and> (\<exists>out. map_district_codes_pd
               [(''Sub-region Code'', [PInt 1, PInt 3, PInt 1]),
                (''District Code'', [PFloat ''7.0'', PFloat ''4.0'', PFloat ''7.0'']),
                (''State Code'', [PStr ''02'', PStr ''5'', PStr ''2'']),
                (''State Name'', [PStr ''Kerala'', PStr ''Goa'', PStr ''Kerala'']),
                (''District Name'', [PStr ''Kollam'', PStr ''Panaji'', PStr ''Quilon''])]
               [(''FOD Sub-Region'', [PInt 3, PInt 1, PInt 1]),
                (''District'', [PInt 4, PInt 9, PInt 7]),
                (''NSS-Region'', [PInt 51, PInt 21, PInt 21])] = (out, None)
          \<and> pd_cell out ''district'' 2 = Some (PStr ''Quilon'')
          \<and> pd_cell out ''state'' 2 = Some (PStr ''Kerala'')
          \<and> pd_cell out ''District'' 2 = Some (PInt 7))
   \<and> reference_key PdFloat64 1 7 2 = ''1.0_7.0_2.0''"
proof -
  let ?df = "[Column ''State'' Utf8 [PStr ''32''], Column ''District'' Utf8 [PStr ''99'']]"
  let ?dm = "[PStr ''32'' \<mapsto> [PStr ''13'' \<mapsto> ''Kollam'']] :: district_mapping"
  let ?ref = "[(''Sub-region Code'', [PInt 1, PInt 3, PInt 1]),
               (''District Code'', [PFloat ''7.0'', PFloat ''4.0'', PFloat ''7.0'']),
               (''State Code'', [PStr ''02'', PStr ''5'', PStr ''2'']),
               (''State Name'', [PStr ''Kerala'', PStr ''Goa'', PStr ''Kerala'']),
               (''District Name'', [PStr ''Kollam'', PStr ''Panaji'', PStr ''Quilon''])]"
  let ?pd = "[(''FOD Sub-Region'', [PInt 3, PInt 1, PInt 1]),
              (''District'', [PInt 4, PInt 9, PInt 7]),
              (''NSS-Region'', [PInt 51, PInt 21, PInt 21])]"
  let ?codes = "([1, 3, 1], [7, 4, 7], [2, 5, 2]) :: int list \<times> int list \<times> int list"
  let ?keys = "[''3_4_5'', ''1_9_2'', ''1_7_2'']"
  let ?md = "[(''1_7_2'', PStr ''Kerala'', PStr ''Quilon''), (''3_4_5'', PStr ''Goa'', PStr ''Panaji'')]"
  have a: "pl_cell ?df ''State'' 0 = Some (PStr ''32'')"
    and b: "pl_cell ?df ''District'' 0 = Some (PStr ''99'')"
    by (simp_all add: pl_cell_def get_column_def)
  have pf: "py_float ''7.0'' = Some (Finite 7)" "py_float ''4.0'' = Some (Finite 4)"
    using py_float_int_zeros [of 7 1] py_float_int_zeros [of 4 1] by (simp_all add: str_int_eval)
  have pi: "py_int ''02'' = Inr 2" "py_int ''5'' = Inr 5" "py_int ''2'' = Inr 2"
    by code_simp+
  have c: "district_codes ?ref = Inr ?codes"
    by (simp add: district_codes_def astype_int_column_def astype_int_def pd_dtype_of_def
        in_int64_def to_int64_def cast_float_int64_def py_trunc_def pf pi)
  have c': "district_lookup ?ref ?codes = Inr ?md"
    by code_simp
  have d: "mapping_keys ?pd = Inr ?keys"
    by code_simp
  have e: "pd_cell ?pd ''District'' 2 = Some (PInt 7)"
    by (simp add: pd_cell_def)
  note t = district_names_resolved [where df = ?df and i = 0 and s = "PStr ''32''" and d = "PStr ''99''"
      and DISTRICT_MAPPING = ?dm and districts_df = ?ref and codes = ?codes
      and mapping_dict = ?md and pd_df = ?pd and keys = ?keys]
  have h1: "pl_cell ?df ''State'' 0 = Some (PStr ''32'') \<and> pl_cell ?df ''District'' 0 = Some (PStr ''99'')"
    using a b by simp
  from t [THEN conjunct1, THEN mp, OF h1]
  have 1: "pl_cell (map_district_codes_pl ?dm ?df) ''District'' 0
     = Some (PStr ''Unknown District (99)'')"
    by simp
  have h: "district_codes ?ref = Inr ?codes \<and> mapping_keys ?pd = Inr ?keys
      \<and> district_lookup ?ref ?codes = Inr ?md"
    using c c' d by (intro conjI)
  have h2: "district_codes ?ref = Inr ?codes \<and> mapping_keys ?pd = Inr ?keys
      \<and> district_lookup ?ref ?codes = Inr ?md \<and> (0::nat) < length ?keys"
    using h by simp
  from t [where k = 0, THEN conjunct2, THEN conjunct1, THEN mp, OF h2] obtain out
    where "map_district_codes_pd ?ref ?pd = (out, None)"
      and "pd_cell out ''district'' 0
            = Some (case map_of ?md (?keys ! 0) of
                      None \<Rightarrow> PStr ''Unknown District'' | Some (sn, dn) \<Rightarrow> dn)"
      and "pd_cell out ''state'' 0
            = Some (case map_of ?md (?keys ! 0) of
                      None \<Rightarrow> PStr ''Unknown State'' | Some (sn, dn) \<Rightarrow> sn)"
    by (elim exE conjE)
  then have 2: "\<exists>out. map_district_codes_pd ?ref ?pd = (out, None)
          \<and> pd_cell out ''district'' 0 = Some (PStr ''Panaji'')
          \<and> pd_cell out ''state'' 0 = Some (PStr ''Goa'')"
    by (intro exI [of _ out]) simp
  have h3: "district_codes ?ref = Inr ?codes \<and> mapping_keys ?pd = Inr ?keys
      \<and> district_lookup ?ref ?codes = Inr ?md \<and> (1::nat) < length ?keys"
    using h by simp
  from t [where k = 1, THEN conjunct2, THEN conjunct1, THEN mp, OF h3] obtain out'
    where "map_district_codes_pd ?ref ?pd = (out', None)"
      and "pd_cell out' ''district'' 1
            = Some (case map_of ?md (?keys ! 1) of
                      None \<Rightarrow> PStr ''Unknown District'' | Some (sn, dn) \<Rightarrow> dn)"
      and "pd_cell out' ''state'' 1
            = Some (case map_of ?md (?keys ! 1) of
                      None \<Rightarrow> PStr ''Unknown State'' | Some (sn, dn) \<Rightarrow> sn)"
    by (elim exE conjE)
  then have 3: "\<exists>out. map_district_codes_pd ?ref ?pd = (out, None)
          \<and> pd_cell out ''district'' 1 = Some (PStr ''Unknown District'')
          \<and> pd_cell out ''state'' 1 = Some (PStr ''Unknown State'')"
    by (intro exI [of _ out']) simp
  have h4: "district_codes ?ref = Inr ?codes \<and> mapping_keys ?pd = Inr ?keys
      \<and> district_lookup ?ref ?codes = Inr ?md \<and> (2::nat) < length ?keys"
    using h by simp
  from t [where k = 2, THEN conjunct2, THEN conjunct1, THEN mp, OF h4] obtain out''
    where "map_district_codes_pd ?ref ?pd = (out'', None)"
      and "pd_cell out'' ''district'' 2
            = Some (case map_of ?md (?keys ! 2) of
                      None \<Rightarrow> PStr ''Unknown District'' | Some (sn, dn) \<Rightarrow> dn)"
      and "pd_cell out'' ''state'' 2
            = Some (case map_of ?md (?keys ! 2) of
                      None \<Rightarrow> PStr ''Unknown State'' | Some (sn, dn) \<Rightarrow> sn)"
      and "pd_cell out'' ''District'' 2 = pd_cell ?pd ''District'' 2"
    by (elim exE conjE)
  then have 4: "\<exists>out. map_district_codes_pd ?ref ?pd = (out, None)
          \<and> pd_cell out ''district'' 2 = Some (PStr ''Quilon'')
          \<and> pd_cell out ''state'' 2 = Some (PStr ''Kerala'')
          \<and> pd_cell out ''District'' 2 = Some (PInt 7)"
    using e by (intro exI [of _ out'']) simp
  have h5: "\<bar>1 :: int\<bar> < 2 ^ 53 \<and> \<bar>7 :: int\<bar> < 2 ^ 53 \<and> \<bar>2 :: int\<bar> < 2 ^ 53"
    by simp
  from t [where a = 1 and b = 7 and c = 2, THEN conjunct2, THEN conjunct2, THEN conjunct2,
      THEN conjunct2, THEN conjunct1, THEN mp, OF h5]
  have 5: "reference_key PdFloat64 1 7 2 = ''1.0_7.0_2.0''"
    by (simp add: str_int_eval)
  from a b 1 c c' d 2 3 4 5 show ?thesis by (intro conjI)
qed

lemma apply_cells_Inr: "apply_cells (\<lambda>v. Inr (g v)) vs = Inr (map g vs)"
  by (induction vs) simp_all

lemma apply_cells_first_error:
  "i < length vs \<Longrightarrow> f (vs ! i) = Inl e \<Longrightarrow> (\<forall>j<i. \<exists>w. f (vs ! j) = Inr w) \<Longrightarrow>
     apply_cells f vs = Inl e"
proof (induction vs arbitrary: i)
  case Nil
  then show ?case by simp
next
  case (Cons v vs)
  show ?case
  proof (cases i)
    case 0
    with Cons.prems show ?thesis by simp
  next
    case (Suc i')
    from Cons.prems(3) Suc have "\<exists>w. f ((v # vs) ! 0) = Inr w"
      by blast
    then obtain w where w: "f v = Inr w"
      by auto
    have "apply_cells f vs = Inl e"
    proof (rule Cons.IH [of i'])
      show "i' < length vs"
        using Cons.prems(1) Suc by simp
      show "f (vs ! i') = Inl e"
        using Cons.prems(2) Suc by simp
      show "\<forall>j<i'. \<exists>w. f (vs ! j) = Inr w"
      proof (intro allI impI)
        fix j
        assume "j < i'"
        then have "Suc j < i"
          using Suc by simp
        with Cons.prems(3) have "\<exists>w. f ((v # vs) ! Suc j) = Inr w"
          by blast
        then show "\<exists>w. f (vs ! j) = Inr w"
          by simp
      qed
    qed
    with w show ?thesis by simp
  qed
qed

lemma map_other_columns:
  "col \<notin> fst ` set xs \<Longrightarrow> map (\<lambda>(n, vs). if n = col then (n, h n vs) else (n, vs)) xs = xs"
  by (induction xs) auto

lemma set_column_own_cells:
  "distinct (map fst df) \<Longrightarrow> map_of df col = Some vs \<Longrightarrow>
     map (\<lambda>(n, ws). if n = col then (n, g vs) else (n, ws)) df
     = map (\<lambda>(n, ws). if n = col then (n, g ws) else (n, ws)) df"
proof (induction df)
  case Nil
  then show ?case by simp
next
  case (Cons c df)
  obtain n ws where c: "c = (n, ws)"
    by (cases c) auto
  show ?case
  proof (cases "n = col")
    case True
    with Cons.prems c have "ws = vs" and "col \<notin> fst ` set df"
      by auto
    then show ?thesis
      using True c
        map_other_columns [of col df "\<lambda>n ws. g vs"] map_other_columns [of col df "\<lambda>n ws. g ws"]
      by simp
  next
    case False
    with Cons.prems c have "distinct (map fst df)" "map_of df col = Some vs"
      by auto
    from Cons.IH [OF this] False c show ?thesis
      by simp
  qed
qed

lemma try_map_codes_pd_total:
  assumes "distinct (pd_columns df)"
  shows "try_map_codes_pd (\<lambda>v. Inr (clean_and_map m v)) df col
     = (map_codes_to_descriptions_pd df col m, None)"
proof (cases "map_of df col")
  case None
  then have "col \<notin> set (pd_columns df)"
    by (simp add: map_of_eq_None_iff pd_columns_def)
  with None show ?thesis
    by (simp add: try_map_codes_pd_def map_codes_to_descriptions_pd_def)
next
  case (Some vs)
  then have "col \<in> set (pd_columns df)"
    using map_of_eq_None_iff [of df col] by (auto simp: pd_columns_def)
  moreover have "map (\<lambda>(n, ws). if n = col then (n, map (clean_and_map m) vs) else (n, ws)) df
     = map (\<lambda>(n, ws). if n = col then (n, map (clean_and_map m) ws) else (n, ws)) df"
    using assms Some unfolding pd_columns_def by (rule set_column_own_cells)
  ultimately show ?thesis
    using Some
    by (simp add: try_map_codes_pd_def map_codes_to_descriptions_pd_def try_except_def
        apply_cells_Inr set_column_def)
qed

lemma apply_cells_skip_nulls:
  "apply_cells (\<lambda>v. if v = PNone then Inr PNone else Inr (map_value m v)) vs
     = Inr (map (map_value m) vs)"
  by (induction vs) (simp_all add: map_value_def)

lemma apply_cells_pairs:
  "apply_cells (\<lambda>(s, d). Inr (g s d)) ps = Inr (map (\<lambda>(s, d). g s d) ps)"
  by (induction ps) (auto split: prod.splits)

lemma try_map_codes_pl_total:
  "try_map_codes_pl (\<lambda>v. Inr (map_value m v)) df col = (map_codes_to_descriptions_pl df col m, None)"
  by (simp add: try_map_codes_pl_def map_codes_to_descriptions_pl_def try_except_def
      apply_cells_skip_nulls split: option.splits)

lemma try_map_district_pl_total:
  "try_map_district_pl (\<lambda>s d. Inr (map_district DISTRICT_MAPPING s d)) df
     = (map_district_codes_pl DISTRICT_MAPPING df, None)"
  by (simp add: try_map_district_pl_def map_district_codes_pl_def try_except_def
      apply_cells_pairs split: option.splits)

lemma try_map_codes_pd_raises:
  assumes "map_of df col = Some vs" "i < length vs" "f (vs ! i) = Inl x"
    and "\<forall>j<i. \<exists>w. f (vs ! j) = Inr w"
  shows "try_map_codes_pd f df col = (df, Some x)"
  using assms(1) apply_cells_first_error [OF assms(2,3,4)]
  by (simp add: try_map_codes_pd_def try_except_def)

lemma try_map_codes_pl_raises:
  assumes "get_column df col = Some c" "i < length (cells c)" "cells c ! i \<noteq> PNone"
    and "f (cells c ! i) = Inl x"
    and "\<forall>j<i. cells c ! j = PNone \<or> (\<exists>w. f (cells c ! j) = Inr w)"
  shows "try_map_codes_pl f df col = (df, Some x)"
proof -
  let ?f = "\<lambda>v. if v = PNone then Inr PNone else f v"
  have "?f (cells c ! i) = Inl x"
    using assms(3,4) by simp
  moreover have "\<forall>j<i. \<exists>w. ?f (cells c ! j) = Inr w"
    using assms(5) by auto
  ultimately have "apply_cells ?f (cells c) = Inl x"
    using assms(2) by (intro apply_cells_first_error)
  with assms(1) show ?thesis
    by (simp add: try_map_codes_pl_def try_except_def)
qed

lemma try_map_district_pl_raises:
  assumes "get_column df ''State'' = Some st" "get_column df ''District'' = Some di"
    and "i < length (cells st)" "i < length (cells di)"
    and "g (cells st ! i) (cells di ! i) = Inl x"
    and "\<forall>j<i. \<exists>w. g (cells st ! j) (cells di ! j) = Inr w"
  shows "try_map_district_pl g df = (df, Some x)"
proof -
  let ?f = "\<lambda>(s, d). g s d"
  let ?vs = "zip (cells st) (cells di)"
  have "i < length ?vs"
    using assms(3,4) by simp
  moreover have "?f (?vs ! i) = Inl x"
    using assms(3,4,5) by simp
  moreover have "\<forall>j<i. \<exists>w. ?f (?vs ! j) = Inr w"
    using assms(3,4,6) by simp
  ultimately have "apply_cells ?f ?vs = Inl x"
    by (rule apply_cells_first_error)
  with assms(1,2) show ?thesis
    by (simp add: try_map_district_pl_def try_except_def)
qed

text \<open>
  Claim C6, amended. Mapping a column changes no other column and no column name, in
  both pipelines. \<open>map_district_codes\<close> of \<^verbatim>\<open>src/2019/parse.py\<close> changes no column but
  \<open>District\<close> and the scratch column \<open>district_name\<close>. \<open>map_district_codes\<close> of
  \<^verbatim>\<open>src/parse.py\<close> writes the two columns \<open>state\<close> and \<open>district\<close> and changes no other
  column. An exception raised in the \<open>try\<close> block of any of the four functions is caught
  and reported, and the table is returned as it was: in \<open>map_district_codes\<close> of
  \<^verbatim>\<open>src/parse.py\<close> the casts and the column lookups raise (a code that is not an integer or
  does not fit \<open>int64\<close>, a table with no \<open>NSS-Region\<close>); in the other three functions, the
  first cell on which the function given to \<open>apply\<close> or \<open>map_elements\<close> raises ends the
  block, and the functions that the code gives, \<open>clean_and_map\<close>, \<open>map_value\<close> and
  \<open>map_district\<close>, raise on no cell. Each of the four functions returns a table on every
  input.
\<close>

theorem mapping_is_column_local:
  "(n \<noteq> col \<longrightarrow> map_of (map_codes_to_descriptions_pd pd_df col mapping_dict) n = map_of pd_df n)
   \<and> pd_columns (map_codes_to_descriptions_pd pd_df col mapping_dict) = pd_columns pd_df
   \<and> (n \<noteq> col \<longrightarrow> get_column (map_codes_to_descriptions_pl pl_df col mapping_dict) n
                      = get_column pl_df n)
   \<and> pl_columns (map_codes_to_descriptions_pl pl_df col mapping_dict) = pl_columns pl_df
   \<and> (n \<noteq> ''District'' \<and> n \<noteq> ''district_name''
        \<longrightarrow> get_column (map_district_codes_pl DISTRICT_MAPPING pl_df) n = get_column pl_df n)
   \<and> (n \<noteq> ''state'' \<and> n \<noteq> ''district''
        \<longrightarrow> map_of (fst (map_district_codes_pd districts_df pd_df)) n = map_of pd_df n)
   \<and> (snd (map_district_codes_pd districts_df pd_df) \<noteq> None
        \<longrightarrow> fst (map_district_codes_pd districts_df pd_df) = pd_df)
   \<and> (''FOD Sub-Region'' \<in> set (pd_columns pd_df) \<and> ''District'' \<in> set (pd_columns pd_df)
       \<and> map_district_codes_try districts_df pd_df = Inl e
        \<longrightarrow> map_district_codes_pd districts_df pd_df = (pd_df, Some e))
   \<and> (distinct (pd_columns pd_df)
        \<longrightarrow> try_map_codes_pd (\<lambda>v. Inr (clean_and_map mapping_dict v)) pd_df col
            = (map_codes_to_descriptions_pd pd_df col mapping_dict, None))
   \<and> (map_of pd_df col = Some vs \<and> i < length vs \<and> f (vs ! i) = Inl x
       \<and> (\<forall>j<i. \<exists>w. f (vs ! j) = Inr w)
        \<longrightarrow> try_map_codes_pd f pd_df col = (pd_df, Some x))
   \<and> try_map_codes_pl (\<lambda>v. Inr (map_value mapping_dict v)) pl_df col
       = (map_codes_to_descriptions_pl pl_df col mapping_dict, None)
   \<and> (get_column pl_df col = Some c \<and> i < length (cells c) \<and> cells c ! i \<noteq> PNone
       \<and> f (cells c ! i) = Inl x
       \<and> (\<forall>j<i. cells c ! j = PNone \<or> (\<exists>w. f (cells c ! j) = Inr w))
        \<longrightarrow> try_map_codes_pl f pl_df col = (pl_df, Some x))
   \<and> try_map_district_pl (\<lambda>s d. Inr (map_district DISTRICT_MAPPING s d)) pl_df
       = (map_district_codes_pl DISTRICT_MAPPING pl_df, None)
   \<and> (get_column pl_df ''State'' = Some st \<and> get_column pl_df ''District'' = Some di
       \<and> i < length (cells st) \<and> i < length (cells di)
       \<and> g (cells st ! i) (cells di ! i) = Inl x
       \<and> (\<forall>j<i. \<exists>w. g (cells st ! j) (cells di ! j) = Inr w)
        \<longrightarrow> try_map_district_pl g pl_df = (pl_df, Some x))"
proof -
  have 1: "n \<noteq> col \<longrightarrow> map_of (map_codes_to_descriptions_pd pd_df col mapping_dict) n = map_of pd_df n"
    by (simp add: map_of_map_codes_pd)
  have 2: "pd_columns (map_codes_to_descriptions_pd pd_df col mapping_dict) = pd_columns pd_df"
    by (rule pd_columns_map_codes)
  have 3: "n \<noteq> col \<longrightarrow> get_column (map_codes_to_descriptions_pl pl_df col mapping_dict) n
                      = get_column pl_df n"
    by (simp add: get_column_map_codes_pl)
  have 4: "pl_columns (map_codes_to_descriptions_pl pl_df col mapping_dict) = pl_columns pl_df"
    by (rule pl_columns_map_codes)
  have 5: "n \<noteq> ''District'' \<and> n \<noteq> ''district_name''
        \<longrightarrow> get_column (map_district_codes_pl DISTRICT_MAPPING pl_df) n = get_column pl_df n"
    using get_column_map_district_codes_pl_other [of n DISTRICT_MAPPING pl_df] by blast
  have 6: "n \<noteq> ''state'' \<and> n \<noteq> ''district''
        \<longrightarrow> map_of (fst (map_district_codes_pd districts_df pd_df)) n = map_of pd_df n"
    using map_district_codes_pd_other [of n districts_df pd_df] by blast
  have 7: "snd (map_district_codes_pd districts_df pd_df) \<noteq> None
        \<longrightarrow> fst (map_district_codes_pd districts_df pd_df) = pd_df"
    using map_district_codes_pd_caught [of districts_df pd_df] by blast
  have 8: "''FOD Sub-Region'' \<in> set (pd_columns pd_df) \<and> ''District'' \<in> set (pd_columns pd_df)
       \<and> map_district_codes_try districts_df pd_df = Inl e
        \<longrightarrow> map_district_codes_pd districts_df pd_df = (pd_df, Some e)"
    using map_district_codes_pd_raises [of pd_df districts_df e] by blast
  have 9: "distinct (pd_columns pd_df)
        \<longrightarrow> try_map_codes_pd (\<lambda>v. Inr (clean_and_map mapping_dict v)) pd_df col
            = (map_codes_to_descriptions_pd pd_df col mapping_dict, None)"
    using try_map_codes_pd_total [of pd_df mapping_dict col] by blast
  have 10: "map_of pd_df col = Some vs \<and> i < length vs \<and> f (vs ! i) = Inl x
       \<and> (\<forall>j<i. \<exists>w. f (vs ! j) = Inr w)
        \<longrightarrow> try_map_codes_pd f pd_df col = (pd_df, Some x)"
    using try_map_codes_pd_raises [of pd_df col vs i f x] by (intro impI) (elim conjE)
  have 11: "try_map_codes_pl (\<lambda>v. Inr (map_value mapping_dict v)) pl_df col
       = (map_codes_to_descriptions_pl pl_df col mapping_dict, None)"
    by (rule try_map_codes_pl_total)
  have 12: "get_column pl_df col = Some c \<and> i < length (cells c) \<and> cells c ! i \<noteq> PNone
       \<and> f (cells c ! i) = Inl x
       \<and> (\<forall>j<i. cells c ! j = PNone \<or> (\<exists>w. f (cells c ! j) = Inr w))
        \<longrightarrow> try_map_codes_pl f pl_df col = (pl_df, Some x)"
    using try_map_codes_pl_raises [of pl_df col c i f x] by (intro impI) (elim conjE)
  have 13: "try_map_district_pl (\<lambda>s d. Inr (map_district DISTRICT_MAPPING s d)) pl_df
       = (map_district_codes_pl DISTRICT_MAPPING pl_df, None)"
    by (rule try_map_district_pl_total)
  have 14: "get_column pl_df ''State'' = Some st \<and> get_column pl_df ''District'' = Some di
       \<and> i < length (cells st) \<and> i < length (cells di)
       \<and> g (cells st ! i) (cells di ! i) = Inl x
       \<and> (\<forall>j<i. \<exists>w. g (cells st ! j) (cells di ! j) = Inr w)
        \<longrightarrow> try_map_district_pl g pl_df = (pl_df, Some x)"
    using try_map_district_pl_raises [of pl_df st di i g x] by (intro impI) (elim conjE)
  from 1 2 3 4 5 6 7 8 9 10 11 12 13 14 show ?thesis by (intro conjI)
qed

text \<open>
  Claim C6 as stated fails for \<open>map_district_codes\<close> of \<^verbatim>\<open>src/parse.py\<close>: besides the
  \<open>district\<close> column it writes the \<open>state\<close> column, so a table that has a \<open>state\<close> column does
  not keep its values.
\<close>

theorem pandas_district_mapping_writes_state:
  "map_of [(''FOD Sub-Region'', [PInt 1]), (''District'', [PInt 7]), (''NSS-Region'', [PInt 21]),
           (''state'', [PStr ''32''])] ''state'' = Some [PStr ''32'']
   \<and> map_district_codes_pd
       [(''Sub-region Code'', [PInt 1]), (''District Code'', [PInt 7]), (''State Code'', [PInt 2]),
        (''State Name'', [PStr ''Kerala'']), (''District Name'', [PStr ''Kollam''])]
       [(''FOD Sub-Region'', [PInt 1]), (''District'', [PInt 7]), (''NSS-Region'', [PInt 21]),
        (''state'', [PStr ''32''])]
     = ([(''FOD Sub-Region'', [PInt 1]), (''District'', [PInt 7]), (''NSS-Region'', [PInt 21]),
         (''state'', [PStr ''Kerala'']), (''district'', [PStr ''Kollam''])], None)"
  by code_simp

theorem mapping_is_column_local_witness:
  "''Age'' \<noteq> ''Gender''
   \<and> map_of (map_codes_to_descriptions_pd [(''Gender'', [PInt 1]), (''Age'', [PInt 30])] ''Gender''
        yes_no_mapping) ''Age'' = Some [PInt 30]
   \<and> get_column (map_codes_to_descriptions_pl
        [Column ''Gender'' Int64 [PInt 1], Column ''Age'' Int64 [PInt 30]] ''Gender''
        yes_no_mapping) ''Age'' = Some (Column ''Age'' Int64 [PInt 30])
   \<and> map_district_codes_try
        [(''Sub-region Code'', [PInt 1]), (''District Code'', [PInt 7]), (''State Code'', [PInt 2]),
         (''State Name'', [PStr ''Kerala'']), (''District Name'', [PStr ''Kollam''])]
        [(''FOD Sub-Region'', [PInt 1]), (''District'', [PStr ''99999999999999999999'']),
         (''NSS-Region'', [PInt 21])] = Inl OverflowError
   \<and> map_district_codes_pd
        [(''Sub-region Code'', [PInt 1]), (''District Code'', [PInt 7]), (''State Code'', [PInt 2]),
         (''State Name'', [PStr ''Kerala'']), (''District Name'', [PStr ''Kollam''])]
        [(''FOD Sub-Region'', [PInt 1]), (''District'', [PStr ''99999999999999999999'']),
         (''NSS-Region'', [PInt 21])]
       = ([(''FOD Sub-Region'', [PInt 1]), (''District'', [PStr ''99999999999999999999'']),
           (''NSS-Region'', [PInt 21])], Some OverflowError)
   \<and> try_map_codes_pd (\<lambda>v. if v = PStr ''x'' then Inl ValueError else Inr v)
        [(''Gender'', [PInt 1, PStr ''x'', PInt 2]), (''Age'', [PInt 30, PInt 31, PInt 32])] ''Gender''
       = ([(''Gender'', [PInt 1, PStr ''x'', PInt 2]), (''Age'', [PInt 30, PInt 31, PInt 32])],
          Some ValueError)
   \<and> try_map_codes_pl (\<lambda>v. if v = PStr ''x'' then Inl ValueError else Inr v)
        [Column ''Gender'' Utf8 [PNone, PStr ''x'', PStr ''2'']] ''Gender''
       = ([Column ''Gender'' Utf8 [PNone, PStr ''x'', PStr ''2'']], Some ValueError)
   \<and> try_map_district_pl (\<lambda>s d. if d = PStr ''x'' then Inl ValueError else Inr d)
        [Column ''State'' Utf8 [PStr ''32'', PStr ''32''], Column ''District'' Utf8 [PStr ''1'', PStr ''x'']]
       = ([Column ''State'' Utf8 [PStr ''32'', PStr ''32''],
           Column ''District'' Utf8 [PStr ''1'', PStr ''x'']], Some ValueError)"
proof -
  let ?ref = "[(''Sub-region Code'', [PInt 1]), (''District Code'', [PInt 7]), (''State Code'', [PInt 2]),
               (''State Name'', [PStr ''Kerala'']), (''District Name'', [PStr ''Kollam''])]"
  let ?pd = "[(''FOD Sub-Region'', [PInt 1]), (''District'', [PStr ''99999999999999999999'']),
              (''NSS-Region'', [PInt 21])]"
  let ?f = "\<lambda>v. if v = PStr ''x'' then Inl ValueError else Inr v"
  let ?g = "\<lambda>s d. if d = PStr ''x'' then Inl ValueError else Inr d"
  let ?gd = "[(''Gender'', [PInt 1, PStr ''x'', PInt 2]), (''Age'', [PInt 30, PInt 31, PInt 32])]"
  let ?gl = "[Column ''Gender'' Utf8 [PNone, PStr ''x'', PStr ''2'']]"
  let ?dl = "[Column ''State'' Utf8 [PStr ''32'', PStr ''32''],
              Column ''District'' Utf8 [PStr ''1'', PStr ''x'']]"
  note t = mapping_is_column_local [where n = "''Age''" and col = "''Gender''"
      and pd_df = "[(''Gender'', [PInt 1]), (''Age'', [PInt 30])]" and mapping_dict = yes_no_mapping
      and pl_df = "[Column ''Gender'' Int64 [PInt 1], Column ''Age'' Int64 [PInt 30]]"]
  note u = mapping_is_column_local [where pd_df = ?pd and districts_df = ?ref and e = OverflowError]
  note v = mapping_is_column_local [where pd_df = ?gd and col = "''Gender''" and f = ?f
      and vs = "[PInt 1, PStr ''x'', PInt 2]" and i = 1 and x = ValueError and pl_df = ?gl
      and c = "Column ''Gender'' Utf8 [PNone, PStr ''x'', PStr ''2'']"]
  note w = mapping_is_column_local [where pl_df = ?dl and g = ?g and i = 1 and x = ValueError
      and st = "Column ''State'' Utf8 [PStr ''32'', PStr ''32'']"
      and di = "Column ''District'' Utf8 [PStr ''1'', PStr ''x'']"]
  have a: "''Age'' \<noteq> ''Gender''" by simp
  from t [THEN conjunct1, THEN mp, OF a]
  have 1: "map_of (map_codes_to_descriptions_pd [(''Gender'', [PInt 1]), (''Age'', [PInt 30])]
        ''Gender'' yes_no_mapping) ''Age'' = Some [PInt 30]"
    by simp
  from t [THEN conjunct2, THEN conjunct2, THEN conjunct1, THEN mp, OF a]
  have 2: "get_column (map_codes_to_descriptions_pl
        [Column ''Gender'' Int64 [PInt 1], Column ''Age'' Int64 [PInt 30]] ''Gender''
        yes_no_mapping) ''Age'' = Some (Column ''Age'' Int64 [PInt 30])"
    by (simp add: get_column_def)
  have b: "map_district_codes_try ?ref ?pd = Inl OverflowError"
    by code_simp
  have h: "''FOD Sub-Region'' \<in> set (pd_columns ?pd) \<and> ''District'' \<in> set (pd_columns ?pd)
       \<and> map_district_codes_try ?ref ?pd = Inl OverflowError"
    using b by (simp add: pd_columns_def)
  from u [THEN conjunct2, THEN conjunct2, THEN conjunct2, THEN conjunct2, THEN conjunct2,
      THEN conjunct2, THEN conjunct2, THEN conjunct1, THEN mp, OF h]
  have 3: "map_district_codes_pd ?ref ?pd = (?pd, Some OverflowError)" .
  have h4: "map_of ?gd ''Gender'' = Some [PInt 1, PStr ''x'', PInt 2]
      \<and> (1::nat) < length [PInt 1, PStr ''x'', PInt 2]
      \<and> ?f ([PInt 1, PStr ''x'', PInt 2] ! 1) = Inl ValueError
      \<and> (\<forall>j<1::nat. \<exists>w. ?f ([PInt 1, PStr ''x'', PInt 2] ! j) = Inr w)"
    by simp
  from v [THEN conjunct2, THEN conjunct2, THEN conjunct2, THEN conjunct2, THEN conjunct2,
      THEN conjunct2, THEN conjunct2, THEN conjunct2, THEN conjunct2, THEN conjunct1, THEN mp, OF h4]
  have 4: "try_map_codes_pd ?f ?gd ''Gender'' = (?gd, Some ValueError)" .
  have h5: "get_column ?gl ''Gender'' = Some (Column ''Gender'' Utf8 [PNone, PStr ''x'', PStr ''2''])
      \<and> (1::nat) < length (cells (Column ''Gender'' Utf8 [PNone, PStr ''x'', PStr ''2'']))
      \<and> cells (Column ''Gender'' Utf8 [PNone, PStr ''x'', PStr ''2'']) ! 1 \<noteq> PNone
      \<and> ?f (cells (Column ''Gender'' Utf8 [PNone, PStr ''x'', PStr ''2'']) ! 1) = Inl ValueError
      \<and> (\<forall>j<1::nat. cells (Column ''Gender'' Utf8 [PNone, PStr ''x'', PStr ''2'']) ! j = PNone
            \<or> (\<exists>w. ?f (cells (Column ''Gender'' Utf8 [PNone, PStr ''x'', PStr ''2'']) ! j) = Inr w))"
    by (simp add: get_column_def)
  from v [THEN conjunct2, THEN conjunct2, THEN conjunct2, THEN conjunct2, THEN conjunct2,
      THEN conjunct2, THEN conjunct2, THEN conjunct2, THEN conjunct2, THEN conjunct2,
      THEN conjunct2, THEN conjunct1, THEN mp, OF h5]
  have 5: "try_map_codes_pl ?f ?gl ''Gender'' = (?gl, Some ValueError)" .
  have h6: "get_column ?dl ''State'' = Some (Column ''State'' Utf8 [PStr ''32'', PStr ''32''])
      \<and> get_column ?dl ''District'' = Some (Column ''District'' Utf8 [PStr ''1'', PStr ''x''])
      \<and> (1::nat) < length (cells (Column ''State'' Utf8 [PStr ''32'', PStr ''32'']))
      \<and> (1::nat) < length (cells (Column ''District'' Utf8 [PStr ''1'', PStr ''x'']))
      \<and> ?g (cells (Column ''State'' Utf8 [PStr ''32'', PStr ''32'']) ! 1)
           (cells (Column ''District'' Utf8 [PStr ''1'', PStr ''x'']) ! 1) = Inl ValueError
      \<and> (\<forall>j<1::nat. \<exists>w. ?g (cells (Column ''State'' Utf8 [PStr ''32'', PStr ''32'']) ! j)
           (cells (Column ''District'' Utf8 [PStr ''1'', PStr ''x'']) ! j) = Inr w)"
    by (simp add: get_column_def)
  from w [THEN conjunct2, THEN conjunct2, THEN conjunct2, THEN conjunct2, THEN conjunct2,
      THEN conjunct2, THEN conjunct2, THEN conjunct2, THEN conjunct2, THEN conjunct2,
      THEN conjunct2, THEN conjunct2, THEN conjunct2, THEN mp, OF h6]
  have 6: "try_map_district_pl ?g ?dl = (?dl, Some ValueError)" .
  from a 1 2 b 3 4 5 6 show ?thesis by (intro conjI)
qed

section \<open>Concatenating parts with different columns\<close>

lemma concat_part_width_mismatch:
  "length combined_df \<noteq> length df \<Longrightarrow> combined_df \<noteq> [] \<Longrightarrow>
     concat_part fmt set_order combined_df df = Inl ShapeError"
  by (simp add: concat_part_def concat_vertical_def)

text \<open>
  Claim C7. Part A has the columns \<open>X\<close> and \<open>Y\<close>, part B has only \<open>Y\<close>. The first
  concatenation raises \<open>ShapeError\<close> (the widths differ), which the handler for
  \<open>SchemaError\<close> does not catch: the loop over the parts ends with that exception, and no
  combined table is built. Had the handler run, it would have added \<open>X\<close> to B after \<open>Y\<close>,
  filled with nulls, and the retry would still have failed, \<open>X\<close> being the first column of
  A and the second of B. Two parts with the same columns and a column of different dtypes
  are concatenated as claimed, with that column cast to strings on both sides.
\<close>

theorem missing_column_is_not_harmonized:
  "concat_part fmt set_order
     [Column ''X'' Int64 [PInt 1], Column ''Y'' Int64 [PInt 2]] [Column ''Y'' Int64 [PInt 3]]
     = Inl ShapeError
   \<and> combine_parts fmt set_order None
       [Some [Column ''X'' Int64 [PInt 1], Column ''Y'' Int64 [PInt 2]],
        Some [Column ''Y'' Int64 [PInt 3]]]
     = Inl ShapeError
   \<and> foldl (harmonize_column fmt)
       ([Column ''X'' Int64 [PInt 1], Column ''Y'' Int64 [PInt 2]], [Column ''Y'' Int64 [PInt 3]])
       [''X'', ''Y'']
     = ([Column ''X'' Int64 [PInt 1], Column ''Y'' Int64 [PInt 2]],
        [Column ''Y'' Int64 [PInt 3], Column ''X'' NullType [PNone]])
   \<and> concat_vertical [Column ''X'' Int64 [PInt 1], Column ''Y'' Int64 [PInt 2]]
       [Column ''Y'' Int64 [PInt 3], Column ''X'' NullType [PNone]]
     = Inl ShapeError
   \<and> concat_part fmt (\<lambda>names. names)
       [Column ''Y'' Int64 [PInt 2]] [Column ''Y'' Utf8 [PStr ''a'']]
     = Inr [Column ''Y'' Utf8 [PStr ''2'', PStr ''a'']]"
proof -
  have s2: "str_int 2 = ''2''" by code_simp
  have 1: "concat_part fmt set_order
     [Column ''X'' Int64 [PInt 1], Column ''Y'' Int64 [PInt 2]] [Column ''Y'' Int64 [PInt 3]]
     = Inl ShapeError"
    by (simp add: concat_part_def concat_vertical_def)
  then have 2: "combine_parts fmt set_order None
       [Some [Column ''X'' Int64 [PInt 1], Column ''Y'' Int64 [PInt 2]],
        Some [Column ''Y'' Int64 [PInt 3]]]
     = Inl ShapeError"
    by simp
  have 3: "foldl (harmonize_column fmt)
       ([Column ''X'' Int64 [PInt 1], Column ''Y'' Int64 [PInt 2]], [Column ''Y'' Int64 [PInt 3]])
       [''X'', ''Y'']
     = ([Column ''X'' Int64 [PInt 1], Column ''Y'' Int64 [PInt 2]],
        [Column ''Y'' Int64 [PInt 3], Column ''X'' NullType [PNone]])"
    by (simp add: harmonize_column_def get_column_def with_column_def pl_columns_def height_def)
  have 4: "concat_vertical [Column ''X'' Int64 [PInt 1], Column ''Y'' Int64 [PInt 2]]
       [Column ''Y'' Int64 [PInt 3], Column ''X'' NullType [PNone]]
     = Inl ShapeError"
    by (simp add: concat_vertical_def)
  have 5: "concat_part fmt (\<lambda>names. names)
       [Column ''Y'' Int64 [PInt 2]] [Column ''Y'' Utf8 [PStr ''a'']]
     = Inr [Column ''Y'' Utf8 [PStr ''2'', PStr ''a'']]"
    by (simp add: concat_part_def concat_vertical_def append_ok_def harmonize_column_def
        get_column_def with_column_def pl_columns_def cast_utf8_def s2)
  from 1 2 3 4 5 show ?thesis by (intro conjI)
qed

subsection \<open>Parts whose column names differ, in general\<close>

lemma vstack_names: "vstack a b = Inr t \<Longrightarrow> pl_columns a = pl_columns b"
  by (induction a b arbitrary: t rule: vstack.induct)
    (auto simp: pl_columns_def split: if_splits sum.splits)

lemma vstack_errors: "vstack a b = Inl e \<Longrightarrow> e = ShapeError \<or> e = SchemaError"
  by (induction a b rule: vstack.induct) (auto split: if_splits sum.splits)

lemma prefix_with_column: "prefix (pl_columns df) (pl_columns (with_column df col))"
  by (simp add: pl_columns_with_column)

lemma prefix_harmonize_column:
  "prefix (pl_columns (fst frames)) (pl_columns (fst (harmonize_column fmt frames col)))
   \<and> prefix (pl_columns (snd frames)) (pl_columns (snd (harmonize_column fmt frames col)))"
  by (cases frames)
    (auto simp: harmonize_column_def prefix_with_column split: option.splits)

lemma prefix_harmonize:
  "prefix (pl_columns (fst frames)) (pl_columns (fst (foldl (harmonize_column fmt) frames cols)))
   \<and> prefix (pl_columns (snd frames)) (pl_columns (snd (foldl (harmonize_column fmt) frames cols)))"
proof (induction cols arbitrary: frames)
  case Nil
  then show ?case by simp
next
  case (Cons col cols)
  define h where "h = harmonize_column fmt frames col"
  have s: "prefix (pl_columns (fst frames)) (pl_columns (fst h))"
    "prefix (pl_columns (snd frames)) (pl_columns (snd h))"
    using prefix_harmonize_column [of frames fmt col] by (simp_all add: h_def)
  have r: "prefix (pl_columns (fst h)) (pl_columns (fst (foldl (harmonize_column fmt) h cols)))"
    "prefix (pl_columns (snd h)) (pl_columns (snd (foldl (harmonize_column fmt) h cols)))"
    using Cons.IH [of h] by simp_all
  have "prefix (pl_columns (fst frames)) (pl_columns (fst (foldl (harmonize_column fmt) h cols)))"
    using s(1) r(1) by (rule prefix_order.trans)
  moreover
  have "prefix (pl_columns (snd frames)) (pl_columns (snd (foldl (harmonize_column fmt) h cols)))"
    using s(2) r(2) by (rule prefix_order.trans)
  ultimately show ?case
    by (simp add: h_def)
qed

lemma prefix_same_length:
  assumes "prefix xs xs'" "prefix ys ys'" "xs' = ys'" "length xs = length ys"
  shows "xs = ys"
  using assms by (auto simp: prefix_def)

text \<open>Two parts whose lists of column names differ are never combined: either the first
  attempt raises \<open>ShapeError\<close>, which nothing catches, or the retry fails and the accumulated
  table, as harmonized, is kept without the rows of the new part.\<close>

lemma different_columns_are_never_combined:
  assumes "pl_columns combined_df \<noteq> pl_columns df" "combined_df \<noteq> []"
  shows "concat_part fmt set_order combined_df df = Inl ShapeError
     \<or> concat_part fmt set_order combined_df df
        = Inr (fst (foldl (harmonize_column fmt) (combined_df, df)
                      (set_order (remdups (pl_columns combined_df @ pl_columns df)))))"
proof (cases "length combined_df = length df")
  case False
  with assms(2) show ?thesis
    by (simp add: concat_part_def concat_vertical_def)
next
  case True
  define hz where "hz = foldl (harmonize_column fmt) (combined_df, df)
                      (set_order (remdups (pl_columns combined_df @ pl_columns df)))"
  have first: "concat_vertical combined_df df = vstack combined_df df"
    using True by (simp add: concat_vertical_def)
  have retry: "concat_vertical (fst hz) (snd hz) \<noteq> Inr t" for t
  proof
    assume r: "concat_vertical (fst hz) (snd hz) = Inr t"
    have p: "prefix (pl_columns combined_df) (pl_columns (fst hz))"
      "prefix (pl_columns df) (pl_columns (snd hz))"
      using prefix_harmonize [of "(combined_df, df)" fmt] by (simp_all add: hz_def)
    from p(1) assms(2) have "fst hz \<noteq> []"
      by (auto simp: pl_columns_def)
    with r have "vstack (fst hz) (snd hz) = Inr t"
      by (simp add: concat_vertical_def split: if_splits)
    then have "pl_columns (fst hz) = pl_columns (snd hz)"
      by (rule vstack_names)
    moreover have "length (pl_columns combined_df) = length (pl_columns df)"
      using True by (simp add: pl_columns_def)
    ultimately have "pl_columns combined_df = pl_columns df"
      using p(1) p(2) by (rule prefix_same_length [rotated 2])
    with assms(1) show False by (rule notE)
  qed
  show ?thesis
  proof (cases "vstack combined_df df")
    case (Inr t)
    then have "pl_columns combined_df = pl_columns df"
      by (rule vstack_names)
    with assms(1) show ?thesis by simp
  next
    case (Inl e)
    then consider "e = ShapeError" | "e = SchemaError"
      using vstack_errors by blast
    then show ?thesis
    proof cases
      case 1
      with Inl show ?thesis
        by (simp add: concat_part_def first)
    next
      case 2
      have cp: "concat_part fmt set_order combined_df df
          = (case concat_vertical (fst hz) (snd hz) of Inr t \<Rightarrow> Inr t
             | Inl e2 \<Rightarrow> Inr (fst hz))"
        using Inl 2 unfolding concat_part_def first hz_def
        by (auto split: prod.splits sum.splits)
      show ?thesis
      proof (cases "concat_vertical (fst hz) (snd hz)")
        case (Inl e2)
        with cp have "concat_part fmt set_order combined_df df = Inr (fst hz)"
          by simp
        then show ?thesis
          unfolding hz_def by (rule disjI2)
      next
        case (Inr t)
        with retry [of t] show ?thesis
          by (rule notE)
      qed
    qed
  qed
qed

end
